theory Spec2Isabelle
  imports Main
begin

section \<open>Degree-plan store: data model\<close>

text \<open>
  The store of the degree planner keeps a list of semester plans, an error message and
  the student's information. Strings are strings of ASCII characters; a character beyond
  ASCII is taken as one that is neither white space nor a letter.

  A JavaScript number is a double. The numbers of the store are the results of
  \<open>parseInt\<close> and their sums and differences: whole numbers, the two infinities and
  \<open>NaN\<close>. \<open>Num i\<close> is the double whose value is the integer \<open>i\<close>; the negative zero is
  not told from zero, as addition, subtraction and comparison do not tell them apart.
  An exact integer result is rounded to the nearest double, a tie to the one with the even
  significand, and to an infinity when the rounded magnitude has more than 1024 binary
  digits (\<open>toNumber\<close>); up to \<open>2^53\<close> in magnitude every integer is a double.

  The years of the user information are whole numbers; the model of \<open>resetPlan\<close> is
  the program for years of magnitude below \<open>2^53\<close>, where the increments of the loop
  are exact and a year in a template string is its decimal expansion.
\<close>

datatype jsnum = Num int | Infinity | NegInfinity | NaN

text \<open>The number of binary digits of a positive integer.\<close>

function bitLength :: "int \<Rightarrow> nat" where
  "bitLength m = (if m \<le> 0 then 0 else Suc (bitLength (m div 2)))"
  by pat_completeness auto

termination bitLength
  by (relation "measure nat") simp_all

declare bitLength.simps [simp del]

text \<open>The multiple of \<open>ulp\<close> nearest to \<open>m\<close>; of two nearest ones the even multiple.\<close>

definition roundToEven :: "int \<Rightarrow> int \<Rightarrow> int" where
  "roundToEven m ulp =
     (let q = m div ulp; r = m mod ulp
      in if 2 * r < ulp \<or> (2 * r = ulp \<and> q mod 2 = 0) then q * ulp else (q + 1) * ulp)"

text \<open>A significand has 53 binary digits: a longer magnitude loses its last digits.\<close>

definition roundMagnitude :: "int \<Rightarrow> int" where
  "roundMagnitude m =
     (if bitLength m \<le> 53 then m else roundToEven m (2 ^ (bitLength m - 53)))"

definition toNumber :: "int \<Rightarrow> jsnum" where
  "toNumber i =
     (if \<bar>i\<bar> \<le> 9007199254740992 then Num i
      else if 1024 < bitLength (roundMagnitude \<bar>i\<bar>)
      then (if i < 0 then NegInfinity else Infinity)
      else Num (if i < 0 then - roundMagnitude \<bar>i\<bar> else roundMagnitude \<bar>i\<bar>))"

text \<open>\<open>a + b\<close> and \<open>a - b\<close> on numbers.\<close>

fun js_add :: "jsnum \<Rightarrow> jsnum \<Rightarrow> jsnum" where
  "js_add (Num a) (Num b) = toNumber (a + b)"
| "js_add NaN _ = NaN"
| "js_add _ NaN = NaN"
| "js_add Infinity NegInfinity = NaN"
| "js_add NegInfinity Infinity = NaN"
| "js_add Infinity _ = Infinity"
| "js_add _ Infinity = Infinity"
| "js_add NegInfinity _ = NegInfinity"
| "js_add _ NegInfinity = NegInfinity"

fun js_sub :: "jsnum \<Rightarrow> jsnum \<Rightarrow> jsnum" where
  "js_sub (Num a) (Num b) = toNumber (a - b)"
| "js_sub NaN _ = NaN"
| "js_sub _ NaN = NaN"
| "js_sub Infinity Infinity = NaN"
| "js_sub NegInfinity NegInfinity = NaN"
| "js_sub Infinity _ = Infinity"
| "js_sub _ NegInfinity = Infinity"
| "js_sub NegInfinity _ = NegInfinity"
| "js_sub _ Infinity = NegInfinity"

text \<open>\<open>a > b\<close> on numbers: every comparison with \<open>NaN\<close> is false.\<close>

fun js_gt :: "jsnum \<Rightarrow> jsnum \<Rightarrow> bool" where
  "js_gt (Num a) (Num b) = (b < a)"
| "js_gt NaN _ = False"
| "js_gt _ NaN = False"
| "js_gt _ Infinity = False"
| "js_gt NegInfinity _ = False"
| "js_gt Infinity _ = True"
| "js_gt _ NegInfinity = True"

text \<open>\<open>a < b\<close> and \<open>a <= b\<close> on numbers.\<close>

fun js_lt :: "jsnum \<Rightarrow> jsnum \<Rightarrow> bool" where
  "js_lt (Num a) (Num b) = (a < b)"
| "js_lt NaN _ = False"
| "js_lt _ NaN = False"
| "js_lt Infinity _ = False"
| "js_lt _ NegInfinity = False"
| "js_lt _ Infinity = True"
| "js_lt NegInfinity _ = True"

fun js_le :: "jsnum \<Rightarrow> jsnum \<Rightarrow> bool" where
  "js_le (Num a) (Num b) = (a \<le> b)"
| "js_le NaN _ = False"
| "js_le _ NaN = False"
| "js_le _ Infinity = True"
| "js_le NegInfinity _ = True"
| "js_le Infinity _ = False"
| "js_le _ NegInfinity = False"

record Prerequisite =
  type :: string
  "value" :: string

record Course =
  course_code :: string
  course_name :: string
  credits :: string
  prerequisites :: "Prerequisite list list"
  corequisites :: "string list"
  sections :: "(string \<times> string) list"

datatype SemesterType = regular | summer

text \<open>
  The fields \<open>type\<close> and \<open>credits\<close> of a semester plan are named \<open>stype\<close> and
  \<open>total\<close> here, since a course and a prerequisite have fields of the same names.
\<close>

record SemesterPlan =
  semester :: string
  stype :: SemesterType
  courses :: "Course list"
  total :: jsnum

record UserInfo =
  name :: string
  studentId :: string
  major :: string
  startSemester :: string
  startYear :: int
  endSemester :: string
  endYear :: int
  totalCreditsToGraduate :: int

record DegreePlanState =
  courseData :: "Course list option"
  semesterPlans :: "SemesterPlan list"
  error :: "string option"
  userInfo :: "UserInfo option"

definition REGULAR_SEMESTER_CREDIT_LIMIT :: int where
  "REGULAR_SEMESTER_CREDIT_LIMIT = 22"

definition SUMMER_SEMESTER_CREDIT_LIMIT :: int where
  "SUMMER_SEMESTER_CREDIT_LIMIT = 10"

text \<open>The store as \<open>create\<close> builds it: no course data, no plans, no error, no user.\<close>

definition initialState :: DegreePlanState where
  "initialState = \<lparr>courseData = None, semesterPlans = [], error = None, userInfo = None\<rparr>"

section \<open>Strings and numbers of the runtime\<close>

text \<open>White space of \<open>\s\<close> and of \<open>parseInt\<close> among the ASCII characters: tab, line
  feed, vertical tab, form feed, carriage return and space.\<close>

definition isWhiteSpace :: "char \<Rightarrow> bool" where
  "isWhiteSpace c = (c \<in> set [CHR 0x09, CHR 0x0A, CHR 0x0B, CHR 0x0C, CHR 0x0D, CHR '' ''])"

definition toUpperChar :: "char \<Rightarrow> char" where
  "toUpperChar c =
     (case map_of (zip ''abcdefghijklmnopqrstuvwxyz'' ''ABCDEFGHIJKLMNOPQRSTUVWXYZ'') c of
        Some u \<Rightarrow> u
      | None \<Rightarrow> c)"

definition toUpperCase :: "string \<Rightarrow> string" where
  "toUpperCase s = map toUpperChar s"

text \<open>
  \<^verbatim>\<open>if (!code) return ''; return code.replace(/[\s-]+/g, '').toUpperCase();\<close>
  The empty string is the only falsy string, and it is returned as it is.
\<close>

definition normalizeCourseCode :: "string \<Rightarrow> string" where
  "normalizeCourseCode code =
     (if code = [] then []
      else toUpperCase (filter (\<lambda>c. \<not> (isWhiteSpace c \<or> c = CHR ''-'')) code))"

text \<open>The value of a digit of radix 10 or 16, if the character is one.\<close>

definition digitValue :: "nat \<Rightarrow> char \<Rightarrow> nat option" where
  "digitValue radix c =
     (case map_of (zip ''0123456789abcdef'' [0 ..< 16]) c of
        Some d \<Rightarrow> if d < radix then Some d else None
      | None \<Rightarrow>
          (case map_of (zip ''ABCDEF'' [10 ..< 16]) c of
             Some d \<Rightarrow> if d < radix then Some d else None
           | None \<Rightarrow> None))"

definition radixValue :: "nat \<Rightarrow> string \<Rightarrow> int" where
  "radixValue radix z =
     foldl (\<lambda>acc c. acc * int radix +
                     (case digitValue radix c of Some d \<Rightarrow> int d | None \<Rightarrow> 0)) 0 z"

text \<open>
  \<open>parseInt\<close> with no radix: leading white space is dropped, then a sign, then the prefix
  \<open>0x\<close> or \<open>0X\<close> selects radix 16, then the longest run of digits is read; with no
  digit the result is \<open>NaN\<close>, and otherwise the double nearest to the integer that
  the digits write.
\<close>

definition parseInt :: "string \<Rightarrow> jsnum" where
  "parseInt inputString =
     (let s = dropWhile isWhiteSpace inputString;
          sign = (if take 1 s = ''-'' then - 1 else 1 :: int);
          s1 = (if take 1 s = ''+'' \<or> take 1 s = ''-'' then drop 1 s else s);
          hex = (take 2 s1 = ''0x'' \<or> take 2 s1 = ''0X'');
          radix = (if hex then 16 else 10 :: nat);
          s2 = (if hex then drop 2 s1 else s1);
          z = takeWhile (\<lambda>c. digitValue radix c \<noteq> None) s2
      in if z = [] then NaN else toNumber (sign * radixValue radix z))"

text \<open>A number in a template string, for integers: decimal digits after a minus sign.\<close>

fun digits :: "nat \<Rightarrow> string" where
  "digits n =
     (if n < 10 then [''0123456789'' ! n]
      else digits (n div 10) @ [''0123456789'' ! (n mod 10)])"

declare digits.simps [simp del]

definition numberToString :: "int \<Rightarrow> string" where
  "numberToString i = (if i < 0 then ''-'' @ digits (nat (- i)) else digits (nat i))"

section \<open>resetPlan\<close>

definition semesterOrder :: "string list" where
  "semesterOrder = [''Fall'', ''Spring'', ''Summer'']"

text \<open>\<open>Array.prototype.indexOf\<close>: the first position of the element, or \<open>-1\<close>.\<close>

fun indexOf :: "'a list \<Rightarrow> 'a \<Rightarrow> int" where
  "indexOf [] x = - 1"
| "indexOf (y # ys) x =
     (if y = x then 0 else (let i = indexOf ys x in if i = - 1 then - 1 else i + 1))"

definition emptySemester :: "string \<Rightarrow> SemesterType \<Rightarrow> SemesterPlan" where
  "emptySemester s t = \<lparr>semester = s, stype = t, courses = [], total = Num 0\<rparr>"

definition defaultPlans :: "SemesterPlan list" where
  "defaultPlans =
     [emptySemester ''Fall 2024'' regular, emptySemester ''Spring 2025'' regular,
      emptySemester ''Summer 2025'' summer,
      emptySemester ''Fall 2025'' regular, emptySemester ''Spring 2026'' regular,
      emptySemester ''Summer 2026'' summer,
      emptySemester ''Fall 2026'' regular, emptySemester ''Spring 2027'' regular,
      emptySemester ''Summer 2027'' summer,
      emptySemester ''Fall 2027'' regular, emptySemester ''Spring 2028'' regular,
      emptySemester ''Summer 2028'' summer]"

definition invalidStartPlans :: "SemesterPlan list" where
  "invalidStartPlans =
     [emptySemester ''Fall 2024'' regular, emptySemester ''Spring 2025'' regular,
      emptySemester ''Summer 2025'' summer]"

text \<open>
  The \<open>while\<close> loop of \<open>resetPlan\<close>, one semester for each round. The loop state is the
  current year and the current term; the year goes up when the term wraps to Fall.
\<close>

function generateSemesters :: "int \<Rightarrow> string \<Rightarrow> int \<Rightarrow> string \<Rightarrow> SemesterPlan list" where
  "generateSemesters currentYear currentSemester lastYear lastSemester =
     (if currentYear < lastYear \<or>
         (currentYear = lastYear \<and>
          indexOf semesterOrder currentSemester \<le> indexOf semesterOrder lastSemester)
      then
        (let displayYear = (if currentSemester = ''Fall'' then currentYear else currentYear + 1);
             plan = emptySemester (currentSemester @ '' '' @ numberToString displayYear)
                      (if currentSemester = ''Summer'' then summer else regular);
             nextSemesterIndex = (indexOf semesterOrder currentSemester + 1) mod 3
         in plan # generateSemesters
                     (if nextSemesterIndex = 0 then currentYear + 1 else currentYear)
                     (semesterOrder ! nat nextSemesterIndex) lastYear lastSemester)
      else [])"
  by pat_completeness auto

lemma indexOf_semesterOrder_cases:
  "indexOf semesterOrder s = (if s = ''Fall'' then 0 else if s = ''Spring'' then 1
                              else if s = ''Summer'' then 2 else - 1)"
  by (simp add: semesterOrder_def)

termination generateSemesters
proof (relation "measure (\<lambda>(y, s, ey, es). nat (3 * (ey - y) + 3 - indexOf semesterOrder s))")
  show "wf (measure (\<lambda>(y, s, ey, es). nat (3 * (ey - y) + 3 - indexOf semesterOrder s)))"
    by simp
next
  fix currentYear :: int and currentSemester :: string and lastYear :: int
    and lastSemester :: string and x xa xb
  assume run: "currentYear < lastYear \<or>
         (currentYear = lastYear \<and>
          indexOf semesterOrder currentSemester \<le> indexOf semesterOrder lastSemester)"
    and nxt: "xb = (indexOf semesterOrder currentSemester + 1) mod 3"
  have le: "indexOf semesterOrder lastSemester \<le> 2"
    by (simp add: indexOf_semesterOrder_cases)
  define i where "i = indexOf semesterOrder currentSemester"
  have idx: "i = - 1 \<or> i = 0 \<or> i = 1 \<or> i = 2"
    unfolding i_def by (simp add: indexOf_semesterOrder_cases)
  have nth: "indexOf semesterOrder (semesterOrder ! nat 0) = 0"
    "indexOf semesterOrder (semesterOrder ! nat 1) = 1"
    "indexOf semesterOrder (semesterOrder ! nat 2) = 2"
    by (simp_all add: semesterOrder_def)
  have ord: "currentYear < lastYear \<or> (currentYear = lastYear \<and> i \<le> 2)"
    using run le unfolding i_def by linarith
  have xb: "xb = (i + 1) mod 3"
    using nxt unfolding i_def by simp
  have "nat (3 * (lastYear - (if xb = 0 then currentYear + 1 else currentYear)) + 3
             - indexOf semesterOrder (semesterOrder ! nat xb))
        < nat (3 * (lastYear - currentYear) + 3 - i)"
    using idx
  proof (elim disjE)
    assume "i = - 1"
    with ord xb nth show ?thesis by (simp; linarith)
  next
    assume "i = 0"
    with ord xb nth show ?thesis by (simp; linarith)
  next
    assume "i = 1"
    with ord xb nth show ?thesis by (simp; linarith)
  next
    assume "i = 2"
    with ord xb nth show ?thesis by (simp; linarith)
  qed
  then show "(((if xb = 0 then currentYear + 1 else currentYear),
          semesterOrder ! nat xb, lastYear, lastSemester),
         currentYear, currentSemester, lastYear, lastSemester)
        \<in> measure (\<lambda>(y, s, ey, es). nat (3 * (ey - y) + 3 - indexOf semesterOrder s))"
    unfolding i_def by simp
qed

declare generateSemesters.simps [simp del]

text \<open>
  \<open>resetPlan\<close>: without user information the twelve default semesters; with a start term
  that \<open>semesterOrder\<close> does not hold, the three semesters of the branch commented
  "Invalid semester, use default"; otherwise the semesters from the start to the end.
  The error is set to \<open>null\<close> in every branch.
\<close>

definition resetPlan :: "DegreePlanState \<Rightarrow> DegreePlanState" where
  "resetPlan st =
     (case userInfo st of
        None \<Rightarrow> st\<lparr>semesterPlans := defaultPlans, error := None\<rparr>
      | Some info \<Rightarrow>
          if indexOf semesterOrder (startSemester info) = - 1
          then st\<lparr>semesterPlans := invalidStartPlans, error := None\<rparr>
          else st\<lparr>semesterPlans :=
                      generateSemesters (startYear info) (startSemester info)
                        (endYear info) (endSemester info),
                    error := None\<rparr>)"

definition setUserInfo :: "UserInfo \<Rightarrow> DegreePlanState \<Rightarrow> DegreePlanState" where
  "setUserInfo info st = st\<lparr>userInfo := Some info\<rparr>"

definition setCourseData :: "Course list \<Rightarrow> DegreePlanState \<Rightarrow> DegreePlanState" where
  "setCourseData data st = st\<lparr>courseData := Some data\<rparr>"

section \<open>addCourse\<close>

text \<open>
  The loop that collects the courses of the previous semesters: it stops at the first
  plan whose name is the target's, and pushes the courses of every plan before it.
\<close>

fun previousSemesters :: "SemesterPlan list \<Rightarrow> string \<Rightarrow> Course list" where
  "previousSemesters [] sem = []"
| "previousSemesters (plan # plans) sem =
     (if semester plan = sem then [] else courses plan @ previousSemesters plans sem)"

text \<open>The special case of CSC 2302: some previous course normalizes to CSC1401.\<close>

definition hasCSC1401 :: "Course list \<Rightarrow> bool" where
  "hasCSC1401 previous =
     list_ex (\<lambda>c. normalizeCourseCode (course_code c) = normalizeCourseCode ''CSC1401'') previous"

text \<open>
  Every group is satisfied: an empty group is, and another one when some alternative of
  it normalizes to the normalized code of a previous course.
\<close>

definition prerequisitesSatisfied :: "Prerequisite list list \<Rightarrow> Course list \<Rightarrow> bool" where
  "prerequisitesSatisfied groups previous =
     list_all (\<lambda>group.
        if length group = 0 then True
        else list_ex (\<lambda>prereq.
               list_ex (\<lambda>c. normalizeCourseCode (course_code c) =
                             normalizeCourseCode (value prereq)) previous) group) groups"

text \<open>The \<open>map\<close> that adds the course: every plan of that name gets it.\<close>

definition addToSemester :: "string \<Rightarrow> Course \<Rightarrow> SemesterPlan list \<Rightarrow> SemesterPlan list" where
  "addToSemester sem course plans =
     map (\<lambda>plan.
        if semester plan = sem
        then plan\<lparr>courses := courses plan @ [course],
                  total := js_add (total plan) (parseInt (credits course))\<rparr>
        else plan) plans"

definition addCourse :: "string \<Rightarrow> Course \<Rightarrow> DegreePlanState \<Rightarrow> DegreePlanState" where
  "addCourse sem course st =
     (let plans = semesterPlans st in
      case find (\<lambda>plan. semester plan = sem) plans of
        None \<Rightarrow> st
      | Some semesterPlan \<Rightarrow>
          if list_ex (\<lambda>c. course_code c = course_code course) (courses semesterPlan)
          then st\<lparr>error := Some (course_code course @ '' is already in '' @ sem)\<rparr>
          else if list_ex (\<lambda>plan. semester plan \<noteq> sem \<and>
                     list_ex (\<lambda>c. course_code c = course_code course) (courses plan)) plans
          then st\<lparr>error := Some (course_code course @ '' is already in another semester'')\<rparr>
          else
            let creditLimit = (if stype semesterPlan = summer then 10 else 22 :: int);
                newCredits = js_add (total semesterPlan) (parseInt (credits course))
            in
              if js_gt newCredits (Num creditLimit)
              then st\<lparr>error := Some (''Adding '' @ course_code course @
                                       '' would exceed the credit limit for '' @ sem)\<rparr>
              else if length (prerequisites course) > 0
              then
                let previous = previousSemesters plans sem in
                  if course_code course = ''CSC 2302'' \<and> hasCSC1401 previous
                  then st\<lparr>semesterPlans := addToSemester sem course plans, error := None\<rparr>
                  else if \<not> prerequisitesSatisfied (prerequisites course) previous
                  then st\<lparr>error := Some (''Prerequisites for '' @ course_code course @
                                           '' are not satisfied'')\<rparr>
                  else st\<lparr>semesterPlans := addToSemester sem course plans, error := None\<rparr>
              else st\<lparr>semesterPlans := addToSemester sem course plans, error := None\<rparr>)"

section \<open>removeCourse\<close>

text \<open>\<open>Array.prototype.findIndex\<close>, with \<open>None\<close> for \<open>-1\<close>.\<close>

fun findIndex :: "('a \<Rightarrow> bool) \<Rightarrow> 'a list \<Rightarrow> nat option" where
  "findIndex P [] = None"
| "findIndex P (x # xs) =
     (if P x then Some 0 else (case findIndex P xs of None \<Rightarrow> None | Some i \<Rightarrow> Some (Suc i)))"

text \<open>
  The inner loop over the courses of a later semester: the first course with
  prerequisites, one of whose groups holds a prerequisite whose value is the code.
\<close>

fun dependentInCourses :: "Course list \<Rightarrow> string \<Rightarrow> string option" where
  "dependentInCourses [] courseCode = None"
| "dependentInCourses (c # cs) courseCode =
     (if length (prerequisites c) = 0 then dependentInCourses cs courseCode
      else if list_ex (\<lambda>group. list_ex (\<lambda>prereq. value prereq = courseCode) group)
                (prerequisites c)
      then Some (course_code c)
      else dependentInCourses cs courseCode)"

text \<open>The outer loop over the later semesters; it stops at the first dependent course.\<close>

fun dependentInSemesters :: "SemesterPlan list \<Rightarrow> string \<Rightarrow> string option" where
  "dependentInSemesters [] courseCode = None"
| "dependentInSemesters (plan # plans) courseCode =
     (case dependentInCourses (courses plan) courseCode of
        Some d \<Rightarrow> Some d
      | None \<Rightarrow> dependentInSemesters plans courseCode)"

definition removeCourse :: "string \<Rightarrow> string \<Rightarrow> DegreePlanState \<Rightarrow> DegreePlanState" where
  "removeCourse sem courseCode st =
     (let plans = semesterPlans st in
      case findIndex (\<lambda>plan. semester plan = sem) plans of
        None \<Rightarrow> st
      | Some semesterIndex \<Rightarrow>
          (case findIndex (\<lambda>course. course_code course = courseCode)
                  (courses (plans ! semesterIndex)) of
             None \<Rightarrow> st
           | Some courseIndex \<Rightarrow>
               let course = courses (plans ! semesterIndex) ! courseIndex in
                 (case dependentInSemesters (drop (semesterIndex + 1) plans) courseCode of
                    Some dependentCourse \<Rightarrow>
                      st\<lparr>error := Some (''Cannot remove '' @ courseCode @
                          '' because it's a prerequisite for '' @ dependentCourse)\<rparr>
                  | None \<Rightarrow>
                      st\<lparr>semesterPlans := plans[semesterIndex :=
                            (plans ! semesterIndex)
                              \<lparr>courses := filter (\<lambda>c. course_code c \<noteq> courseCode)
                                            (courses (plans ! semesterIndex)),
                               total := js_sub (total (plans ! semesterIndex))
                                          (parseInt (credits course))\<rparr>],
                         error := None\<rparr>)))"

section \<open>The placement rules, as the specification words them\<close>

text \<open>
  The reasons for which a placement or a removal is refused, and the messages the store
  writes for them.
\<close>

datatype Reason =
  DuplicateInSemester | DuplicateElsewhere | CreditLimitExceeded | PrerequisitesUnmet

definition reasonMessage :: "Reason \<Rightarrow> string \<Rightarrow> Course \<Rightarrow> string" where
  "reasonMessage r sem course =
     (case r of
        DuplicateInSemester \<Rightarrow> course_code course @ '' is already in '' @ sem
      | DuplicateElsewhere \<Rightarrow> course_code course @ '' is already in another semester''
      | CreditLimitExceeded \<Rightarrow>
          ''Adding '' @ course_code course @ '' would exceed the credit limit for '' @ sem
      | PrerequisitesUnmet \<Rightarrow>
          ''Prerequisites for '' @ course_code course @ '' are not satisfied'')"

definition removalBlockedMessage :: "string \<Rightarrow> string \<Rightarrow> string" where
  "removalBlockedMessage courseCode dependentCourse =
     ''Cannot remove '' @ courseCode @ '' because it's a prerequisite for '' @ dependentCourse"

text \<open>A ledger maps semester names to placements: no name occurs twice.\<close>

definition ledger :: "SemesterPlan list \<Rightarrow> bool" where
  "ledger plans = distinct (map semester plans)"

definition creditCap :: "SemesterType \<Rightarrow> int" where
  "creditCap t =
     (case t of regular \<Rightarrow> REGULAR_SEMESTER_CREDIT_LIMIT
      | summer \<Rightarrow> SUMMER_SEMESTER_CREDIT_LIMIT)"

definition duplicateInSemester :: "Course \<Rightarrow> SemesterPlan \<Rightarrow> bool" where
  "duplicateInSemester course target =
     (course_code course \<in> course_code ` set (courses target))"

definition duplicateElsewhere :: "Course \<Rightarrow> SemesterPlan \<Rightarrow> SemesterPlan list \<Rightarrow> bool" where
  "duplicateElsewhere course target plans =
     (\<exists>p \<in> set plans. semester p \<noteq> semester target \<and>
                        course_code course \<in> course_code ` set (courses p))"

definition creditLimitExceeded :: "Course \<Rightarrow> SemesterPlan \<Rightarrow> bool" where
  "creditLimitExceeded course target =
     js_gt (js_add (total target) (parseInt (credits course))) (Num (creditCap (stype target)))"

text \<open>The courses placed in the semesters that come strictly before the target.\<close>

definition availableCourses :: "SemesterPlan list \<Rightarrow> SemesterPlan \<Rightarrow> Course list" where
  "availableCourses plans target =
     concat (map courses (takeWhile (\<lambda>p. semester p \<noteq> semester target) plans))"

text \<open>
  The prerequisite rule of the store: a course with prerequisites is refused when they are
  not satisfied by the available courses, except CSC 2302 once CSC 1401 is available.
\<close>

definition prerequisitesUnmet :: "Course \<Rightarrow> SemesterPlan \<Rightarrow> SemesterPlan list \<Rightarrow> bool" where
  "prerequisitesUnmet course target plans =
     (prerequisites course \<noteq> [] \<and>
      \<not> (course_code course = ''CSC 2302'' \<and> hasCSC1401 (availableCourses plans target)) \<and>
      \<not> prerequisitesSatisfied (prerequisites course) (availableCourses plans target))"

text \<open>\<open>canPlace\<close>: the four rules in their order; the first one that fails is the reason.\<close>

definition canPlace :: "Course \<Rightarrow> SemesterPlan \<Rightarrow> SemesterPlan list \<Rightarrow> Reason option" where
  "canPlace course target plans =
     (if duplicateInSemester course target then Some DuplicateInSemester
      else if duplicateElsewhere course target plans then Some DuplicateElsewhere
      else if creditLimitExceeded course target then Some CreditLimitExceeded
      else if prerequisitesUnmet course target plans then Some PrerequisitesUnmet
      else None)"

text \<open>The placement itself: the course at the end of the list, its credits on the total.\<close>

definition place :: "Course \<Rightarrow> SemesterPlan \<Rightarrow> SemesterPlan" where
  "place course target =
     target\<lparr>courses := courses target @ [course],
            total := js_add (total target) (parseInt (credits course))\<rparr>"

text \<open>A course lists a code when one of its prerequisite groups holds it.\<close>

definition listsPrerequisite :: "Course \<Rightarrow> string \<Rightarrow> bool" where
  "listsPrerequisite d courseCode =
     (\<exists>g \<in> set (prerequisites d). \<exists>p \<in> set g. value p = courseCode)"

text \<open>
  The courses of the semesters after position \<open>i\<close>, in the order of the scan of
  \<open>removeCourse\<close>.
\<close>

definition laterCourses :: "SemesterPlan list \<Rightarrow> nat \<Rightarrow> Course list" where
  "laterCourses plans i = concat (map courses (drop (Suc i) plans))"

text \<open>A course requires a code when a prerequisite of one of its groups normalizes to it.\<close>

definition requiresCode :: "Course \<Rightarrow> string \<Rightarrow> bool" where
  "requiresCode d courseCode =
     (\<exists>g \<in> set (prerequisites d). \<exists>p \<in> set g.
        normalizeCourseCode (value p) = normalizeCourseCode courseCode)"

text \<open>
  The prerequisites of the courses spell the code as the caller does: a prerequisite with
  the normal form of the code is the code itself.
\<close>

definition consistentSpelling :: "string \<Rightarrow> Course list \<Rightarrow> bool" where
  "consistentSpelling courseCode cs =
     (\<forall>d \<in> set cs. \<forall>g \<in> set (prerequisites d). \<forall>p \<in> set g.
        normalizeCourseCode (value p) = normalizeCourseCode courseCode \<longrightarrow>
        value p = courseCode)"

text \<open>
  The removal rule in the words of the specification: a later course blocks the removal
  when its prerequisites are not satisfied by the courses placed before it in the ledger
  without the candidate.
\<close>

definition spec_ledgerWithout :: "string \<Rightarrow> SemesterPlan list \<Rightarrow> SemesterPlan list" where
  "spec_ledgerWithout courseCode plans =
     map (\<lambda>p. p\<lparr>courses := filter (\<lambda>c. course_code c \<noteq> courseCode) (courses p)\<rparr>) plans"

definition spec_satisfiedWithout :: "SemesterPlan list \<Rightarrow> string \<Rightarrow> nat \<Rightarrow> Course \<Rightarrow> bool" where
  "spec_satisfiedWithout plans courseCode j d =
     prerequisitesSatisfied (prerequisites d)
       (concat (map courses (take j (spec_ledgerWithout courseCode plans))))"

definition spec_brokenByRemoval :: "SemesterPlan list \<Rightarrow> nat \<Rightarrow> string \<Rightarrow> Course list" where
  "spec_brokenByRemoval plans i courseCode =
     concat (map (\<lambda>j. filter (\<lambda>d. \<not> spec_satisfiedWithout plans courseCode j d)
                         (courses (plans ! j)))
               [Suc i ..< length plans])"

text \<open>
  The evaluator in the words of the specification: an expression is a list of groups of
  normalized codes, and every group that is not empty needs an alternative among the
  available normalized codes.
\<close>

definition spec_evaluate :: "string list list \<Rightarrow> string set \<Rightarrow> bool" where
  "spec_evaluate expr available =
     (\<forall>g \<in> set expr. g = [] \<or> (\<exists>a \<in> set g. a \<in> available))"

definition normalizedExpression :: "Prerequisite list list \<Rightarrow> string list list" where
  "normalizedExpression groups = map (map (\<lambda>p. normalizeCourseCode (value p))) groups"

definition normalizedCodes :: "Course list \<Rightarrow> string set" where
  "normalizedCodes cs = set (map (\<lambda>c. normalizeCourseCode (course_code c)) cs)"

text \<open>
  The semester that the loop of \<open>resetPlan\<close> pushes for a year and a term, and the
  position of a year and a term in the sequence of all terms.
\<close>

definition semesterNamed :: "int \<Rightarrow> string \<Rightarrow> SemesterPlan" where
  "semesterNamed y s =
     emptySemester (s @ '' '' @ numberToString (if s = ''Fall'' then y else y + 1))
       (if s = ''Summer'' then summer else regular)"

definition termKey :: "int \<Rightarrow> string \<Rightarrow> int" where
  "termKey y s = 3 * y + indexOf semesterOrder s"

text \<open>A ledger in which nothing is placed.\<close>

definition emptyLedger :: "SemesterPlan list \<Rightarrow> bool" where
  "emptyLedger plans =
     (ledger plans \<and> (\<forall>p \<in> set plans. courses p = [] \<and> total p = Num 0))"

section \<open>The invariants of the ledger\<close>

text \<open>The sum of the credits of a course list, as \<open>reduce\<close> would add them from 0.\<close>

definition creditSum :: "Course list \<Rightarrow> jsnum" where
  "creditSum cs = foldl (\<lambda>acc c. js_add acc (parseInt (credits c))) (Num 0) cs"

text \<open>No course code is in two different semesters.\<close>

definition uniqueCourses :: "SemesterPlan list \<Rightarrow> bool" where
  "uniqueCourses plans =
     (\<forall>i < length plans. \<forall>j < length plans. i \<noteq> j \<longrightarrow>
        course_code ` set (courses (plans ! i)) \<inter> course_code ` set (courses (plans ! j)) = {})"

text \<open>The stored total of every semester is the sum of the credits of its courses.\<close>

definition creditsConsistent :: "SemesterPlan list \<Rightarrow> bool" where
  "creditsConsistent plans = (\<forall>p \<in> set plans. total p = creditSum (courses p))"

text \<open>
  The credits of the course are a string that \<open>parseInt\<close> reads as a number that is
  not negative.
\<close>

definition nonNegativeCredits :: "Course \<Rightarrow> bool" where
  "nonNegativeCredits c = js_le (Num 0) (parseInt (credits c))"

text \<open>
  The years of the user information are safe integers (\<open>Number.isSafeInteger\<close>): whole
  numbers of magnitude below \<open>2^53\<close>.
\<close>

definition safeYears :: "UserInfo \<Rightarrow> bool" where
  "safeYears info =
     (\<bar>startYear info\<bar> < 9007199254740992 \<and> \<bar>endYear info\<bar> < 9007199254740992)"

definition creditValue :: "Course \<Rightarrow> int" where
  "creditValue c = (case parseInt (credits c) of Num n \<Rightarrow> n | _ \<Rightarrow> 0)"

text \<open>The credits of a placed course: a whole number that is not negative.\<close>

definition placedCredits :: "Course \<Rightarrow> bool" where
  "placedCredits c = (case parseInt (credits c) of Num n \<Rightarrow> 0 \<le> n | _ \<Rightarrow> False)"

definition allCodes :: "SemesterPlan list \<Rightarrow> string list" where
  "allCodes plans = concat (map (\<lambda>p. map course_code (courses p)) plans)"

text \<open>
  What the actions of the store keep: the semester names and all the placed codes are
  distinct, the credits of every placed course are a whole number that is not negative,
  and the total of every semester is the exact sum of them, which is at most 22.
\<close>

definition planInvariant :: "SemesterPlan list \<Rightarrow> bool" where
  "planInvariant plans =
     (ledger plans \<and> distinct (allCodes plans) \<and>
      (\<forall>p \<in> set plans.
         (\<forall>c \<in> set (courses p). placedCredits c) \<and>
         total p = Num (sum_list (map creditValue (courses p))) \<and>
         sum_list (map creditValue (courses p)) \<le> 22))"

text \<open>
  The states of the store: the initial one, and the ones the actions make of them, where
  \<open>setUserInfo\<close> is given years that are safe integers and \<open>addCourse\<close> is given
  courses whose credits are a number that is not negative.
\<close>

inductive reachable :: "DegreePlanState \<Rightarrow> bool" where
  initial: "reachable initialState"
| reset: "reachable st \<Longrightarrow> reachable (resetPlan st)"
| user: "reachable st \<Longrightarrow> safeYears info \<Longrightarrow> reachable (setUserInfo info st)"
| catalog: "reachable st \<Longrightarrow> reachable (setCourseData data st)"
| add: "reachable st \<Longrightarrow> nonNegativeCredits course \<Longrightarrow>
        reachable (addCourse sem course st)"
| remove: "reachable st \<Longrightarrow> reachable (removeCourse sem courseCode st)"

section \<open>The plan generator\<close>

text \<open>
  The generator reads courses as objects with a code, a name, a number of credits and a
  list of prerequisite codes; the general-education courses also carry a category and the
  flag \<open>required\<close>, and the generator adds \<open>isPlaceholder\<close> and \<open>type\<close> to
  them. A field that an object does not have is \<open>None\<close>. The fields are prefixed
  here (\<open>c_\<close> for a course, \<open>cat_\<close> for a category, \<open>r_\<close> for the requirements,
  \<open>o_\<close> for the options, \<open>p_\<close> for a generated semester, \<open>g_\<close> for the
  variables of the generator), since the records of the store use the same names.
  The credits are numbers as in the store, whole numbers, infinities or \<open>NaN\<close>. No category and
  no track is named like a member of \<open>Object.prototype\<close>, which a lookup in an
  object of the source would find.
\<close>

record GenCourse =
  c_code :: string
  c_name :: string
  c_credits :: jsnum
  c_prerequisites :: "string list"
  c_category :: "string option"
  c_required :: "bool option"
  c_isPlaceholder :: "bool option"
  c_type :: "string option"
  c_semester :: "jsnum option"

record CourseCategory =
  cat_code :: string
  cat_name :: string
  cat_credits :: jsnum
  cat_description :: string

record MajorRequirements =
  r_name :: string
  r_code :: string
  r_school :: string
  r_totalCredits :: jsnum
  r_courses :: "GenCourse list"

record DegreePlanOptions =
  o_includeSummer :: bool
  o_summerTerms :: int
  o_transferCredits :: "GenCourse list"
  o_specializations :: "string list"

record GeneratedSemester =
  p_semester :: int
  p_courses :: "GenCourse list"
  p_credits :: jsnum
  p_type :: SemesterType

definition generalEducationCourse ::
  "string \<Rightarrow> string \<Rightarrow> int \<Rightarrow> string list \<Rightarrow> string \<Rightarrow> bool \<Rightarrow> GenCourse" where
  "generalEducationCourse code nm cr prereqs category req =
     \<lparr>c_code = code, c_name = nm, c_credits = Num cr, c_prerequisites = prereqs,
      c_category = Some category, c_required = Some req, c_isPlaceholder = None,
      c_type = None, c_semester = None\<rparr>"

definition GENERAL_EDUCATION_COURSES :: "GenCourse list" where
  "GENERAL_EDUCATION_COURSES =
     [
      generalEducationCourse ''FYE 1101'' ''FYE Seminar I'' 1 [] ''Foundation'' True,
      generalEducationCourse ''FAS 0210'' ''Strategic Academic Skills'' 2 [] ''Foundation'' True,
      generalEducationCourse ''FYE 1102'' ''FYE Seminar II'' 1 [''FYE 1101''] ''Foundation'' True,
      generalEducationCourse ''FAS 1220'' ''Introduction to Critical Thinking'' 2 [] ''Foundation'' True,
      generalEducationCourse ''ENG 1301'' ''English Composition I'' 3 [] ''English'' True,
      generalEducationCourse ''ENG 2303'' ''Technical Writing'' 3 [''ENG 1301''] ''English'' True,
      generalEducationCourse ''ENG 2320'' ''Creative Writing'' 3 [''ENG 1301''] ''English'' False,
      generalEducationCourse ''COM 1301'' ''Public Speaking'' 3 [] ''Communication'' True,
      generalEducationCourse ''ARA 1201'' ''Arabic Language Course'' 2 [] ''Arabic'' False,
      generalEducationCourse ''ARA 1202'' ''Arabic Language Course'' 2 [] ''Arabic'' False,
      generalEducationCourse ''ARA 1203'' ''Arabic Language Course'' 2 [] ''Arabic'' False,
      generalEducationCourse ''ARA 3299'' ''Arabic Language Course'' 2 [] ''Arabic'' False,
      generalEducationCourse ''ARB 1201'' ''Arabic Language Course'' 2 [] ''Arabic'' False,
      generalEducationCourse ''ARB 1202'' ''Arabic Language Course'' 2 [] ''Arabic'' False,
      generalEducationCourse ''ARB 1203'' ''Arabic Language Course'' 2 [] ''Arabic'' False,
      generalEducationCourse ''ARB 1241'' ''Arabic Language Course'' 2 [] ''Arabic'' False,
      generalEducationCourse ''HUM 2305'' ''Humanities Course'' 3 [] ''Humanities'' False,
      generalEducationCourse ''HUM 2306'' ''Humanities Course'' 3 [] ''Humanities'' False,
      generalEducationCourse ''HUM 2307'' ''Humanities Course'' 3 [] ''Humanities'' False,
      generalEducationCourse ''LIT 2301'' ''Literature Course'' 3 [''ENG 1301''] ''Humanities'' False,
      generalEducationCourse ''PHI 2301'' ''Philosophy Course'' 3 [''ENG 1301''] ''Humanities'' False,
      generalEducationCourse ''PHI 2302'' ''Philosophy Course'' 3 [''ENG 1301''] ''Humanities'' False,
      generalEducationCourse ''HUM 2301'' ''Islamic Art & Architecture'' 3 [''FAS 1220''] ''Humanities'' False,
      generalEducationCourse ''FRN 3210'' ''French Language Course'' 2 [] ''French'' True,
      generalEducationCourse ''ART 1301'' ''Art Course'' 3 [''FYE 1101''] ''Art'' False,
      generalEducationCourse ''ART 1302'' ''Art Course'' 3 [''FYE 1101''] ''Art'' False,
      generalEducationCourse ''ART 1303'' ''Art Course'' 3 [''FYE 1101''] ''Art'' False,
      generalEducationCourse ''ART 1304'' ''Art Course'' 3 [''FYE 1101''] ''Art'' False,
      generalEducationCourse ''ART 1305'' ''Art Course'' 3 [''FYE 1101''] ''Art'' False,
      generalEducationCourse ''ART 3399'' ''Art Course'' 3 [''FYE 1101''] ''Art'' False,
      generalEducationCourse ''COM 2327'' ''Communication Arts'' 3 [''FYE 1101''] ''Art'' False,
      generalEducationCourse ''LIT 3370'' ''Literature & Arts'' 3 [''FYE 1101''] ''Art'' False,
      generalEducationCourse ''HIS 1301'' ''History Course'' 3 [] ''History'' False,
      generalEducationCourse ''HIS 2301'' ''History Course'' 3 [] ''History'' False,
      generalEducationCourse ''HUM 1310'' ''Humanities & History'' 3 [] ''History'' False,
      generalEducationCourse ''HUM 2302'' ''Humanities & History'' 3 [] ''History'' False,
      generalEducationCourse ''PSC 2301'' ''History/Political Science'' 3 [''ENG 1301''] ''History'' False,
      generalEducationCourse ''ECO 1300'' ''Economics Course'' 3 [] ''Social'' False,
      generalEducationCourse ''GEO 1301'' ''Geography Course'' 3 [] ''Social'' False,
      generalEducationCourse ''PSY 1301'' ''Psychology Course'' 3 [] ''Social'' False,
      generalEducationCourse ''SOC 1301'' ''Sociology Course'' 3 [] ''Social'' False,
      generalEducationCourse ''SSC 1310'' ''Social Science Course'' 3 [] ''Social'' False,
      generalEducationCourse ''SLP 1101'' ''Service Learning'' 3 [] ''Civic'' True
     ]"

text \<open>The categories, without their lists of options, which the generator does not read.\<close>

definition GE_CATEGORIES :: "CourseCategory list" where
  "GE_CATEGORIES =
     [
      \<lparr>cat_code = ''FYE_FAS'', cat_name = ''First Year & Foundation Courses'', cat_credits = Num 6, cat_description = ''Required foundation courses''\<rparr>,
      \<lparr>cat_code = ''ENGLISH'', cat_name = ''English Requirements'', cat_credits = Num 6, cat_description = ''Required English courses''\<rparr>,
      \<lparr>cat_code = ''ARABIC'', cat_name = ''Arabic Language Requirement'', cat_credits = Num 2, cat_description = ''Choose from available Arabic courses''\<rparr>,
      \<lparr>cat_code = ''COMMUNICATION'', cat_name = ''Communication'', cat_credits = Num 3, cat_description = ''Required communication course''\<rparr>,
      \<lparr>cat_code = ''HUMANITIES'', cat_name = ''Humanities'', cat_credits = Num 3, cat_description = ''Choose from available humanities courses''\<rparr>,
      \<lparr>cat_code = ''FRENCH'', cat_name = ''French Language'', cat_credits = Num 2, cat_description = ''Required French course''\<rparr>,
      \<lparr>cat_code = ''ART'', cat_name = ''Art Appreciation & Creation'', cat_credits = Num 3, cat_description = ''Choose from available art courses''\<rparr>,
      \<lparr>cat_code = ''HISTORY'', cat_name = ''History or Political Science'', cat_credits = Num 3, cat_description = ''Choose from available history/political science courses''\<rparr>,
      \<lparr>cat_code = ''SOCIAL'', cat_name = ''Social Sciences'', cat_credits = Num 3, cat_description = ''Choose from available social science courses''\<rparr>,
      \<lparr>cat_code = ''CIVIC'', cat_name = ''Civic Engagement'', cat_credits = Num 3, cat_description = ''Required civic engagement course''\<rparr>
     ]"

definition startsWith :: "string \<Rightarrow> string \<Rightarrow> bool" where
  "startsWith s p = (take (length p) s = p)"

text \<open>
  The courses of the four tracks; a track of another name has none. (The names of the
  members of \<open>Object.prototype\<close>, at which the lookup of the source finds a function,
  are not names of tracks.)
\<close>

definition trackCourses :: "(string \<times> string list) list" where
  "trackCourses =
     [(''ai'', [''CSC3309'', ''CSC3347'', ''CSC3310'', ''CSC3311'']),
      (''bigdata'', [''CSC3331'', ''CSC4352'', ''CSC3329'', ''CSC3346'']),
      (''systems'', [''CSC3373'', ''CSC3328'', ''CSC3329'', ''CSC3331'']),
      (''software'', [''CSC4307'', ''CSC4309'', ''CSC3357'', ''CSC3358''])]"

definition isSpecializationCourse :: "string \<Rightarrow> string \<Rightarrow> bool" where
  "isSpecializationCourse code track =
     (case map_of trackCourses track of
        None \<Rightarrow> False
      | Some cs \<Rightarrow> filter (\<lambda>c. \<not> isWhiteSpace c) code \<in> set cs)"

definition firstSemesterCourse :: "string \<Rightarrow> string \<Rightarrow> int \<Rightarrow> GenCourse" where
  "firstSemesterCourse code nm cr =
     \<lparr>c_code = code, c_name = nm, c_credits = Num cr, c_prerequisites = [],
      c_category = None, c_required = None, c_isPlaceholder = None, c_type = None,
      c_semester = Some (Num 1)\<rparr>"

definition firstSemesterCourses :: "GenCourse list" where
  "firstSemesterCourses =
     [firstSemesterCourse ''ARB 1241'' ''Arabic Literature'' 2,
      firstSemesterCourse ''CSC 1401'' ''Computer Programming + LAB'' 4,
      firstSemesterCourse ''ENG 1301'' ''English Composition'' 3,
      firstSemesterCourse ''FAS 0210'' ''Strategic Academic Skills'' 2,
      firstSemesterCourse ''FYE 1101'' ''FYE Seminar I'' 1,
      firstSemesterCourse ''MTH 1303'' ''Calculus I'' 3]"

text \<open>The three areas, as the generator groups the courses.\<close>

definition technicalCore :: "MajorRequirements \<Rightarrow> string list \<Rightarrow> GenCourse list" where
  "technicalCore requirements specializations =
     filter (\<lambda>c.
        startsWith (c_code c) ''MTH'' \<or> startsWith (c_code c) ''PHY'' \<or>
        startsWith (c_code c) ''CHE'' \<or> startsWith (c_code c) ''EGR'' \<or>
        startsWith (c_code c) ''ACC'' \<or> startsWith (c_code c) ''FIN'' \<or>
        startsWith (c_code c) ''MGT'' \<or>
        (startsWith (c_code c) ''CSC'' \<and>
         \<not> list_ex (\<lambda>spec. isSpecializationCourse (c_code c) spec) specializations))
       (r_courses requirements)"

definition generalEducation :: "GenCourse list" where
  "generalEducation =
     map (\<lambda>course. course
            \<lparr>c_isPlaceholder := Some (c_required course \<noteq> Some True),
             c_type := Some (if c_required course = Some True then ''course'' else ''choice'')\<rparr>)
       GENERAL_EDUCATION_COURSES"

definition specialization :: "MajorRequirements \<Rightarrow> string list \<Rightarrow> GenCourse list" where
  "specialization requirements specializations =
     filter (\<lambda>c. list_ex (\<lambda>spec. isSpecializationCourse (c_code c) spec) specializations)
       (r_courses requirements)"

text \<open>
  The prerequisite map: the areas in their order, each course setting the entry of its
  code, so that a later course of the same code replaces an earlier one.
\<close>

definition prerequisiteMap :: "GenCourse list \<Rightarrow> (string \<rightharpoonup> string list)" where
  "prerequisiteMap cs = foldl (\<lambda>m course. m(c_code course \<mapsto> c_prerequisites course)) Map.empty cs"

text \<open>What the loop of the generator reads and never changes.\<close>

record GenContext =
  x_requirements :: MajorRequirements
  x_includeSummer :: bool
  x_technical :: "GenCourse list"
  x_general :: "GenCourse list"
  x_specialization :: "GenCourse list"
  x_prerequisiteMap :: "string \<rightharpoonup> string list"

text \<open>The variables that the loop changes.\<close>

record GenState =
  g_remainingSummerTerms :: int
  g_semesterPlans :: "GeneratedSemester list"
  g_currentSemester :: int
  g_totalCredits :: jsnum
  g_takenCourses :: "string set"
  g_categoryCredits :: "string \<rightharpoonup> jsnum"

definition arePrerequisitesMet :: "GenContext \<Rightarrow> GenState \<Rightarrow> GenCourse \<Rightarrow> bool" where
  "arePrerequisitesMet ctx st course =
     (case x_prerequisiteMap ctx (c_code course) of
        None \<Rightarrow> True
      | Some prereqs \<Rightarrow>
          if prereqs = [] then True
          else list_all (\<lambda>prereq. prereq \<in> g_takenCourses st) prereqs)"

text \<open>The comparator that puts the foundation courses first.\<close>

definition foundationFirst :: "GenCourse \<Rightarrow> GenCourse \<Rightarrow> int" where
  "foundationFirst a b =
     (if c_category a = Some ''Foundation'' \<and> c_category b \<noteq> Some ''Foundation'' then - 1
      else if c_category b = Some ''Foundation'' \<and> c_category a \<noteq> Some ''Foundation'' then 1
      else 0)"

text \<open>
  \<open>categoryCredits[c.category] < GE_CATEGORIES.find(cat => cat.name === c.category)?.credits\<close>:
  a missing entry and a missing category are \<open>undefined\<close>, and the comparison is false.
\<close>

definition belowCategoryMinimum :: "GenState \<Rightarrow> GenCourse \<Rightarrow> bool" where
  "belowCategoryMinimum st c =
     (case c_category c of
        None \<Rightarrow> False
      | Some category \<Rightarrow>
          (case g_categoryCredits st category of
             None \<Rightarrow> False
           | Some soFar \<Rightarrow>
               (case find (\<lambda>cat. cat_name cat = category) GE_CATEGORIES of
                  None \<Rightarrow> False
                | Some cat \<Rightarrow> js_lt soFar (cat_credits cat))))"

text \<open>
  \<open>getAvailableGenEdCourses\<close>. The sort of the runtime is the parameter \<open>sortFn\<close>: it
  is given the comparator and the list.
\<close>

definition getAvailableGenEdCourses ::
  "((GenCourse \<Rightarrow> GenCourse \<Rightarrow> int) \<Rightarrow> GenCourse list \<Rightarrow> GenCourse list) \<Rightarrow>
   GenContext \<Rightarrow> GenState \<Rightarrow> nat \<Rightarrow> GenCourse list" where
  "getAvailableGenEdCourses sortFn ctx st maxCourses =
     (let requiredCourses =
            sortFn foundationFirst
              (filter (\<lambda>c. c_required c = Some True \<and> c_code c \<notin> g_takenCourses st \<and>
                           arePrerequisitesMet ctx st c) (x_general ctx));
          availableCourses = take maxCourses requiredCourses
      in if length availableCourses < maxCourses
         then
           (let remainingSlots = maxCourses - length availableCourses;
                electiveCourses =
                  take remainingSlots
                    (filter (\<lambda>c. c_required c \<noteq> Some True \<and> c_code c \<notin> g_takenCourses st \<and>
                                 arePrerequisitesMet ctx st c \<and> belowCategoryMinimum st c)
                       (x_general ctx))
            in availableCourses @ electiveCourses)
         else availableCourses)"

text \<open>
  The courses of a semester are marked as taken one after the other, and the credits of
  a course with a category are added to the entry of the category (\<open>undefined\<close> plus a
  number is \<open>NaN\<close>).
\<close>

definition addCategoryCredits :: "(string \<rightharpoonup> jsnum) \<Rightarrow> string \<Rightarrow> jsnum \<Rightarrow> (string \<rightharpoonup> jsnum)" where
  "addCategoryCredits categoryCredits category n =
     categoryCredits(category \<mapsto>
       (case categoryCredits category of None \<Rightarrow> NaN | Some soFar \<Rightarrow> js_add soFar n))"

definition takeCourse :: "GenState \<Rightarrow> GenCourse \<Rightarrow> GenState" where
  "takeCourse st course =
     (let st1 = st\<lparr>g_takenCourses := insert (c_code course) (g_takenCourses st)\<rparr>
      in case c_category course of
           None \<Rightarrow> st1
         | Some category \<Rightarrow>
             if category = [] then st1
             else st1\<lparr>g_categoryCredits :=
                        addCategoryCredits (g_categoryCredits st1) category (c_credits course)\<rparr>)"

definition sumCredits :: "GenCourse list \<Rightarrow> jsnum" where
  "sumCredits cs = foldl (\<lambda>acc course. js_add acc (c_credits course)) (Num 0) cs"

text \<open>The courses that the body of the loop selects for the current semester.\<close>

definition selectCourses ::
  "((GenCourse \<Rightarrow> GenCourse \<Rightarrow> int) \<Rightarrow> GenCourse list \<Rightarrow> GenCourse list) \<Rightarrow>
   GenContext \<Rightarrow> GenState \<Rightarrow> GenCourse list" where
  "selectCourses sortFn ctx st =
     (let isSummer = (g_currentSemester st mod 3 = 0) in
      if \<not> isSummer
      then
        (let technicalCourses =
               take 3 (filter (\<lambda>c. c_code c \<notin> g_takenCourses st \<and> arePrerequisitesMet ctx st c)
                         (x_technical ctx @ x_specialization ctx));
             genEdCourses = getAvailableGenEdCourses sortFn ctx st 3
         in technicalCourses @ genEdCourses)
      else if x_includeSummer ctx \<and> g_remainingSummerTerms st > 0
      then
        (let genEdCourses = getAvailableGenEdCourses sortFn ctx st 2;
             lightTechnicalCourses =
               take 1 (filter (\<lambda>c. c_code c \<notin> g_takenCourses st \<and> arePrerequisitesMet ctx st c \<and>
                                   js_le (c_credits c) (Num 3) \<and>
                                   \<not> startsWith (c_code c) ''CSC'')
                         (x_technical ctx))
         in genEdCourses @ lightTechnicalCourses)
      else [])"

text \<open>One round of the loop.\<close>

definition generatorStep ::
  "((GenCourse \<Rightarrow> GenCourse \<Rightarrow> int) \<Rightarrow> GenCourse list \<Rightarrow> GenCourse list) \<Rightarrow>
   GenContext \<Rightarrow> GenState \<Rightarrow> GenState" where
  "generatorStep sortFn ctx st =
     (let isSummer = (g_currentSemester st mod 3 = 0);
          semesterCourses = selectCourses sortFn ctx st;
          st1 = (if isSummer \<and> x_includeSummer ctx \<and> g_remainingSummerTerms st > 0
                 then st\<lparr>g_remainingSummerTerms := g_remainingSummerTerms st - 1\<rparr>
                 else st);
          st2 = (if length semesterCourses > 0
                 then
                   (let st' = foldl takeCourse st1 semesterCourses;
                        semesterCredits = sumCredits semesterCourses
                    in st'\<lparr>g_semesterPlans := g_semesterPlans st' @
                              [\<lparr>p_semester = g_currentSemester st,
                                p_courses = semesterCourses,
                                p_credits = semesterCredits,
                                p_type = (if isSummer then summer else regular)\<rparr>],
                            g_totalCredits := js_add (g_totalCredits st') semesterCredits\<rparr>)
                 else st1)
      in st2\<lparr>g_currentSemester := g_currentSemester st + 1\<rparr>)"

text \<open>The loop: while the semester is at most 12 and credits are missing.\<close>

function generatorLoop ::
  "((GenCourse \<Rightarrow> GenCourse \<Rightarrow> int) \<Rightarrow> GenCourse list \<Rightarrow> GenCourse list) \<Rightarrow>
   GenContext \<Rightarrow> GenState \<Rightarrow> GenState" where
  "generatorLoop sortFn ctx st =
     (if g_currentSemester st \<le> 12 \<and>
         js_lt (g_totalCredits st) (r_totalCredits (x_requirements ctx))
      then generatorLoop sortFn ctx (generatorStep sortFn ctx st)
      else st)"
  by pat_completeness auto

termination generatorLoop
proof (relation "measure (\<lambda>(sortFn, ctx, st). nat (13 - g_currentSemester st))")
  show "wf (measure (\<lambda>(sortFn, ctx, st). nat (13 - g_currentSemester st)))"
    by simp
next
  fix sortFn :: "(GenCourse \<Rightarrow> GenCourse \<Rightarrow> int) \<Rightarrow> GenCourse list \<Rightarrow> GenCourse list"
    and ctx :: GenContext and st :: GenState
  assume "g_currentSemester st \<le> 12 \<and>
          js_lt (g_totalCredits st) (r_totalCredits (x_requirements ctx))"
  then show "((sortFn, ctx, generatorStep sortFn ctx st), sortFn, ctx, st)
             \<in> measure (\<lambda>(sortFn, ctx, st). nat (13 - g_currentSemester st))"
    by (simp add: generatorStep_def Let_def)
qed

declare generatorLoop.simps [simp del]

text \<open>The credits of the fixed first semester go to three of the categories.\<close>

definition firstSemesterCredits :: "(string \<rightharpoonup> jsnum) \<Rightarrow> GenCourse \<Rightarrow> (string \<rightharpoonup> jsnum)" where
  "firstSemesterCredits categoryCredits course =
     (if startsWith (c_code course) ''FAS'' \<or> startsWith (c_code course) ''FYE''
      then addCategoryCredits categoryCredits ''Foundation'' (c_credits course)
      else if startsWith (c_code course) ''ENG''
      then addCategoryCredits categoryCredits ''English'' (c_credits course)
      else if startsWith (c_code course) ''ARB''
      then addCategoryCredits categoryCredits ''Arabic'' (c_credits course)
      else categoryCredits)"

definition initialCategoryCredits :: "string \<rightharpoonup> jsnum" where
  "initialCategoryCredits =
     map_of [(''Foundation'', Num 0), (''English'', Num 0), (''Arabic'', Num 0),
             (''Communication'', Num 0), (''Humanities'', Num 0), (''French'', Num 0),
             (''Art'', Num 0), (''History'', Num 0), (''Social'', Num 0), (''Civic'', Num 0)]"

definition generateDegreePlan ::
  "((GenCourse \<Rightarrow> GenCourse \<Rightarrow> int) \<Rightarrow> GenCourse list \<Rightarrow> GenCourse list) \<Rightarrow>
   MajorRequirements \<Rightarrow> DegreePlanOptions \<Rightarrow> GeneratedSemester list" where
  "generateDegreePlan sortFn requirements options =
     (let specializations = o_specializations options;
          area0 = technicalCore requirements specializations;
          area1 = generalEducation;
          area2 = specialization requirements specializations;
          prereqs = prerequisiteMap (area0 @ area1 @ area2);
          firstCredits = sumCredits firstSemesterCourses;
          firstSemesterCodes = set (map c_code firstSemesterCourses);
          remaining = filter (\<lambda>course. c_code course \<notin> firstSemesterCodes);
          ctx = \<lparr>x_requirements = requirements,
                 x_includeSummer = o_includeSummer options,
                 x_technical = remaining area0,
                 x_general = remaining area1,
                 x_specialization = remaining area2,
                 x_prerequisiteMap = prereqs\<rparr>;
          st = \<lparr>g_remainingSummerTerms = o_summerTerms options,
                g_semesterPlans =
                  [\<lparr>p_semester = 1, p_courses = firstSemesterCourses,
                    p_credits = firstCredits, p_type = regular\<rparr>],
                g_currentSemester = 2,
                g_totalCredits = js_add (Num 0) firstCredits,
                g_takenCourses = foldl (\<lambda>taken course. insert (c_code course) taken) {}
                                   firstSemesterCourses,
                g_categoryCredits = foldl firstSemesterCredits initialCategoryCredits
                                      firstSemesterCourses\<rparr>
      in g_semesterPlans (generatorLoop sortFn ctx st))"

text \<open>
  What the language promises of \<open>Array.prototype.sort\<close> with the comparator
  \<open>cmp\<close>: the result is a rearrangement of the list, no element stands before one
  that the comparator puts before it, and the sort is stable, so that the elements that
  compare equal to a given one keep their order.
\<close>

definition sortsStably ::
  "((GenCourse \<Rightarrow> GenCourse \<Rightarrow> int) \<Rightarrow> GenCourse list \<Rightarrow> GenCourse list) \<Rightarrow>
   (GenCourse \<Rightarrow> GenCourse \<Rightarrow> int) \<Rightarrow> bool" where
  "sortsStably sortFn cmp =
     (\<forall>xs. (\<forall>x. count_list (sortFn cmp xs) x = count_list xs x) \<and>
           sorted_wrt (\<lambda>a b. cmp a b \<le> 0) (sortFn cmp xs) \<and>
           (\<forall>a. filter (\<lambda>x. cmp a x = 0) (sortFn cmp xs) = filter (\<lambda>x. cmp a x = 0) xs))"

text \<open>Two sorts: by insertion from the right, and by partition around the first element.\<close>

fun insertBy :: "('a \<Rightarrow> 'a \<Rightarrow> int) \<Rightarrow> 'a \<Rightarrow> 'a list \<Rightarrow> 'a list" where
  "insertBy cmp x [] = [x]"
| "insertBy cmp x (y # ys) = (if cmp x y \<le> 0 then x # y # ys else y # insertBy cmp x ys)"

definition insertionSort :: "('a \<Rightarrow> 'a \<Rightarrow> int) \<Rightarrow> 'a list \<Rightarrow> 'a list" where
  "insertionSort cmp xs = foldr (insertBy cmp) xs []"

fun partitionSort :: "('a \<Rightarrow> 'a \<Rightarrow> int) \<Rightarrow> 'a list \<Rightarrow> 'a list" where
  "partitionSort cmp [] = []"
| "partitionSort cmp (p # xs) =
     partitionSort cmp (filter (\<lambda>x. cmp x p < 0) xs) @ p #
     partitionSort cmp (filter (\<lambda>x. \<not> cmp x p < 0) xs)"

definition isFoundation :: "GenCourse \<Rightarrow> bool" where
  "isFoundation c = (c_category c = Some ''Foundation'')"

section \<open>Concrete courses, states and requirements\<close>

text \<open>The inputs of the concrete scenarios below.\<close>

definition mkCourse :: "string \<Rightarrow> string \<Rightarrow> Prerequisite list list \<Rightarrow> Course" where
  "mkCourse code cr groups =
     \<lparr>course_code = code, course_name = code, credits = cr, prerequisites = groups,
      corequisites = [], sections = []\<rparr>"

definition course_prereq :: "string \<Rightarrow> Prerequisite" where
  "course_prereq v = \<lparr>type = ''course'', value = v\<rparr>"

definition MTH1303 :: Course where
  "MTH1303 = mkCourse ''MTH 1303'' ''3'' []"

definition MTH2301 :: Course where
  "MTH2301 = mkCourse ''MTH 2301'' ''3'' [[course_prereq ''MTH1303'']]"

definition emptyPlan :: DegreePlanState where
  "emptyPlan = resetPlan initialState"

definition winterStart :: UserInfo where
  "winterStart =
     \<lparr>name = ''Student'', studentId = ''S12345'', major = ''CS'',
      startSemester = ''Winter'', startYear = 2024, endSemester = ''Spring'', endYear = 2028,
      totalCreditsToGraduate = 136\<rparr>"

definition CSC3000 :: Course where
  "CSC3000 = mkCourse ''CSC 3000'' ''9'' []"

definition ART1301 :: Course where
  "ART1301 = mkCourse ''ART 1301'' ''1'' []"

definition ART1302 :: Course where
  "ART1302 = mkCourse ''ART 1302'' ''2'' []"

text \<open>Summer 2025 holds a course of nine credits.\<close>

definition summerNine :: DegreePlanState where
  "summerNine = addCourse ''Summer 2025'' CSC3000 emptyPlan"

definition PHY1401 :: Course where
  "PHY1401 = mkCourse ''PHY 1401'' ''4'' [[course_prereq ''MTH 1303'']]"

text \<open>MTH 1303 in Fall 2024 and PHY 1401, which requires it, in Spring 2025.\<close>

definition calculusThenPhysics :: DegreePlanState where
  "calculusThenPhysics =
     addCourse ''Spring 2025'' PHY1401 (addCourse ''Fall 2024'' MTH1303 emptyPlan)"

text \<open>MTH 1303 is placed in Fall 2024, the first semester.\<close>

definition calculusFirst :: DegreePlanState where
  "calculusFirst = addCourse ''Fall 2024'' MTH1303 emptyPlan"

definition ENG1301 :: Course where
  "ENG1301 = mkCourse ''ENG 1301'' ''3'' []"

definition ENG1302 :: Course where
  "ENG1302 = mkCourse ''ENG 1302'' ''3'' []"

definition LIT2301 :: Course where
  "LIT2301 = mkCourse ''LIT 2301'' ''3'' [[course_prereq ''ENG 1301'', course_prereq ''ENG 1302'']]"

text \<open>
  Both English courses in Fall 2024, and in Spring 2025 the literature course that
  requires one of them.
\<close>

definition eitherEnglish :: DegreePlanState where
  "eitherEnglish =
     addCourse ''Spring 2025'' LIT2301
       (addCourse ''Fall 2024'' ENG1302 (addCourse ''Fall 2024'' ENG1301 emptyPlan))"

definition CSC1401 :: Course where
  "CSC1401 = mkCourse ''CSC 1401'' ''4'' []"

definition CSC1401_unspaced :: Course where
  "CSC1401_unspaced = mkCourse ''CSC1401'' ''4'' []"

definition CSC1401_hyphen :: Course where
  "CSC1401_hyphen = mkCourse ''csc-1401'' ''4'' []"

text \<open>
  Data structures, which requires CSC 1401 and MTH 1304, with its code written as the
  catalog does and without the space.
\<close>

definition CSC2302 :: Course where
  "CSC2302 = mkCourse ''CSC 2302'' ''3'' [[course_prereq ''CSC 1401''], [course_prereq ''MTH 1304'']]"

definition CSC2302_unspaced :: Course where
  "CSC2302_unspaced =
     mkCourse ''CSC2302'' ''3'' [[course_prereq ''CSC 1401''], [course_prereq ''MTH 1304'']]"

text \<open>
  MTH 1303 in Fall 2024 and MTH 2301 in Spring 2025; the prerequisite of MTH 2301 is
  written MTH1303, without the space.
\<close>

definition calculusChain :: DegreePlanState where
  "calculusChain =
     addCourse ''Spring 2025'' MTH2301 (addCourse ''Fall 2024'' MTH1303 emptyPlan)"

definition programmingFirst :: DegreePlanState where
  "programmingFirst = addCourse ''Fall 2024'' CSC1401 emptyPlan"

definition SEM4000 :: Course where
  "SEM4000 = mkCourse ''SEM 4000'' ''TBA'' []"

text \<open>A course whose credits are not a number is placed and removed again.\<close>

definition placedAndRemoved :: DegreePlanState where
  "placedAndRemoved =
     removeCourse ''Fall 2024'' ''SEM 4000'' (addCourse ''Fall 2024'' SEM4000 emptyPlan)"

text \<open>
  Two courses with negative credits: the first one takes the total to \<open>-2^53\<close>, where
  the sum with the second one is rounded.
\<close>

definition ADJ9001 :: Course where
  "ADJ9001 = mkCourse ''ADJ 9001'' ''-9007199254740992'' []"

definition ADJ9002 :: Course where
  "ADJ9002 = mkCourse ''ADJ 9002'' ''-1'' []"

definition roundedTotal :: DegreePlanState where
  "roundedTotal =
     removeCourse ''Fall 2024'' ''ADJ 9001''
       (addCourse ''Fall 2024'' ADJ9002 (addCourse ''Fall 2024'' ADJ9001 emptyPlan))"

text \<open>A student from Fall 2024 to Spring 2026, who places two courses.\<close>

definition fallStart :: UserInfo where
  "fallStart =
     \<lparr>name = ''Student'', studentId = ''S12345'', major = ''CS'',
      startSemester = ''Fall'', startYear = 2024, endSemester = ''Spring'', endYear = 2025,
      totalCreditsToGraduate = 136\<rparr>"

definition studentPlan :: DegreePlanState where
  "studentPlan =
     addCourse ''Spring 2025'' PHY1401
       (addCourse ''Fall 2024'' MTH1303 (resetPlan (setUserInfo fallStart initialState)))"

text \<open>A requirement list and options for the concrete run.\<close>

definition requirementCourse :: "string \<Rightarrow> string \<Rightarrow> int \<Rightarrow> string list \<Rightarrow> int \<Rightarrow> GenCourse" where
  "requirementCourse code nm cr prereqs sem =
     \<lparr>c_code = code, c_name = nm, c_credits = Num cr, c_prerequisites = prereqs,
      c_category = None, c_required = None, c_isPlaceholder = None, c_type = None,
      c_semester = Some (Num sem)\<rparr>"

definition sampleRequirements :: MajorRequirements where
  "sampleRequirements =
     \<lparr>r_name = ''Computer Science'', r_code = ''CS'',
      r_school = ''CSC-based Academic Programs'', r_totalCredits = Num 35,
      r_courses =
        [requirementCourse ''MTH 1303'' ''Calculus I'' 3 [] 1,
         requirementCourse ''MTH 1304'' ''Discrete Mathematics'' 3 [''MTH 1303''] 2,
         requirementCourse ''PHY 1401'' ''Physics I'' 3 [''MTH 1303''] 2,
         requirementCourse ''CSC 2302'' ''Data Structures'' 3 [''CSC 1401''] 3,
         requirementCourse ''CSC 3309'' ''Artificial Intelligence'' 3 [''CSC 2302''] 5]\<rparr>"

definition sampleOptions :: DegreePlanOptions where
  "sampleOptions =
     \<lparr>o_includeSummer = True, o_summerTerms = 1, o_transferCredits = [],
      o_specializations = [''ai'']\<rparr>"

section \<open>Lists: find, findIndex and the loops\<close>

lemma findIndex_Some:
  "findIndex P xs = Some i \<Longrightarrow> i < length xs \<and> P (xs ! i) \<and> (\<forall>j < i. \<not> P (xs ! j))"
proof (induction xs arbitrary: i)
  case Nil
  then show ?case by simp
next
  case (Cons x xs)
  show ?case
  proof (cases "P x")
    case True
    with Cons.prems show ?thesis by simp
  next
    case False
    with Cons.prems obtain k where k: "findIndex P xs = Some k" "i = Suc k"
      by (auto split: option.splits)
    from Cons.IH [OF k(1)] False k(2) show ?thesis
      by (auto simp: nth_Cons split: nat.splits)
  qed
qed

lemma findIndex_None: "findIndex P xs = None \<longleftrightarrow> (\<forall>x \<in> set xs. \<not> P x)"
  by (induction xs) (auto split: option.splits)

lemma find_findIndex:
  "find P xs = (case findIndex P xs of None \<Rightarrow> None | Some i \<Rightarrow> Some (xs ! i))"
  by (induction xs) (auto split: option.splits)

lemma findIndex_takeWhile:
  "findIndex P xs = Some i \<Longrightarrow> takeWhile (\<lambda>x. \<not> P x) xs = take i xs"
proof (induction xs arbitrary: i)
  case Nil
  then show ?case by simp
next
  case (Cons x xs)
  then show ?case by (auto split: option.splits if_splits)
qed

lemma previousSemesters_takeWhile:
  "previousSemesters plans sem =
     concat (map courses (takeWhile (\<lambda>p. semester p \<noteq> sem) plans))"
  by (induction plans) auto

lemma addToSemester_ledger:
  assumes "ledger plans" and "findIndex (\<lambda>p. semester p = sem) plans = Some i"
  shows "addToSemester sem course plans = plans[i := place course (plans ! i)]"
proof (rule nth_equalityI)
  show "length (addToSemester sem course plans) = length (plans[i := place course (plans ! i)])"
    by (simp add: addToSemester_def)
next
  fix j
  assume "j < length (addToSemester sem course plans)"
  then have j: "j < length plans"
    by (simp add: addToSemester_def)
  from findIndex_Some [OF assms(2)] have i: "i < length plans" "semester (plans ! i) = sem"
    by simp_all
  have uniq: "semester (plans ! j) = sem \<Longrightarrow> j = i"
    using assms(1) i j unfolding ledger_def
    by (metis distinct_conv_nth length_map nth_map)
  show "addToSemester sem course plans ! j = plans[i := place course (plans ! i)] ! j"
  proof (cases "j = i")
    case True
    with i show ?thesis
      by (simp add: addToSemester_def place_def)
  next
    case False
    with uniq have "semester (plans ! j) \<noteq> sem" by blast
    with False j show ?thesis
      by (simp add: addToSemester_def)
  qed
qed

lemma addCourse_missing:
  "find (\<lambda>p. semester p = sem) (semesterPlans st) = None \<Longrightarrow> addCourse sem course st = st"
  by (simp add: addCourse_def)

lemma addCourse_found:
  assumes "find (\<lambda>p. semester p = sem) (semesterPlans st) = Some target"
  shows "addCourse sem course st =
     (case canPlace course target (semesterPlans st) of
        Some r \<Rightarrow> st\<lparr>error := Some (reasonMessage r sem course)\<rparr>
      | None \<Rightarrow> st\<lparr>semesterPlans := addToSemester sem course (semesterPlans st),
                    error := None\<rparr>)"
proof -
  from assms have name: "semester target = sem"
    by (auto simp: find_Some_iff)
  have dupIn: "list_ex (\<lambda>c. course_code c = course_code course) (courses target)
               = duplicateInSemester course target"
    unfolding duplicateInSemester_def list_ex_iff image_iff by (rule bex_cong) auto
  have dupElse: "list_ex (\<lambda>plan. semester plan \<noteq> sem \<and>
                   list_ex (\<lambda>c. course_code c = course_code course) (courses plan))
                   (semesterPlans st)
                 = duplicateElsewhere course target (semesterPlans st)"
    unfolding duplicateElsewhere_def list_ex_iff image_iff name by (intro bex_cong conj_cong) auto
  have cap: "(if stype target = summer then 10 else 22) = creditCap (stype target)"
    by (cases "stype target")
       (simp_all add: creditCap_def REGULAR_SEMESTER_CREDIT_LIMIT_def
          SUMMER_SEMESTER_CREDIT_LIMIT_def)
  have prev: "previousSemesters (semesterPlans st) sem
              = availableCourses (semesterPlans st) target"
    by (simp add: previousSemesters_takeWhile availableCourses_def name)
  show ?thesis
    unfolding addCourse_def Let_def assms option.case dupIn dupElse cap prev
    by (simp add: canPlace_def creditLimitExceeded_def prerequisitesUnmet_def
          reasonMessage_def)
qed

lemma dependentInCourses_filter:
  "dependentInCourses cs courseCode =
     (case filter (\<lambda>d. listsPrerequisite d courseCode) cs of
        [] \<Rightarrow> None
      | d # _ \<Rightarrow> Some (course_code d))"
  by (induction cs) (auto simp: listsPrerequisite_def list_ex_iff)

lemma dependentInSemesters_filter:
  "dependentInSemesters plans courseCode =
     (case filter (\<lambda>d. listsPrerequisite d courseCode) (concat (map courses plans)) of
        [] \<Rightarrow> None
      | d # _ \<Rightarrow> Some (course_code d))"
  by (induction plans) (auto simp: dependentInCourses_filter split: list.splits)

lemma findIndex_find_nth:
  "findIndex P xs = Some k \<Longrightarrow> find P xs = Some (xs ! k)"
  by (simp add: find_findIndex)

lemma removeCourse_missing_semester:
  "findIndex (\<lambda>p. semester p = sem) (semesterPlans st) = None \<Longrightarrow>
   removeCourse sem courseCode st = st"
  by (simp add: removeCourse_def)

lemma removeCourse_missing_course:
  "findIndex (\<lambda>p. semester p = sem) (semesterPlans st) = Some i \<Longrightarrow>
   findIndex (\<lambda>c. course_code c = courseCode) (courses (semesterPlans st ! i)) = None \<Longrightarrow>
   removeCourse sem courseCode st = st"
  by (simp add: removeCourse_def)

lemma removeCourse_found:
  assumes "findIndex (\<lambda>p. semester p = sem) (semesterPlans st) = Some i"
    and "findIndex (\<lambda>c. course_code c = courseCode) (courses (semesterPlans st ! i)) = Some k"
  shows "removeCourse sem courseCode st =
     (case filter (\<lambda>d. listsPrerequisite d courseCode)
             (concat (map courses (drop (Suc i) (semesterPlans st)))) of
        d # _ \<Rightarrow> st\<lparr>error := Some (removalBlockedMessage courseCode (course_code d))\<rparr>
      | [] \<Rightarrow>
          st\<lparr>semesterPlans := (semesterPlans st)[i :=
                (semesterPlans st ! i)
                  \<lparr>courses := filter (\<lambda>c. course_code c \<noteq> courseCode)
                                (courses (semesterPlans st ! i)),
                   total := js_sub (total (semesterPlans st ! i))
                              (parseInt (credits (courses (semesterPlans st ! i) ! k)))\<rparr>],
              error := None\<rparr>)"
  unfolding removeCourse_def Let_def assms option.case dependentInSemesters_filter
  by (simp add: removalBlockedMessage_def split: list.splits)

section \<open>Unrecognized start terms and unknown semesters\<close>

lemma indexOf_absent: "indexOf xs x = - 1 \<longleftrightarrow> x \<notin> set xs"
proof (induction xs)
  case Nil
  show ?case by simp
next
  case (Cons y ys)
  have nonneg: "\<And>zs. indexOf zs x \<noteq> - 1 \<Longrightarrow> 0 \<le> indexOf zs x"
  proof -
    fix zs
    show "indexOf zs x \<noteq> - 1 \<Longrightarrow> 0 \<le> indexOf zs x"
      by (induction zs) (auto simp: Let_def split: if_splits)
  qed
  show ?case
  proof (cases "y = x")
    case True
    then show ?thesis by simp
  next
    case False
    with Cons.IH nonneg [of ys] show ?thesis
      by (auto simp: Let_def)
  qed
qed

lemma findIndex_absent:
  "sem \<notin> semester ` set plans \<Longrightarrow> findIndex (\<lambda>p. semester p = sem) plans = None"
  by (auto simp: findIndex_None)

text \<open>
  C7, as the claim states it, fails: with the start term Winter, \<open>resetPlan\<close> returns the
  three default semesters and no error.
\<close>

theorem resetPlan_invalid_start_counterexample:
  "semesterPlans (resetPlan (setUserInfo winterStart initialState)) = invalidStartPlans \<and>
   error (resetPlan (setUserInfo winterStart initialState)) = None"
  by code_simp

text \<open>
  C7 (amended): when the start term is none of Fall, Spring and Summer, \<open>resetPlan\<close>
  replaces the plans by the three default semesters Fall 2024, Spring 2025 and
  Summer 2025 and sets no error.
\<close>

theorem resetPlan_invalid_start:
  assumes "userInfo st = Some info"
    and "startSemester info \<notin> {''Fall'', ''Spring'', ''Summer''}"
  shows "resetPlan st = st\<lparr>semesterPlans := invalidStartPlans, error := None\<rparr> \<and>
         map semester invalidStartPlans = [''Fall 2024'', ''Spring 2025'', ''Summer 2025'']"
proof -
  from assms(2) have "startSemester info \<notin> set semesterOrder"
    by (simp add: semesterOrder_def)
  then have "indexOf semesterOrder (startSemester info) = - 1"
    using indexOf_absent [of semesterOrder "startSemester info"] by blast
  with assms(1) have "resetPlan st = st\<lparr>semesterPlans := invalidStartPlans, error := None\<rparr>"
    by (simp add: resetPlan_def)
  moreover have "map semester invalidStartPlans
                 = [''Fall 2024'', ''Spring 2025'', ''Summer 2025'']"
    by (simp add: invalidStartPlans_def emptySemester_def)
  ultimately show ?thesis by simp
qed

text \<open>
  C7, at a concrete input.
  With the start term Autumn, the plans are the three default semesters and the error is unset.
\<close>

theorem resetPlan_invalid_start_witness:
  "resetPlan (setUserInfo (winterStart\<lparr>startSemester := ''Autumn''\<rparr>) emptyPlan)
   = (setUserInfo (winterStart\<lparr>startSemester := ''Autumn''\<rparr>) emptyPlan)
       \<lparr>semesterPlans := invalidStartPlans, error := None\<rparr> \<and>
   map semester invalidStartPlans = [''Fall 2024'', ''Spring 2025'', ''Summer 2025'']"
proof -
  have u: "userInfo (setUserInfo (winterStart\<lparr>startSemester := ''Autumn''\<rparr>) emptyPlan)
           = Some (winterStart\<lparr>startSemester := ''Autumn''\<rparr>)"
    by (simp add: setUserInfo_def)
  have t: "startSemester (winterStart\<lparr>startSemester := ''Autumn''\<rparr>)
           \<notin> {''Fall'', ''Spring'', ''Summer''}"
    by simp
  show ?thesis
    by (rule resetPlan_invalid_start [OF u t])
qed

text \<open>
  C9, as the claim states it, fails: a semester name that the ledger does not hold is a
  silent no-op. Here the error of an earlier refusal stays as it was.
\<close>

theorem unknown_semester_counterexample:
  "error (addCourse ''Fall 2024'' MTH2301 emptyPlan)
     = Some ''Prerequisites for MTH 2301 are not satisfied'' \<and>
   addCourse ''Winter 2030'' MTH1303 (addCourse ''Fall 2024'' MTH2301 emptyPlan)
     = addCourse ''Fall 2024'' MTH2301 emptyPlan \<and>
   removeCourse ''Winter 2030'' ''MTH 1303'' (addCourse ''Fall 2024'' MTH2301 emptyPlan)
     = addCourse ''Fall 2024'' MTH2301 emptyPlan"
  by code_simp

text \<open>
  C9 (amended): \<open>addCourse\<close> and \<open>removeCourse\<close> with a semester name that the ledger
  does not hold return the state as it was: the plans and the error are unchanged.
\<close>

theorem unknown_semester_silent:
  assumes "sem \<notin> semester ` set (semesterPlans st)"
  shows "addCourse sem course st = st \<and> removeCourse sem courseCode st = st"
proof -
  from assms have none: "findIndex (\<lambda>p. semester p = sem) (semesterPlans st) = None"
    by (rule findIndex_absent)
  then have "find (\<lambda>p. semester p = sem) (semesterPlans st) = None"
    by (simp add: find_findIndex)
  then have "addCourse sem course st = st"
    by (rule addCourse_missing)
  moreover from none have "removeCourse sem courseCode st = st"
    by (rule removeCourse_missing_semester)
  ultimately show ?thesis by simp
qed

text \<open>
  C9, at a concrete input.
  Fall 2030 is no semester of the empty plan, and both actions return the empty plan.
\<close>

theorem unknown_semester_silent_witness:
  "addCourse ''Fall 2030'' MTH1303 emptyPlan = emptyPlan \<and>
   removeCourse ''Fall 2030'' ''MTH 1303'' emptyPlan = emptyPlan"
proof -
  have "''Fall 2030'' \<notin> semester ` set (semesterPlans emptyPlan)"
    by code_simp
  then show ?thesis
    by (rule unknown_semester_silent)
qed

section \<open>The rules of addCourse\<close>

lemma addCourse_ledger:
  assumes "ledger (semesterPlans st)"
    and "findIndex (\<lambda>p. semester p = sem) (semesterPlans st) = Some i"
  shows "addCourse sem course st =
     (case canPlace course (semesterPlans st ! i) (semesterPlans st) of
        Some r \<Rightarrow> st\<lparr>error := Some (reasonMessage r sem course)\<rparr>
      | None \<Rightarrow> st\<lparr>semesterPlans :=
                      (semesterPlans st)[i := place course (semesterPlans st ! i)],
                    error := None\<rparr>)"
  using addCourse_found [OF findIndex_find_nth [OF assms(2)], of course]
    addToSemester_ledger [OF assms, of course]
  by (simp split: option.split)

text \<open>
  C1: in a ledger that holds the target semester, \<open>addCourse\<close> checks the rules in the
  order duplicate-in-semester, duplicate-elsewhere, credit-limit-exceeded,
  prerequisites-unmet and writes the message of the first one that fails, leaving the
  plans as they were; when none fails it appends the course to the target semester and
  adds the course's credits to the total of that semester.
\<close>

theorem addCourse_rule_order:
  assumes "ledger (semesterPlans st)"
    and "findIndex (\<lambda>p. semester p = sem) (semesterPlans st) = Some i"
  shows "addCourse sem course st =
     (if duplicateInSemester course (semesterPlans st ! i)
      then st\<lparr>error := Some (reasonMessage DuplicateInSemester sem course)\<rparr>
      else if duplicateElsewhere course (semesterPlans st ! i) (semesterPlans st)
      then st\<lparr>error := Some (reasonMessage DuplicateElsewhere sem course)\<rparr>
      else if creditLimitExceeded course (semesterPlans st ! i)
      then st\<lparr>error := Some (reasonMessage CreditLimitExceeded sem course)\<rparr>
      else if prerequisitesUnmet course (semesterPlans st ! i) (semesterPlans st)
      then st\<lparr>error := Some (reasonMessage PrerequisitesUnmet sem course)\<rparr>
      else st\<lparr>semesterPlans :=
                (semesterPlans st)[i :=
                   (semesterPlans st ! i)
                     \<lparr>courses := courses (semesterPlans st ! i) @ [course],
                      total := js_add (total (semesterPlans st ! i))
                                 (parseInt (credits course))\<rparr>],
              error := None\<rparr>)"
  unfolding addCourse_ledger [OF assms]
  by (simp add: canPlace_def place_def)

text \<open>
  C1, at a concrete input.
  The course of nine credits is already in Summer 2025; a second copy would also exceed
  the cap of ten, and the first rule is the one reported. A course of one credit fills
  the semester to its cap and is appended.
\<close>

theorem addCourse_rule_order_witness:
  "addCourse ''Summer 2025'' CSC3000 summerNine
     = summerNine\<lparr>error := Some ''CSC 3000 is already in Summer 2025''\<rparr> \<and>
   creditLimitExceeded CSC3000 (semesterPlans summerNine ! 2) \<and>
   addCourse ''Summer 2025'' ART1301 summerNine
     = summerNine\<lparr>semesterPlans := (semesterPlans summerNine)[2 :=
          \<lparr>semester = ''Summer 2025'', stype = summer, courses = [CSC3000, ART1301],
           total = Num 10\<rparr>], error := None\<rparr>"
proof -
  have l: "ledger (semesterPlans summerNine)"
    by code_simp
  have f: "findIndex (\<lambda>p. semester p = ''Summer 2025'') (semesterPlans summerNine) = Some 2"
    by code_simp
  have d: "duplicateInSemester CSC3000 (semesterPlans summerNine ! 2)"
    by code_simp
  have m: "reasonMessage DuplicateInSemester ''Summer 2025'' CSC3000
           = ''CSC 3000 is already in Summer 2025''"
    by code_simp
  have c: "creditLimitExceeded CSC3000 (semesterPlans summerNine ! 2)"
    by code_simp
  have n1: "\<not> duplicateInSemester ART1301 (semesterPlans summerNine ! 2)"
    by code_simp
  have n2: "\<not> duplicateElsewhere ART1301 (semesterPlans summerNine ! 2)
               (semesterPlans summerNine)"
    by code_simp
  have n3: "\<not> creditLimitExceeded ART1301 (semesterPlans summerNine ! 2)"
    by code_simp
  have n4: "\<not> prerequisitesUnmet ART1301 (semesterPlans summerNine ! 2)
               (semesterPlans summerNine)"
    by code_simp
  have p: "(semesterPlans summerNine ! 2)
             \<lparr>courses := courses (semesterPlans summerNine ! 2) @ [ART1301],
              total := js_add (total (semesterPlans summerNine ! 2))
                         (parseInt (credits ART1301))\<rparr>
           = \<lparr>semester = ''Summer 2025'', stype = summer, courses = [CSC3000, ART1301],
              total = Num 10\<rparr>"
    by code_simp
  show ?thesis
    unfolding addCourse_rule_order [OF l f]
    using d m c n1 n2 n3 n4 p by simp
qed

text \<open>
  C5: when neither duplicate rule fails, \<open>addCourse\<close> refuses with the credit-limit
  message exactly when the total of the semester plus the credits of the course is
  greater than the cap of the semester's type, 22 for a regular and 10 for a summer
  semester. A sum equal to the cap passes (and the course is placed when its prerequisites
  hold); a sum one above the cap is refused.
\<close>

theorem credit_limit_boundary:
  assumes "findIndex (\<lambda>p. semester p = sem) (semesterPlans st) = Some i"
    and "\<not> duplicateInSemester course (semesterPlans st ! i)"
    and "\<not> duplicateElsewhere course (semesterPlans st ! i) (semesterPlans st)"
  shows "((error (addCourse sem course st)
            = Some (reasonMessage CreditLimitExceeded sem course)) =
          js_gt (js_add (total (semesterPlans st ! i)) (parseInt (credits course)))
            (Num (creditCap (stype (semesterPlans st ! i))))) \<and>
         creditCap regular = 22 \<and> creditCap summer = 10 \<and>
         (js_add (total (semesterPlans st ! i)) (parseInt (credits course))
            = Num (creditCap (stype (semesterPlans st ! i))) \<and>
          \<not> prerequisitesUnmet course (semesterPlans st ! i) (semesterPlans st) \<longrightarrow>
          addCourse sem course st
            = st\<lparr>semesterPlans := addToSemester sem course (semesterPlans st),
                  error := None\<rparr>) \<and>
         (js_add (total (semesterPlans st ! i)) (parseInt (credits course))
            = Num (creditCap (stype (semesterPlans st ! i)) + 1) \<longrightarrow>
          addCourse sem course st
            = st\<lparr>error := Some (reasonMessage CreditLimitExceeded sem course)\<rparr>)"
proof -
  let ?target = "semesterPlans st ! i"
  note found = addCourse_found [OF findIndex_find_nth [OF assms(1)], of course]
  have differ: "reasonMessage PrerequisitesUnmet sem course
                \<noteq> reasonMessage CreditLimitExceeded sem course"
    by (simp add: reasonMessage_def)
  have iff: "(error (addCourse sem course st)
               = Some (reasonMessage CreditLimitExceeded sem course))
             = creditLimitExceeded course ?target"
    using assms(2,3) differ by (simp add: found canPlace_def)
  have caps: "creditCap regular = 22" "creditCap summer = 10"
    by (simp_all add: creditCap_def REGULAR_SEMESTER_CREDIT_LIMIT_def
          SUMMER_SEMESTER_CREDIT_LIMIT_def)
  have exact: "js_add (total ?target) (parseInt (credits course))
                 = Num (creditCap (stype ?target)) \<Longrightarrow>
               \<not> prerequisitesUnmet course ?target (semesterPlans st) \<Longrightarrow>
               addCourse sem course st
                 = st\<lparr>semesterPlans := addToSemester sem course (semesterPlans st),
                       error := None\<rparr>"
    using assms(2,3) by (simp add: found canPlace_def creditLimitExceeded_def)
  have over: "js_add (total ?target) (parseInt (credits course))
                = Num (creditCap (stype ?target) + 1) \<Longrightarrow>
              addCourse sem course st
                = st\<lparr>error := Some (reasonMessage CreditLimitExceeded sem course)\<rparr>"
    using assms(2,3) by (simp add: found canPlace_def creditLimitExceeded_def)
  from iff caps exact over show ?thesis
    unfolding creditLimitExceeded_def by blast
qed

text \<open>
  C5, at a concrete input.
  Summer 2025 holds nine credits: one more credit reaches the cap of ten and is placed,
  two more credits are refused.
\<close>

theorem credit_limit_boundary_witness:
  "addCourse ''Summer 2025'' ART1301 summerNine
     = summerNine\<lparr>semesterPlans :=
                      addToSemester ''Summer 2025'' ART1301 (semesterPlans summerNine),
                    error := None\<rparr> \<and>
   total (addToSemester ''Summer 2025'' ART1301 (semesterPlans summerNine) ! 2) = Num 10 \<and>
   addCourse ''Summer 2025'' ART1302 summerNine
     = summerNine\<lparr>error :=
         Some ''Adding ART 1302 would exceed the credit limit for Summer 2025''\<rparr>"
proof -
  have f: "findIndex (\<lambda>p. semester p = ''Summer 2025'') (semesterPlans summerNine) = Some 2"
    by code_simp
  have n1: "\<not> duplicateInSemester ART1301 (semesterPlans summerNine ! 2)"
    by code_simp
  have n2: "\<not> duplicateElsewhere ART1301 (semesterPlans summerNine ! 2)
               (semesterPlans summerNine)"
    by code_simp
  have m1: "\<not> duplicateInSemester ART1302 (semesterPlans summerNine ! 2)"
    by code_simp
  have m2: "\<not> duplicateElsewhere ART1302 (semesterPlans summerNine ! 2)
               (semesterPlans summerNine)"
    by code_simp
  have exact: "js_add (total (semesterPlans summerNine ! 2)) (parseInt (credits ART1301))
               = Num (creditCap (stype (semesterPlans summerNine ! 2)))"
    by code_simp
  have met: "\<not> prerequisitesUnmet ART1301 (semesterPlans summerNine ! 2)
                (semesterPlans summerNine)"
    by code_simp
  have over: "js_add (total (semesterPlans summerNine ! 2)) (parseInt (credits ART1302))
              = Num (creditCap (stype (semesterPlans summerNine ! 2)) + 1)"
    by code_simp
  have msg: "reasonMessage CreditLimitExceeded ''Summer 2025'' ART1302
             = ''Adding ART 1302 would exceed the credit limit for Summer 2025''"
    by code_simp
  have ten: "total (addToSemester ''Summer 2025'' ART1301 (semesterPlans summerNine) ! 2)
             = Num 10"
    by code_simp
  have placed: "addCourse ''Summer 2025'' ART1301 summerNine
     = summerNine\<lparr>semesterPlans :=
                      addToSemester ''Summer 2025'' ART1301 (semesterPlans summerNine),
                    error := None\<rparr>"
    using credit_limit_boundary [OF f n1 n2] exact met by blast
  have refused: "addCourse ''Summer 2025'' ART1302 summerNine
     = summerNine\<lparr>error := Some (reasonMessage CreditLimitExceeded ''Summer 2025'' ART1302)\<rparr>"
    using credit_limit_boundary [OF f m1 m2] over by blast
  from placed refused ten show ?thesis
    unfolding msg by simp
qed

text \<open>
  C10: a refusal of \<open>addCourse\<close> or \<open>removeCourse\<close> changes nothing but the error
  message, and a placement or removal that goes through sets the error to \<open>null\<close>.
  Neither action ever touches the course data or the user information, and whenever the
  plans change the error is \<open>null\<close>.
\<close>

theorem rejected_mutations_atomic:
  "(\<forall>target r. find (\<lambda>p. semester p = sem) (semesterPlans st) = Some target \<longrightarrow>
       canPlace course target (semesterPlans st) = Some r \<longrightarrow>
       addCourse sem course st = st\<lparr>error := Some (reasonMessage r sem course)\<rparr>) \<and>
   (\<forall>target. find (\<lambda>p. semester p = sem) (semesterPlans st) = Some target \<longrightarrow>
       canPlace course target (semesterPlans st) = None \<longrightarrow>
       error (addCourse sem course st) = None) \<and>
   (\<forall>i k d. findIndex (\<lambda>p. semester p = sem) (semesterPlans st) = Some i \<longrightarrow>
       findIndex (\<lambda>c. course_code c = courseCode) (courses (semesterPlans st ! i)) = Some k \<longrightarrow>
       dependentInSemesters (drop (i + 1) (semesterPlans st)) courseCode = Some d \<longrightarrow>
       removeCourse sem courseCode st
         = st\<lparr>error := Some (removalBlockedMessage courseCode d)\<rparr>) \<and>
   (\<forall>i k. findIndex (\<lambda>p. semester p = sem) (semesterPlans st) = Some i \<longrightarrow>
       findIndex (\<lambda>c. course_code c = courseCode) (courses (semesterPlans st ! i)) = Some k \<longrightarrow>
       dependentInSemesters (drop (i + 1) (semesterPlans st)) courseCode = None \<longrightarrow>
       error (removeCourse sem courseCode st) = None) \<and>
   (semesterPlans (addCourse sem course st) = semesterPlans st \<or>
    error (addCourse sem course st) = None) \<and>
   (semesterPlans (removeCourse sem courseCode st) = semesterPlans st \<or>
    error (removeCourse sem courseCode st) = None) \<and>
   courseData (addCourse sem course st) = courseData st \<and>
   userInfo (addCourse sem course st) = userInfo st \<and>
   courseData (removeCourse sem courseCode st) = courseData st \<and>
   userInfo (removeCourse sem courseCode st) = userInfo st"
proof -
  have add: "\<And>target. find (\<lambda>p. semester p = sem) (semesterPlans st) = Some target \<Longrightarrow>
     addCourse sem course st =
       (case canPlace course target (semesterPlans st) of
          Some r \<Rightarrow> st\<lparr>error := Some (reasonMessage r sem course)\<rparr>
        | None \<Rightarrow> st\<lparr>semesterPlans := addToSemester sem course (semesterPlans st),
                      error := None\<rparr>)"
    by (rule addCourse_found)
  have a1: "\<forall>target r. find (\<lambda>p. semester p = sem) (semesterPlans st) = Some target \<longrightarrow>
       canPlace course target (semesterPlans st) = Some r \<longrightarrow>
       addCourse sem course st = st\<lparr>error := Some (reasonMessage r sem course)\<rparr>"
    by (simp add: add)
  have a2: "\<forall>target. find (\<lambda>p. semester p = sem) (semesterPlans st) = Some target \<longrightarrow>
       canPlace course target (semesterPlans st) = None \<longrightarrow>
       error (addCourse sem course st) = None"
    by (simp add: add)
  have r1: "\<forall>i k d. findIndex (\<lambda>p. semester p = sem) (semesterPlans st) = Some i \<longrightarrow>
       findIndex (\<lambda>c. course_code c = courseCode) (courses (semesterPlans st ! i)) = Some k \<longrightarrow>
       dependentInSemesters (drop (i + 1) (semesterPlans st)) courseCode = Some d \<longrightarrow>
       removeCourse sem courseCode st
         = st\<lparr>error := Some (removalBlockedMessage courseCode d)\<rparr>"
    by (simp add: removeCourse_def removalBlockedMessage_def Let_def)
  have r2: "\<forall>i k. findIndex (\<lambda>p. semester p = sem) (semesterPlans st) = Some i \<longrightarrow>
       findIndex (\<lambda>c. course_code c = courseCode) (courses (semesterPlans st ! i)) = Some k \<longrightarrow>
       dependentInSemesters (drop (i + 1) (semesterPlans st)) courseCode = None \<longrightarrow>
       error (removeCourse sem courseCode st) = None"
    by (simp add: removeCourse_def Let_def)
  have a3: "(semesterPlans (addCourse sem course st) = semesterPlans st \<or>
             error (addCourse sem course st) = None) \<and>
            courseData (addCourse sem course st) = courseData st \<and>
            userInfo (addCourse sem course st) = userInfo st"
  proof (cases "find (\<lambda>p. semester p = sem) (semesterPlans st)")
    case None
    then show ?thesis by (simp add: addCourse_missing)
  next
    case (Some target)
    then show ?thesis
      by (cases "canPlace course target (semesterPlans st)") (simp_all add: add)
  qed
  have r3: "(semesterPlans (removeCourse sem courseCode st) = semesterPlans st \<or>
             error (removeCourse sem courseCode st) = None) \<and>
            courseData (removeCourse sem courseCode st) = courseData st \<and>
            userInfo (removeCourse sem courseCode st) = userInfo st"
    by (simp add: removeCourse_def Let_def split: option.splits)
  show ?thesis
    by (intro conjI) (use a1 a2 r1 r2 a3 r3 in simp_all)
qed

text \<open>
  C10, at a concrete input.
  A refused placement and a refused removal change the error only; the placement and the
  removal that follow go through and clear it.
\<close>

theorem rejected_mutations_atomic_witness:
  "addCourse ''Summer 2025'' ART1302 summerNine
     = summerNine\<lparr>error :=
         Some ''Adding ART 1302 would exceed the credit limit for Summer 2025''\<rparr> \<and>
   error (addCourse ''Summer 2025'' ART1301
            (addCourse ''Summer 2025'' ART1302 summerNine)) = None \<and>
   removeCourse ''Fall 2024'' ''MTH 1303'' calculusThenPhysics
     = calculusThenPhysics\<lparr>error :=
         Some ''Cannot remove MTH 1303 because it's a prerequisite for PHY 1401''\<rparr> \<and>
   error (removeCourse ''Spring 2025'' ''PHY 1401''
            (removeCourse ''Fall 2024'' ''MTH 1303'' calculusThenPhysics)) = None"
proof -
  let ?refused = "addCourse ''Summer 2025'' ART1302 summerNine"
  let ?blocked = "removeCourse ''Fall 2024'' ''MTH 1303'' calculusThenPhysics"
  have f1: "find (\<lambda>p. semester p = ''Summer 2025'') (semesterPlans summerNine)
            = Some (semesterPlans summerNine ! 2)"
    by code_simp
  have c1: "canPlace ART1302 (semesterPlans summerNine ! 2) (semesterPlans summerNine)
            = Some CreditLimitExceeded"
    by code_simp
  have m1: "reasonMessage CreditLimitExceeded ''Summer 2025'' ART1302
            = ''Adding ART 1302 would exceed the credit limit for Summer 2025''"
    by code_simp
  have f2: "find (\<lambda>p. semester p = ''Summer 2025'') (semesterPlans ?refused)
            = Some (semesterPlans ?refused ! 2)"
    by code_simp
  have c2: "canPlace ART1301 (semesterPlans ?refused ! 2) (semesterPlans ?refused) = None"
    by code_simp
  have f3: "findIndex (\<lambda>p. semester p = ''Fall 2024'') (semesterPlans calculusThenPhysics)
            = Some 0"
    by code_simp
  have k3: "findIndex (\<lambda>c. course_code c = ''MTH 1303'')
              (courses (semesterPlans calculusThenPhysics ! 0)) = Some 0"
    by code_simp
  have d3: "dependentInSemesters (drop (0 + 1) (semesterPlans calculusThenPhysics))
              ''MTH 1303'' = Some ''PHY 1401''"
    by code_simp
  have m3: "removalBlockedMessage ''MTH 1303'' ''PHY 1401''
            = ''Cannot remove MTH 1303 because it's a prerequisite for PHY 1401''"
    by code_simp
  have f4: "findIndex (\<lambda>p. semester p = ''Spring 2025'') (semesterPlans ?blocked) = Some 1"
    by code_simp
  have k4: "findIndex (\<lambda>c. course_code c = ''PHY 1401'')
              (courses (semesterPlans ?blocked ! 1)) = Some 0"
    by code_simp
  have d4: "dependentInSemesters (drop (1 + 1) (semesterPlans ?blocked)) ''PHY 1401'' = None"
    by code_simp
  have "addCourse ''Summer 2025'' ART1302 summerNine
        = summerNine\<lparr>error := Some (reasonMessage CreditLimitExceeded ''Summer 2025'' ART1302)\<rparr>"
    using rejected_mutations_atomic
            [where sem = "''Summer 2025''" and st = summerNine and course = ART1302]
      f1 c1 by blast
  moreover have "error (addCourse ''Summer 2025'' ART1301 ?refused) = None"
    using rejected_mutations_atomic
            [where sem = "''Summer 2025''" and st = ?refused and course = ART1301]
      f2 c2 by blast
  moreover have "removeCourse ''Fall 2024'' ''MTH 1303'' calculusThenPhysics
        = calculusThenPhysics\<lparr>error :=
            Some (removalBlockedMessage ''MTH 1303'' ''PHY 1401'')\<rparr>"
    using rejected_mutations_atomic
            [where sem = "''Fall 2024''" and st = calculusThenPhysics
               and courseCode = "''MTH 1303''"]
      f3 k3 d3 by blast
  moreover have "error (removeCourse ''Spring 2025'' ''PHY 1401'' ?blocked) = None"
    using rejected_mutations_atomic
            [where sem = "''Spring 2025''" and st = ?blocked and courseCode = "''PHY 1401''"]
      f4 k4 d4 by blast
  ultimately show ?thesis
    unfolding m1 m3 by simp
qed

section \<open>The courses available to the prerequisite check\<close>

lemma availableCourses_take:
  assumes "findIndex (\<lambda>p. semester p = sem) plans = Some i"
  shows "availableCourses plans (plans ! i) = concat (map courses (take i plans))"
proof -
  from findIndex_Some [OF assms] have "semester (plans ! i) = sem"
    by simp
  then show ?thesis
    using findIndex_takeWhile [OF assms] by (simp add: availableCourses_def)
qed

lemma previousSemesters_take:
  assumes "findIndex (\<lambda>p. semester p = sem) plans = Some i"
  shows "previousSemesters plans sem = concat (map courses (take i plans))"
  using findIndex_takeWhile [OF assms] by (simp add: previousSemesters_takeWhile)

lemma in_set_take_nth:
  "x \<in> set (take i xs) \<longleftrightarrow> (\<exists>j < i. j < length xs \<and> x = xs ! j)"
proof
  assume "x \<in> set (take i xs)"
  then obtain j where "j < length (take i xs)" "take i xs ! j = x"
    by (auto simp: in_set_conv_nth)
  then have "j < i \<and> j < length xs \<and> x = xs ! j"
    by simp
  then show "\<exists>j < i. j < length xs \<and> x = xs ! j"
    by blast
next
  assume "\<exists>j < i. j < length xs \<and> x = xs ! j"
  then obtain j where j: "j < i" "j < length xs" "x = xs ! j"
    by blast
  then have "j < length (take i xs)" "take i xs ! j = x"
    by simp_all
  then show "x \<in> set (take i xs)"
    by (metis nth_mem)
qed

lemma set_concat_take:
  "set (concat (map courses (take i plans)))
   = {c. \<exists>j < i. j < length plans \<and> c \<in> set (courses (plans ! j))}"
proof -
  have "\<And>c. c \<in> set (concat (map courses (take i plans)))
           \<longleftrightarrow> (\<exists>p. p \<in> set (take i plans) \<and> c \<in> set (courses p))"
    by auto
  then have "\<And>c. c \<in> set (concat (map courses (take i plans)))
           \<longleftrightarrow> (\<exists>j < i. j < length plans \<and> c \<in> set (courses (plans ! j)))"
    unfolding in_set_take_nth by blast
  then show ?thesis by blast
qed

lemma courses_nth_subset:
  assumes "j < length plans"
  shows "set (courses (plans ! j)) \<subseteq> set (concat (map courses plans))"
proof
  fix c
  assume c: "c \<in> set (courses (plans ! j))"
  from assms have "plans ! j \<in> set plans"
    by simp
  with c have "\<exists>p. p \<in> set plans \<and> c \<in> set (courses p)"
    by blast
  then show "c \<in> set (concat (map courses plans))"
    by auto
qed

lemma prerequisite_check_by_index:
  assumes "ledger (semesterPlans st)"
    and "findIndex (\<lambda>p. semester p = sem) (semesterPlans st) = Some i"
    and "\<not> duplicateInSemester course (semesterPlans st ! i)"
    and "\<not> duplicateElsewhere course (semesterPlans st ! i) (semesterPlans st)"
    and "\<not> creditLimitExceeded course (semesterPlans st ! i)"
  shows "addCourse sem course st =
     (if prerequisites course \<noteq> [] \<and>
         \<not> (course_code course = ''CSC 2302'' \<and>
            hasCSC1401 (concat (map courses (take i (semesterPlans st))))) \<and>
         \<not> prerequisitesSatisfied (prerequisites course)
              (concat (map courses (take i (semesterPlans st))))
      then st\<lparr>error := Some (reasonMessage PrerequisitesUnmet sem course)\<rparr>
      else st\<lparr>semesterPlans :=
                (semesterPlans st)[i := place course (semesterPlans st ! i)],
              error := None\<rparr>)"
  unfolding addCourse_ledger [OF assms(1,2)]
  using assms(3-5)
  by (simp add: canPlace_def prerequisitesUnmet_def availableCourses_take [OF assms(2)])

lemma requires_placed_course:
  assumes "A \<in> set available"
  shows "prerequisitesSatisfied [[\<lparr>type = t, value = course_code A\<rparr>]] available"
  using assms by (auto simp: prerequisitesSatisfied_def list_ex_iff)

lemma requires_nothing_placed:
  "\<not> prerequisitesSatisfied [[\<lparr>type = t, value = v\<rparr>]] []"
  by (simp add: prerequisitesSatisfied_def)

text \<open>
  C2: the courses that count for the prerequisite check of \<open>addCourse\<close> are the courses
  of the semesters whose index is strictly less than the index of the target, and
  nothing else decides the check. In particular, when A is in the first semester and B
  requires A, placing B into the first semester is refused with prerequisites-unmet and
  placing B into a later semester goes through.
\<close>

theorem prerequisite_availability:
  assumes "ledger (semesterPlans st)"
  shows "(\<forall>i. findIndex (\<lambda>p. semester p = sem) (semesterPlans st) = Some i \<longrightarrow>
            previousSemesters (semesterPlans st) sem
              = concat (map courses (take i (semesterPlans st))) \<and>
            set (previousSemesters (semesterPlans st) sem)
              = {c. \<exists>j < i. j < length (semesterPlans st) \<and>
                             c \<in> set (courses (semesterPlans st ! j))} \<and>
            (\<not> duplicateInSemester course (semesterPlans st ! i) \<longrightarrow>
             \<not> duplicateElsewhere course (semesterPlans st ! i) (semesterPlans st) \<longrightarrow>
             \<not> creditLimitExceeded course (semesterPlans st ! i) \<longrightarrow>
             addCourse sem course st =
               (if prerequisites course \<noteq> [] \<and>
                   \<not> (course_code course = ''CSC 2302'' \<and>
                      hasCSC1401 (concat (map courses (take i (semesterPlans st))))) \<and>
                   \<not> prerequisitesSatisfied (prerequisites course)
                        (concat (map courses (take i (semesterPlans st))))
                then st\<lparr>error := Some (reasonMessage PrerequisitesUnmet sem course)\<rparr>
                else st\<lparr>semesterPlans :=
                          (semesterPlans st)[i := place course (semesterPlans st ! i)],
                        error := None\<rparr>))) \<and>
         (\<forall>first later k A B t.
            findIndex (\<lambda>p. semester p = first) (semesterPlans st) = Some 0 \<longrightarrow>
            findIndex (\<lambda>p. semester p = later) (semesterPlans st) = Some k \<longrightarrow>
            0 < k \<longrightarrow>
            A \<in> set (courses (semesterPlans st ! 0)) \<longrightarrow>
            prerequisites B = [[\<lparr>type = t, value = course_code A\<rparr>]] \<longrightarrow>
            course_code B \<notin> course_code ` set (concat (map courses (semesterPlans st))) \<longrightarrow>
            \<not> creditLimitExceeded B (semesterPlans st ! 0) \<longrightarrow>
            \<not> creditLimitExceeded B (semesterPlans st ! k) \<longrightarrow>
            addCourse first B st
              = st\<lparr>error := Some (reasonMessage PrerequisitesUnmet first B)\<rparr> \<and>
            addCourse later B st
              = st\<lparr>semesterPlans :=
                     (semesterPlans st)[k := place B (semesterPlans st ! k)],
                   error := None\<rparr>)"
proof (intro conjI allI impI)
  fix i
  assume i: "findIndex (\<lambda>p. semester p = sem) (semesterPlans st) = Some i"
  show "previousSemesters (semesterPlans st) sem
          = concat (map courses (take i (semesterPlans st)))"
    by (rule previousSemesters_take [OF i])
  then show "set (previousSemesters (semesterPlans st) sem)
          = {c. \<exists>j < i. j < length (semesterPlans st) \<and>
                         c \<in> set (courses (semesterPlans st ! j))}"
    by (simp only: set_concat_take)
  assume "\<not> duplicateInSemester course (semesterPlans st ! i)"
    and "\<not> duplicateElsewhere course (semesterPlans st ! i) (semesterPlans st)"
    and "\<not> creditLimitExceeded course (semesterPlans st ! i)"
  then show "addCourse sem course st =
               (if prerequisites course \<noteq> [] \<and>
                   \<not> (course_code course = ''CSC 2302'' \<and>
                      hasCSC1401 (concat (map courses (take i (semesterPlans st))))) \<and>
                   \<not> prerequisitesSatisfied (prerequisites course)
                        (concat (map courses (take i (semesterPlans st))))
                then st\<lparr>error := Some (reasonMessage PrerequisitesUnmet sem course)\<rparr>
                else st\<lparr>semesterPlans :=
                          (semesterPlans st)[i := place course (semesterPlans st ! i)],
                        error := None\<rparr>)"
    by (rule prerequisite_check_by_index [OF assms i])
next
  fix first later :: string and k :: nat and A B :: Course and t :: string
  assume f0: "findIndex (\<lambda>p. semester p = first) (semesterPlans st) = Some 0"
    and fk: "findIndex (\<lambda>p. semester p = later) (semesterPlans st) = Some k"
    and k: "0 < k"
    and A: "A \<in> set (courses (semesterPlans st ! 0))"
    and B: "prerequisites B = [[\<lparr>type = t, value = course_code A\<rparr>]]"
    and fresh: "course_code B \<notin> course_code ` set (concat (map courses (semesterPlans st)))"
    and c0: "\<not> creditLimitExceeded B (semesterPlans st ! 0)"
    and ck: "\<not> creditLimitExceeded B (semesterPlans st ! k)"
  from findIndex_Some [OF f0] have len0: "0 < length (semesterPlans st)"
    by simp
  from findIndex_Some [OF fk] have lenk: "k < length (semesterPlans st)"
    by simp
  have nodup: "\<And>j. j < length (semesterPlans st) \<Longrightarrow>
                 \<not> duplicateInSemester B (semesterPlans st ! j) \<and>
                 \<not> duplicateElsewhere B (semesterPlans st ! j) (semesterPlans st)"
  proof -
    fix j
    assume "j < length (semesterPlans st)"
    from courses_nth_subset [OF this] fresh
    have "course_code B \<notin> course_code ` set (courses (semesterPlans st ! j))"
      by blast
    moreover have "\<And>p. p \<in> set (semesterPlans st) \<Longrightarrow>
                     course_code B \<notin> course_code ` set (courses p)"
      using fresh by auto
    ultimately show "\<not> duplicateInSemester B (semesterPlans st ! j) \<and>
                     \<not> duplicateElsewhere B (semesterPlans st ! j) (semesterPlans st)"
      unfolding duplicateInSemester_def duplicateElsewhere_def by blast
  qed
  have avail: "A \<in> set (concat (map courses (take k (semesterPlans st))))"
    using A k len0 unfolding set_concat_take by blast
  show "addCourse first B st
          = st\<lparr>error := Some (reasonMessage PrerequisitesUnmet first B)\<rparr>"
    using prerequisite_check_by_index [OF assms f0, of B] nodup [OF len0] c0
    by (simp add: B hasCSC1401_def requires_nothing_placed)
  show "addCourse later B st
          = st\<lparr>semesterPlans :=
                 (semesterPlans st)[k := place B (semesterPlans st ! k)],
               error := None\<rparr>"
    using prerequisite_check_by_index [OF assms fk, of B] nodup [OF lenk] ck
    by (simp add: B requires_placed_course [OF avail])
qed

text \<open>
  C2, at a concrete input.
  MTH 1303 is in Fall 2024 and PHY 1401 requires it: PHY 1401 is refused in Fall 2024 and
  placed in Spring 2025, where the available courses are those of Fall 2024.
\<close>

theorem prerequisite_availability_witness:
  "addCourse ''Fall 2024'' PHY1401 calculusFirst
     = calculusFirst\<lparr>error := Some ''Prerequisites for PHY 1401 are not satisfied''\<rparr> \<and>
   addCourse ''Spring 2025'' PHY1401 calculusFirst
     = calculusFirst\<lparr>semesterPlans := (semesterPlans calculusFirst)[1 :=
          \<lparr>semester = ''Spring 2025'', stype = regular, courses = [PHY1401],
           total = Num 4\<rparr>], error := None\<rparr> \<and>
   previousSemesters (semesterPlans calculusFirst) ''Spring 2025'' = [MTH1303]"
proof -
  have l: "ledger (semesterPlans calculusFirst)"
    by code_simp
  have f0: "findIndex (\<lambda>p. semester p = ''Fall 2024'') (semesterPlans calculusFirst) = Some 0"
    by code_simp
  have fk: "findIndex (\<lambda>p. semester p = ''Spring 2025'') (semesterPlans calculusFirst)
            = Some 1"
    by code_simp
  have k: "(0::nat) < 1"
    by simp
  have A: "MTH1303 \<in> set (courses (semesterPlans calculusFirst ! 0))"
    by code_simp
  have B: "prerequisites PHY1401 = [[\<lparr>type = ''course'', value = course_code MTH1303\<rparr>]]"
    by code_simp
  have fresh: "course_code PHY1401
               \<notin> course_code ` set (concat (map courses (semesterPlans calculusFirst)))"
    by code_simp
  have c0: "\<not> creditLimitExceeded PHY1401 (semesterPlans calculusFirst ! 0)"
    by code_simp
  have ck: "\<not> creditLimitExceeded PHY1401 (semesterPlans calculusFirst ! 1)"
    by code_simp
  have m: "reasonMessage PrerequisitesUnmet ''Fall 2024'' PHY1401
           = ''Prerequisites for PHY 1401 are not satisfied''"
    by code_simp
  have p: "place PHY1401 (semesterPlans calculusFirst ! 1)
           = \<lparr>semester = ''Spring 2025'', stype = regular, courses = [PHY1401],
              total = Num 4\<rparr>"
    by code_simp
  have t: "concat (map courses (take 1 (semesterPlans calculusFirst))) = [MTH1303]"
    by code_simp
  note inst = prerequisite_availability [OF l, of "''Spring 2025''" PHY1401]
  from inst [THEN conjunct2, rule_format, OF f0 fk k A B fresh c0 ck]
    inst [THEN conjunct1, rule_format, OF fk, THEN conjunct1]
  show ?thesis
    unfolding m p t by simp
qed

section \<open>Removal and the later courses\<close>

lemma requiresCode_consistent:
  assumes "consistentSpelling courseCode cs"
  shows "filter (\<lambda>d. listsPrerequisite d courseCode) cs
         = filter (\<lambda>d. requiresCode d courseCode) cs"
proof (rule filter_cong [OF refl])
  fix d
  assume "d \<in> set cs"
  with assms show "listsPrerequisite d courseCode = requiresCode d courseCode"
    unfolding consistentSpelling_def listsPrerequisite_def requiresCode_def
    by blast
qed

text \<open>
  C3, as the claim states it, fails: LIT 2301 requires ENG 1301 or ENG 1302 and both are
  placed before it. Without ENG 1301 no later course loses its prerequisites, and yet the
  removal of ENG 1301 is blocked.
\<close>

theorem removal_or_group_counterexample:
  "spec_brokenByRemoval (semesterPlans eitherEnglish) 0 ''ENG 1301'' = [] \<and>
   removeCourse ''Fall 2024'' ''ENG 1301'' eitherEnglish
     = eitherEnglish\<lparr>error :=
         Some ''Cannot remove ENG 1301 because it's a prerequisite for LIT 2301''\<rparr>"
  by code_simp

text \<open>
  C3 (amended): when the prerequisites of the later courses spell the code as the caller
  does, \<open>removeCourse\<close> of a course that is in the semester is blocked exactly when some
  course of a strictly later semester holds the code in one of its prerequisite groups,
  whether or not another alternative of that group is placed; the message names the first
  such course. Otherwise the courses of that code leave the semester and the credits of
  the course are subtracted from the total of the semester.
\<close>

theorem removeCourse_blocking:
  assumes "findIndex (\<lambda>p. semester p = sem) (semesterPlans st) = Some i"
    and "findIndex (\<lambda>c. course_code c = courseCode) (courses (semesterPlans st ! i)) = Some k"
    and "consistentSpelling courseCode (laterCourses (semesterPlans st) i)"
  shows "removeCourse sem courseCode st =
     (case filter (\<lambda>d. requiresCode d courseCode) (laterCourses (semesterPlans st) i) of
        d # _ \<Rightarrow> st\<lparr>error := Some (removalBlockedMessage courseCode (course_code d))\<rparr>
      | [] \<Rightarrow>
          st\<lparr>semesterPlans := (semesterPlans st)[i :=
                (semesterPlans st ! i)
                  \<lparr>courses := filter (\<lambda>c. course_code c \<noteq> courseCode)
                                (courses (semesterPlans st ! i)),
                   total := js_sub (total (semesterPlans st ! i))
                              (parseInt (credits (courses (semesterPlans st ! i) ! k)))\<rparr>],
              error := None\<rparr>)"
  unfolding removeCourse_found [OF assms(1,2)]
    requiresCode_consistent [OF assms(3), unfolded laterCourses_def, symmetric]
    laterCourses_def
  by (rule refl)

text \<open>
  C3, at a concrete input.
  MTH 1303 is in Fall 2024 and PHY 1401, which requires it, in Spring 2025: the removal
  of MTH 1303 is blocked and names PHY 1401; once PHY 1401 is removed, the removal of
  MTH 1303 goes through and the plan is empty again.
\<close>

theorem removeCourse_blocking_witness:
  "removeCourse ''Fall 2024'' ''MTH 1303'' calculusThenPhysics
     = calculusThenPhysics\<lparr>error :=
         Some ''Cannot remove MTH 1303 because it's a prerequisite for PHY 1401''\<rparr> \<and>
   removeCourse ''Fall 2024'' ''MTH 1303''
       (removeCourse ''Spring 2025'' ''PHY 1401'' calculusThenPhysics)
     = (removeCourse ''Spring 2025'' ''PHY 1401'' calculusThenPhysics)
         \<lparr>semesterPlans := semesterPlans emptyPlan, error := None\<rparr>"
proof -
  let ?st = "removeCourse ''Spring 2025'' ''PHY 1401'' calculusThenPhysics"
  have f: "findIndex (\<lambda>p. semester p = ''Fall 2024'') (semesterPlans calculusThenPhysics)
           = Some 0"
    by code_simp
  have k: "findIndex (\<lambda>c. course_code c = ''MTH 1303'')
             (courses (semesterPlans calculusThenPhysics ! 0)) = Some 0"
    by code_simp
  have s: "consistentSpelling ''MTH 1303'' (laterCourses (semesterPlans calculusThenPhysics) 0)"
    by code_simp
  have d: "filter (\<lambda>d. requiresCode d ''MTH 1303'')
             (laterCourses (semesterPlans calculusThenPhysics) 0) = [PHY1401]"
    by code_simp
  have m: "removalBlockedMessage ''MTH 1303'' (course_code PHY1401)
           = ''Cannot remove MTH 1303 because it's a prerequisite for PHY 1401''"
    by code_simp
  have f': "findIndex (\<lambda>p. semester p = ''Fall 2024'') (semesterPlans ?st) = Some 0"
    by code_simp
  have k': "findIndex (\<lambda>c. course_code c = ''MTH 1303'') (courses (semesterPlans ?st ! 0))
            = Some 0"
    by code_simp
  have s': "consistentSpelling ''MTH 1303'' (laterCourses (semesterPlans ?st) 0)"
    by code_simp
  have d': "filter (\<lambda>d. requiresCode d ''MTH 1303'') (laterCourses (semesterPlans ?st) 0) = []"
    by code_simp
  have u: "(semesterPlans ?st)[0 :=
             (semesterPlans ?st ! 0)
               \<lparr>courses := filter (\<lambda>c. course_code c \<noteq> ''MTH 1303'')
                             (courses (semesterPlans ?st ! 0)),
                total := js_sub (total (semesterPlans ?st ! 0))
                           (parseInt (credits (courses (semesterPlans ?st ! 0) ! 0)))\<rparr>]
           = semesterPlans emptyPlan"
    by code_simp
  have blocked: "removeCourse ''Fall 2024'' ''MTH 1303'' calculusThenPhysics
     = calculusThenPhysics\<lparr>error :=
         Some (removalBlockedMessage ''MTH 1303'' (course_code PHY1401))\<rparr>"
    unfolding removeCourse_blocking [OF f k s] d by simp
  have removed: "removeCourse ''Fall 2024'' ''MTH 1303'' ?st
     = ?st\<lparr>semesterPlans := semesterPlans emptyPlan, error := None\<rparr>"
    unfolding removeCourse_blocking [OF f' k' s'] d' u by simp
  from blocked removed show ?thesis
    unfolding m by simp
qed

section \<open>Normalized and exact comparisons\<close>

lemma mem_normalizedCodes:
  "x \<in> normalizedCodes cs \<longleftrightarrow> (\<exists>c \<in> set cs. normalizeCourseCode (course_code c) = x)"
proof -
  have "(\<exists>c \<in> set cs. x = normalizeCourseCode (course_code c))
        = (\<exists>c \<in> set cs. normalizeCourseCode (course_code c) = x)"
    by (rule bex_cong [OF refl]) (rule eq_commute)
  then show ?thesis
    by (simp add: normalizedCodes_def image_iff)
qed

lemma prerequisitesSatisfied_evaluate:
  "prerequisitesSatisfied groups previous
   = spec_evaluate (normalizedExpression groups) (normalizedCodes previous)"
  unfolding prerequisitesSatisfied_def spec_evaluate_def normalizedExpression_def
  by (simp add: list_all_iff list_ex_iff mem_normalizedCodes) blast

lemma hasCSC1401_normalized:
  "hasCSC1401 previous \<longleftrightarrow> normalizeCourseCode ''CSC1401'' \<in> normalizedCodes previous"
  unfolding hasCSC1401_def by (simp only: list_ex_iff mem_normalizedCodes)

text \<open>
  C6, as the claim states it, fails at three of the four places. CSC 1401, CSC1401 and
  csc-1401 have one normal form, and yet the first two are placed in one semester and
  the third in another one; MTH 2301 requires MTH1303, which is the normal form of
  MTH 1303, and yet MTH 1303 is removed from under it.
\<close>

theorem raw_comparison_counterexample:
  "normalizeCourseCode ''CSC1401'' = normalizeCourseCode ''CSC 1401'' \<and>
   normalizeCourseCode ''csc-1401'' = normalizeCourseCode ''CSC 1401'' \<and>
   map (map course_code \<circ> courses)
     (take 2 (semesterPlans
        (addCourse ''Spring 2025'' CSC1401_hyphen
           (addCourse ''Fall 2024'' CSC1401_unspaced
              (addCourse ''Fall 2024'' CSC1401 emptyPlan)))))
     = [[''CSC 1401'', ''CSC1401''], [''csc-1401'']] \<and>
   normalizeCourseCode ''MTH1303'' = normalizeCourseCode ''MTH 1303'' \<and>
   map (map course_code \<circ> courses) (take 2 (semesterPlans calculusChain))
     = [[''MTH 1303''], [''MTH 2301'']] \<and>
   map (map course_code \<circ> courses)
     (take 2 (semesterPlans (removeCourse ''Fall 2024'' ''MTH 1303'' calculusChain)))
     = [[], [''MTH 2301'']] \<and>
   error (removeCourse ''Fall 2024'' ''MTH 1303'' calculusChain) = None"
  by code_simp

text \<open>
  C6 (amended): in a ledger, the prerequisite check of \<open>addCourse\<close> compares the
  prerequisite values and the codes of the courses placed before normalized: it is the
  evaluation of the normalized prerequisite expression on the set of the normalized codes
  of the available courses, so that spellings with one normal form are one course there.
  Every other comparison of \<open>addCourse\<close> is of the codes as they are written. A course
  whose code is written like a course of the target semester is refused as a duplicate
  in the semester, one whose code is written like a course of another semester as a
  duplicate elsewhere, and one whose code is written like no placed course is never
  refused as a duplicate. The exception for CSC 2302, which passes once CSC 1401 is
  available, is for the code written exactly so.
\<close>

theorem normalized_comparisons:
  assumes "ledger (semesterPlans st)"
    and "find (\<lambda>p. semester p = sem) (semesterPlans st) = Some target"
  shows "prerequisitesSatisfied groups previous
           = spec_evaluate (normalizedExpression groups) (normalizedCodes previous) \<and>
         (normalizedExpression groups = normalizedExpression groups' \<longrightarrow>
          normalizedCodes previous = normalizedCodes previous' \<longrightarrow>
          prerequisitesSatisfied groups previous = prerequisitesSatisfied groups' previous' \<and>
          hasCSC1401 previous = hasCSC1401 previous') \<and>
         (course_code course \<in> course_code ` set (courses target) \<longrightarrow>
          addCourse sem course st
            = st\<lparr>error := Some (reasonMessage DuplicateInSemester sem course)\<rparr>) \<and>
         (course_code course \<notin> course_code ` set (courses target) \<longrightarrow>
          course_code course \<in> course_code ` set (concat (map courses (semesterPlans st))) \<longrightarrow>
          addCourse sem course st
            = st\<lparr>error := Some (reasonMessage DuplicateElsewhere sem course)\<rparr>) \<and>
         (course_code course \<notin> course_code ` set (concat (map courses (semesterPlans st))) \<longrightarrow>
          addCourse sem course st
            = (if creditLimitExceeded course target
               then st\<lparr>error := Some (reasonMessage CreditLimitExceeded sem course)\<rparr>
               else if prerequisites course \<noteq> [] \<and>
                       \<not> (course_code course = ''CSC 2302'' \<and>
                          normalizeCourseCode ''CSC1401''
                            \<in> normalizedCodes (availableCourses (semesterPlans st) target)) \<and>
                       \<not> spec_evaluate (normalizedExpression (prerequisites course))
                            (normalizedCodes (availableCourses (semesterPlans st) target))
               then st\<lparr>error := Some (reasonMessage PrerequisitesUnmet sem course)\<rparr>
               else st\<lparr>semesterPlans := addToSemester sem course (semesterPlans st),
                       error := None\<rparr>))"
proof (intro conjI impI)
  show "prerequisitesSatisfied groups previous
          = spec_evaluate (normalizedExpression groups) (normalizedCodes previous)"
    by (rule prerequisitesSatisfied_evaluate)
next
  assume "normalizedExpression groups = normalizedExpression groups'"
    and "normalizedCodes previous = normalizedCodes previous'"
  then show "prerequisitesSatisfied groups previous = prerequisitesSatisfied groups' previous'"
    and "hasCSC1401 previous = hasCSC1401 previous'"
    by (simp_all add: prerequisitesSatisfied_evaluate hasCSC1401_normalized)
next
  assume "course_code course \<in> course_code ` set (courses target)"
  then show "addCourse sem course st
               = st\<lparr>error := Some (reasonMessage DuplicateInSemester sem course)\<rparr>"
    by (simp add: addCourse_found [OF assms(2)] canPlace_def duplicateInSemester_def)
next
  assume notHere: "course_code course \<notin> course_code ` set (courses target)"
    and placed: "course_code course
                 \<in> course_code ` set (concat (map courses (semesterPlans st)))"
  from assms(2) have t: "target \<in> set (semesterPlans st)" and name: "semester target = sem"
    by (auto simp: find_Some_iff)
  from placed obtain p where p: "p \<in> set (semesterPlans st)"
    and c: "course_code course \<in> course_code ` set (courses p)"
    by auto
  from c notHere have "p \<noteq> target"
    by blast
  with assms(1) p t have "semester p \<noteq> semester target"
    unfolding ledger_def by (metis distinct_map inj_onD)
  with p c have "duplicateElsewhere course target (semesterPlans st)"
    unfolding duplicateElsewhere_def by blast
  with notHere show "addCourse sem course st
               = st\<lparr>error := Some (reasonMessage DuplicateElsewhere sem course)\<rparr>"
    by (simp add: addCourse_found [OF assms(2)] canPlace_def duplicateInSemester_def)
next
  assume fresh: "course_code course
                 \<notin> course_code ` set (concat (map courses (semesterPlans st)))"
  from assms(2) have "target \<in> set (semesterPlans st)"
    by (auto simp: find_Some_iff)
  with fresh have "\<not> duplicateInSemester course target"
    unfolding duplicateInSemester_def by auto
  moreover from fresh have "\<not> duplicateElsewhere course target (semesterPlans st)"
    unfolding duplicateElsewhere_def by auto
  ultimately show "addCourse sem course st
            = (if creditLimitExceeded course target
               then st\<lparr>error := Some (reasonMessage CreditLimitExceeded sem course)\<rparr>
               else if prerequisites course \<noteq> [] \<and>
                       \<not> (course_code course = ''CSC 2302'' \<and>
                          normalizeCourseCode ''CSC1401''
                            \<in> normalizedCodes (availableCourses (semesterPlans st) target)) \<and>
                       \<not> spec_evaluate (normalizedExpression (prerequisites course))
                            (normalizedCodes (availableCourses (semesterPlans st) target))
               then st\<lparr>error := Some (reasonMessage PrerequisitesUnmet sem course)\<rparr>
               else st\<lparr>semesterPlans := addToSemester sem course (semesterPlans st),
                       error := None\<rparr>)"
    by (simp add: addCourse_found [OF assms(2)] canPlace_def prerequisitesUnmet_def
          hasCSC1401_normalized prerequisitesSatisfied_evaluate)
qed

text \<open>
  C6, at a concrete input.
  The prerequisite written mth-1303 is satisfied by MTH 1303 as the one written MTH1303
  is. With CSC 1401 in Fall 2024, a second CSC 1401 is refused there as a duplicate and
  in Spring 2025 as a duplicate elsewhere, and CSC1401 is placed beside the first one.
  CSC 2302 is placed in Spring 2025 though MTH 1304 is missing, and CSC2302 is refused.
\<close>

theorem normalized_comparisons_witness:
  "prerequisitesSatisfied [[course_prereq ''mth-1303'']] [MTH1303] \<and>
   prerequisitesSatisfied [[course_prereq ''MTH1303'']] [MTH1303] \<and>
   addCourse ''Fall 2024'' CSC1401 programmingFirst
     = programmingFirst\<lparr>error := Some ''CSC 1401 is already in Fall 2024''\<rparr> \<and>
   addCourse ''Spring 2025'' CSC1401 programmingFirst
     = programmingFirst\<lparr>error := Some ''CSC 1401 is already in another semester''\<rparr> \<and>
   addCourse ''Fall 2024'' CSC1401_unspaced programmingFirst
     = programmingFirst\<lparr>semesterPlans :=
         addToSemester ''Fall 2024'' CSC1401_unspaced (semesterPlans programmingFirst),
         error := None\<rparr> \<and>
   addCourse ''Spring 2025'' CSC2302 programmingFirst
     = programmingFirst\<lparr>semesterPlans :=
         addToSemester ''Spring 2025'' CSC2302 (semesterPlans programmingFirst),
         error := None\<rparr> \<and>
   addCourse ''Spring 2025'' CSC2302_unspaced programmingFirst
     = programmingFirst\<lparr>error := Some ''Prerequisites for CSC2302 are not satisfied''\<rparr>"
proof -
  let ?plans = "semesterPlans programmingFirst"
  have l: "ledger ?plans"
    by code_simp
  have f: "find (\<lambda>p. semester p = ''Fall 2024'') ?plans = Some (?plans ! 0)"
    by code_simp
  have g: "find (\<lambda>p. semester p = ''Spring 2025'') ?plans = Some (?plans ! 1)"
    by code_simp
  have e: "normalizedExpression [[course_prereq ''mth-1303'']]
           = normalizedExpression [[course_prereq ''MTH1303'']]"
    by code_simp
  have holds: "prerequisitesSatisfied [[course_prereq ''MTH1303'']] [MTH1303]"
    by code_simp
  have same: "course_code CSC1401 \<in> course_code ` set (courses (?plans ! 0))"
    by code_simp
  have other: "course_code CSC1401 \<notin> course_code ` set (courses (?plans ! 1))"
    by code_simp
  have placed: "course_code CSC1401 \<in> course_code ` set (concat (map courses ?plans))"
    by code_simp
  have fresh: "course_code CSC1401_unspaced \<notin> course_code ` set (concat (map courses ?plans))"
    by code_simp
  have nc: "\<not> creditLimitExceeded CSC1401_unspaced (?plans ! 0)"
    by code_simp
  have np: "prerequisites CSC1401_unspaced = []"
    by code_simp
  have fresh2: "course_code CSC2302 \<notin> course_code ` set (concat (map courses ?plans))"
    by code_simp
  have nc2: "\<not> creditLimitExceeded CSC2302 (?plans ! 1)"
    by code_simp
  have exact2: "course_code CSC2302 = ''CSC 2302''"
    by code_simp
  have avail: "normalizeCourseCode ''CSC1401'' \<in> normalizedCodes (availableCourses ?plans (?plans ! 1))"
    by code_simp
  have fresh3: "course_code CSC2302_unspaced
                \<notin> course_code ` set (concat (map courses ?plans))"
    by code_simp
  have nc3: "\<not> creditLimitExceeded CSC2302_unspaced (?plans ! 1)"
    by code_simp
  have some3: "prerequisites CSC2302_unspaced \<noteq> []"
    by code_simp
  have other3: "course_code CSC2302_unspaced \<noteq> ''CSC 2302''"
    by code_simp
  have unmet3: "\<not> spec_evaluate (normalizedExpression (prerequisites CSC2302_unspaced))
                    (normalizedCodes (availableCourses ?plans (?plans ! 1)))"
    by code_simp
  have m: "reasonMessage DuplicateInSemester ''Fall 2024'' CSC1401
           = ''CSC 1401 is already in Fall 2024''"
    "reasonMessage DuplicateElsewhere ''Spring 2025'' CSC1401
           = ''CSC 1401 is already in another semester''"
    "reasonMessage PrerequisitesUnmet ''Spring 2025'' CSC2302_unspaced
           = ''Prerequisites for CSC2302 are not satisfied''"
    by code_simp+
  note fall = normalized_comparisons [OF l f]
  note spring = normalized_comparisons [OF l g]
  have "prerequisitesSatisfied [[course_prereq ''mth-1303'']] [MTH1303]
        = prerequisitesSatisfied [[course_prereq ''MTH1303'']] [MTH1303]"
    using fall [of "[[course_prereq ''mth-1303'']]" "[MTH1303]"
                   "[[course_prereq ''MTH1303'']]" "[MTH1303]"] e
    by blast
  moreover have "addCourse ''Fall 2024'' CSC1401 programmingFirst
     = programmingFirst\<lparr>error := Some (reasonMessage DuplicateInSemester ''Fall 2024'' CSC1401)\<rparr>"
    using fall [where course = CSC1401] same by blast
  moreover have "addCourse ''Spring 2025'' CSC1401 programmingFirst
     = programmingFirst\<lparr>error := Some (reasonMessage DuplicateElsewhere ''Spring 2025'' CSC1401)\<rparr>"
    using spring [where course = CSC1401] other placed by blast
  moreover have "addCourse ''Fall 2024'' CSC1401_unspaced programmingFirst
     = programmingFirst\<lparr>semesterPlans :=
         addToSemester ''Fall 2024'' CSC1401_unspaced (semesterPlans programmingFirst),
         error := None\<rparr>"
    using fall [where course = CSC1401_unspaced] fresh nc np by simp
  moreover have "addCourse ''Spring 2025'' CSC2302 programmingFirst
     = programmingFirst\<lparr>semesterPlans :=
         addToSemester ''Spring 2025'' CSC2302 (semesterPlans programmingFirst),
         error := None\<rparr>"
    using spring [where course = CSC2302] fresh2 nc2 exact2 avail by simp
  moreover have "addCourse ''Spring 2025'' CSC2302_unspaced programmingFirst
     = programmingFirst\<lparr>error :=
         Some (reasonMessage PrerequisitesUnmet ''Spring 2025'' CSC2302_unspaced)\<rparr>"
    using spring [where course = CSC2302_unspaced] fresh3 nc3 some3 other3 unmet3 by simp
  ultimately show ?thesis
    using holds unfolding m by simp
qed

section \<open>The semesters of resetPlan form an empty ledger\<close>

lemma digit_char_inject:
  assumes "a < 10" and "b < 10" and "''0123456789'' ! a = ''0123456789'' ! b"
  shows "a = b"
proof -
  have "distinct ''0123456789''"
    by simp
  moreover have "a < length ''0123456789''" "b < length ''0123456789''"
    using assms(1,2) by simp_all
  ultimately show ?thesis
    using assms(3) by (simp only: nth_eq_iff_index_eq)
qed

lemma digit_char_not_minus:
  assumes "a < 10"
  shows "''0123456789'' ! a \<noteq> CHR ''-''"
proof -
  from assms have "''0123456789'' ! a \<in> set ''0123456789''"
    by (intro nth_mem) simp
  then show ?thesis by auto
qed

lemma digits_nonempty: "digits n \<noteq> []"
  by (subst digits.simps) simp

lemma digits_hd_not_minus: "hd (digits n) \<noteq> CHR ''-''"
proof (induction n rule: digits.induct)
  case (1 n)
  show ?case
  proof (cases "n < 10")
    case True
    then show ?thesis
      by (subst digits.simps) (simp add: digit_char_not_minus)
  next
    case False
    with "1.IH" show ?thesis
      by (subst digits.simps) (simp add: digits_nonempty)
  qed
qed

lemma digits_inject: "digits n = digits m \<Longrightarrow> n = m"
proof (induction n arbitrary: m rule: digits.induct)
  case (1 n)
  have long: "\<And>k. \<not> k < 10 \<Longrightarrow> 2 \<le> length (digits k)"
  proof -
    fix k :: nat
    assume "\<not> k < 10"
    then have "digits k = digits (k div 10) @ [''0123456789'' ! (k mod 10)]"
      by (subst digits.simps) simp
    moreover have "1 \<le> length (digits (k div 10))"
      using digits_nonempty [of "k div 10"] by (cases "digits (k div 10)") simp_all
    ultimately show "2 \<le> length (digits k)"
      by simp
  qed
  have short: "\<And>k. k < 10 \<Longrightarrow> digits k = [''0123456789'' ! k]"
    by (subst digits.simps) simp
  show ?case
  proof (cases "n < 10")
    case n: True
    show ?thesis
    proof (cases "m < 10")
      case True
      with n "1.prems" show ?thesis
        by (simp add: short digit_char_inject)
    next
      case False
      from "1.prems" have "length (digits n) = length (digits m)"
        by (rule arg_cong)
      moreover from short [OF n] have "length (digits n) = 1"
        by simp
      ultimately show ?thesis
        using long [OF False] by linarith
    qed
  next
    case n: False
    show ?thesis
    proof (cases "m < 10")
      case True
      from "1.prems" have "length (digits n) = length (digits m)"
        by (rule arg_cong)
      moreover from short [OF True] have "length (digits m) = 1"
        by simp
      ultimately show ?thesis
        using long [OF n] by linarith
    next
      case False
      have dn: "digits n = digits (n div 10) @ [''0123456789'' ! (n mod 10)]"
        using n by (subst digits.simps) simp
      have dm: "digits m = digits (m div 10) @ [''0123456789'' ! (m mod 10)]"
        using False by (subst digits.simps) simp
      from "1.prems" dn dm
      have front: "digits (n div 10) = digits (m div 10)"
        and lastd: "''0123456789'' ! (n mod 10) = ''0123456789'' ! (m mod 10)"
        by simp_all
      from "1.IH" [OF n front] have "n div 10 = m div 10" .
      moreover from lastd have "n mod 10 = m mod 10"
        by (intro digit_char_inject) simp_all
      ultimately show ?thesis
        by (metis div_mult_mod_eq)
    qed
  qed
qed

lemma numberToString_inject: "numberToString a = numberToString b \<Longrightarrow> a = b"
proof -
  assume eq: "numberToString a = numberToString b"
  have minus: "\<And>x y. CHR ''-'' # digits x \<noteq> digits y"
  proof
    fix x y
    assume "CHR ''-'' # digits x = digits y"
    then have "hd (digits y) = CHR ''-''"
      by (metis list.sel(1))
    with digits_hd_not_minus [of y] show False by simp
  qed
  show "a = b"
  proof (cases "a < 0")
    case a: True
    show ?thesis
    proof (cases "b < 0")
      case True
      with a eq have "digits (nat (- a)) = digits (nat (- b))"
        by (simp add: numberToString_def)
      from digits_inject [OF this] a True show ?thesis by simp
    next
      case False
      with a eq minus show ?thesis
        by (simp add: numberToString_def)
    qed
  next
    case a: False
    show ?thesis
    proof (cases "b < 0")
      case True
      with a eq minus [of "nat (- b)" "nat a"] show ?thesis
        by (simp add: numberToString_def)
    next
      case False
      with a eq have "digits (nat a) = digits (nat b)"
        by (simp add: numberToString_def)
      from digits_inject [OF this] a False show ?thesis by simp
    qed
  qed
qed

lemma term_cases:
  "s \<in> set semesterOrder \<longleftrightarrow> s = ''Fall'' \<or> s = ''Spring'' \<or> s = ''Summer''"
  by (auto simp: semesterOrder_def)

lemma generateSemesters_Fall:
  "generateSemesters y ''Fall'' ey es =
     (if y < ey \<or> (y = ey \<and> 0 \<le> indexOf semesterOrder es)
      then semesterNamed y ''Fall'' # generateSemesters y ''Spring'' ey es else [])"
  by (subst generateSemesters.simps)
     (simp add: indexOf_semesterOrder_cases semesterNamed_def semesterOrder_def)

lemma generateSemesters_Spring:
  "generateSemesters y ''Spring'' ey es =
     (if y < ey \<or> (y = ey \<and> 1 \<le> indexOf semesterOrder es)
      then semesterNamed y ''Spring'' # generateSemesters y ''Summer'' ey es else [])"
  by (subst generateSemesters.simps)
     (simp add: indexOf_semesterOrder_cases semesterNamed_def semesterOrder_def)

lemma generateSemesters_Summer:
  "generateSemesters y ''Summer'' ey es =
     (if y < ey \<or> (y = ey \<and> 2 \<le> indexOf semesterOrder es)
      then semesterNamed y ''Summer'' # generateSemesters (y + 1) ''Fall'' ey es else [])"
  by (subst generateSemesters.simps)
     (simp add: indexOf_semesterOrder_cases semesterNamed_def semesterOrder_def)

lemma termKey_values:
  "termKey y ''Fall'' = 3 * y" "termKey y ''Spring'' = 3 * y + 1"
  "termKey y ''Summer'' = 3 * y + 2"
  by (simp_all add: termKey_def indexOf_semesterOrder_cases)

lemma semesterNamed_inject:
  assumes "s \<in> set semesterOrder" and "s' \<in> set semesterOrder"
    and "semester (semesterNamed y s) = semester (semesterNamed y' s')"
  shows "termKey y s = termKey y' s'"
proof -
  have same: "\<And>t a b. t @ '' '' @ numberToString a = t @ '' '' @ numberToString b \<Longrightarrow> a = b"
    by (simp add: numberToString_inject)
  from assms(1,2) consider
      "s = ''Fall''" "s' = ''Fall''" | "s = ''Spring''" "s' = ''Spring''"
    | "s = ''Summer''" "s' = ''Summer''" | "s \<noteq> s'"
    unfolding term_cases by blast
  then show ?thesis
  proof cases
    case 1
    with assms(3) same [of "''Fall''" y y'] show ?thesis
      by (simp add: semesterNamed_def emptySemester_def)
  next
    case 2
    with assms(3) same [of "''Spring''" "y + 1" "y' + 1"] show ?thesis
      by (simp add: semesterNamed_def emptySemester_def)
  next
    case 3
    with assms(3) same [of "''Summer''" "y + 1" "y' + 1"] show ?thesis
      by (simp add: semesterNamed_def emptySemester_def)
  next
    case 4
    with assms show ?thesis
      unfolding term_cases
      by (auto simp: semesterNamed_def emptySemester_def)
  qed
qed

lemma generateSemesters_keys:
  assumes "s \<in> set semesterOrder" and "p \<in> set (generateSemesters y s ey es)"
  shows "\<exists>y' s'. s' \<in> set semesterOrder \<and> termKey y s \<le> termKey y' s' \<and>
                 p = semesterNamed y' s'"
  using assms
proof (induction "nat (3 * (ey - y) + 3 - indexOf semesterOrder s)" arbitrary: y s
        rule: less_induct)
  case less
  from less.prems(1) consider "s = ''Fall''" | "s = ''Spring''" | "s = ''Summer''"
    unfolding term_cases by blast
  then show ?case
  proof cases
    case 1
    with less.prems(2) have run: "y \<le> ey"
      and mem: "p = semesterNamed y ''Fall'' \<or> p \<in> set (generateSemesters y ''Spring'' ey es)"
      by (auto simp: generateSemesters_Fall split: if_splits)
    from mem show ?thesis
    proof
      assume "p = semesterNamed y ''Fall''"
      with 1 less.prems(1) show ?thesis by blast
    next
      assume rest: "p \<in> set (generateSemesters y ''Spring'' ey es)"
      have "nat (3 * (ey - y) + 3 - indexOf semesterOrder ''Spring'')
            < nat (3 * (ey - y) + 3 - indexOf semesterOrder s)"
        using run 1 by (simp add: indexOf_semesterOrder_cases)
      from less.hyps [OF this _ rest]
      obtain y' s' where "s' \<in> set semesterOrder" "termKey y ''Spring'' \<le> termKey y' s'"
        "p = semesterNamed y' s'"
        by (auto simp: term_cases)
      with 1 show ?thesis
        by (auto simp: termKey_values intro!: exI [of _ y'] exI [of _ s'])
    qed
  next
    case 2
    with less.prems(2) have run: "y \<le> ey"
      and mem: "p = semesterNamed y ''Spring'' \<or> p \<in> set (generateSemesters y ''Summer'' ey es)"
      by (auto simp: generateSemesters_Spring split: if_splits)
    from mem show ?thesis
    proof
      assume "p = semesterNamed y ''Spring''"
      with 2 less.prems(1) show ?thesis by blast
    next
      assume rest: "p \<in> set (generateSemesters y ''Summer'' ey es)"
      have "nat (3 * (ey - y) + 3 - indexOf semesterOrder ''Summer'')
            < nat (3 * (ey - y) + 3 - indexOf semesterOrder s)"
        using run 2 by (simp add: indexOf_semesterOrder_cases)
      from less.hyps [OF this _ rest]
      obtain y' s' where "s' \<in> set semesterOrder" "termKey y ''Summer'' \<le> termKey y' s'"
        "p = semesterNamed y' s'"
        by (auto simp: term_cases)
      with 2 show ?thesis
        by (auto simp: termKey_values intro!: exI [of _ y'] exI [of _ s'])
    qed
  next
    case 3
    with less.prems(2) have run: "y \<le> ey"
      and mem: "p = semesterNamed y ''Summer'' \<or>
                p \<in> set (generateSemesters (y + 1) ''Fall'' ey es)"
      by (auto simp: generateSemesters_Summer split: if_splits)
    from mem show ?thesis
    proof
      assume "p = semesterNamed y ''Summer''"
      with 3 less.prems(1) show ?thesis by blast
    next
      assume rest: "p \<in> set (generateSemesters (y + 1) ''Fall'' ey es)"
      have "nat (3 * (ey - (y + 1)) + 3 - indexOf semesterOrder ''Fall'')
            < nat (3 * (ey - y) + 3 - indexOf semesterOrder s)"
        using run 3 by (simp add: indexOf_semesterOrder_cases)
      from less.hyps [OF this _ rest]
      obtain y' s' where "s' \<in> set semesterOrder" "termKey (y + 1) ''Fall'' \<le> termKey y' s'"
        "p = semesterNamed y' s'"
        by (auto simp: term_cases)
      with 3 show ?thesis
        by (auto simp: termKey_values intro!: exI [of _ y'] exI [of _ s'])
    qed
  qed
qed

lemma earlier_name_fresh:
  assumes "s \<in> set semesterOrder" and "s0 \<in> set semesterOrder"
    and "termKey y s < termKey y0 s0"
  shows "semester (semesterNamed y s) \<notin> semester ` set (generateSemesters y0 s0 ey es)"
proof
  assume "semester (semesterNamed y s) \<in> semester ` set (generateSemesters y0 s0 ey es)"
  then obtain p where p: "p \<in> set (generateSemesters y0 s0 ey es)"
    and name: "semester (semesterNamed y s) = semester p"
    by blast
  from generateSemesters_keys [OF assms(2) p]
  obtain y' s' where valid: "s' \<in> set semesterOrder"
    and key: "termKey y0 s0 \<le> termKey y' s'" and shape: "p = semesterNamed y' s'"
    by blast
  from semesterNamed_inject [OF assms(1) valid] name shape
  have "termKey y s = termKey y' s'"
    by simp
  with key assms(3) show False
    by simp
qed

lemma generateSemesters_distinct:
  assumes "s \<in> set semesterOrder"
  shows "distinct (map semester (generateSemesters y s ey es))"
  using assms
proof (induction "nat (3 * (ey - y) + 3 - indexOf semesterOrder s)" arbitrary: y s
        rule: less_induct)
  case less
  have valid: "''Fall'' \<in> set semesterOrder" "''Spring'' \<in> set semesterOrder"
    "''Summer'' \<in> set semesterOrder"
    by (simp_all add: term_cases)
  from less.prems consider "s = ''Fall''" | "s = ''Spring''" | "s = ''Summer''"
    unfolding term_cases by blast
  then show ?case
  proof cases
    case 1
    show ?thesis
    proof (cases "y < ey \<or> (y = ey \<and> 0 \<le> indexOf semesterOrder es)")
      case True
      then have "nat (3 * (ey - y) + 3 - indexOf semesterOrder ''Spring'')
                 < nat (3 * (ey - y) + 3 - indexOf semesterOrder s)"
        using 1 by (auto simp: indexOf_semesterOrder_cases)
      from less.hyps [OF this valid(2)]
      have "distinct (map semester (generateSemesters y ''Spring'' ey es))" .
      moreover have "semester (semesterNamed y ''Fall'')
                     \<notin> semester ` set (generateSemesters y ''Spring'' ey es)"
        by (rule earlier_name_fresh [OF valid(1,2)]) (simp add: termKey_values)
      ultimately show ?thesis
        using True 1 by (simp add: generateSemesters_Fall)
    next
      case False
      with 1 show ?thesis by (auto simp: generateSemesters_Fall)
    qed
  next
    case 2
    show ?thesis
    proof (cases "y < ey \<or> (y = ey \<and> 1 \<le> indexOf semesterOrder es)")
      case True
      then have "nat (3 * (ey - y) + 3 - indexOf semesterOrder ''Summer'')
                 < nat (3 * (ey - y) + 3 - indexOf semesterOrder s)"
        using 2 by (auto simp: indexOf_semesterOrder_cases)
      from less.hyps [OF this valid(3)]
      have "distinct (map semester (generateSemesters y ''Summer'' ey es))" .
      moreover have "semester (semesterNamed y ''Spring'')
                     \<notin> semester ` set (generateSemesters y ''Summer'' ey es)"
        by (rule earlier_name_fresh [OF valid(2,3)]) (simp add: termKey_values)
      ultimately show ?thesis
        using True 2 by (simp add: generateSemesters_Spring)
    next
      case False
      with 2 show ?thesis by (auto simp: generateSemesters_Spring)
    qed
  next
    case 3
    show ?thesis
    proof (cases "y < ey \<or> (y = ey \<and> 2 \<le> indexOf semesterOrder es)")
      case True
      then have "nat (3 * (ey - (y + 1)) + 3 - indexOf semesterOrder ''Fall'')
                 < nat (3 * (ey - y) + 3 - indexOf semesterOrder s)"
        using 3 by (auto simp: indexOf_semesterOrder_cases)
      from less.hyps [OF this valid(1)]
      have "distinct (map semester (generateSemesters (y + 1) ''Fall'' ey es))" .
      moreover have "semester (semesterNamed y ''Summer'')
                     \<notin> semester ` set (generateSemesters (y + 1) ''Fall'' ey es)"
        by (rule earlier_name_fresh [OF valid(3,1)]) (simp add: termKey_values)
      ultimately show ?thesis
        using True 3 by (simp add: generateSemesters_Summer)
    next
      case False
      with 3 show ?thesis by (auto simp: generateSemesters_Summer)
    qed
  qed
qed

lemma emptyLedger_generateSemesters:
  assumes "s \<in> set semesterOrder"
  shows "emptyLedger (generateSemesters y s ey es)"
proof -
  have "\<And>p. p \<in> set (generateSemesters y s ey es) \<Longrightarrow> courses p = [] \<and> total p = Num 0"
    using generateSemesters_keys [OF assms]
    by (fastforce simp: semesterNamed_def emptySemester_def)
  with generateSemesters_distinct [OF assms] show ?thesis
    by (simp add: emptyLedger_def ledger_def)
qed

lemma emptyLedger_defaultPlans: "emptyLedger defaultPlans"
  by (simp add: emptyLedger_def ledger_def defaultPlans_def emptySemester_def)

lemma emptyLedger_invalidStartPlans: "emptyLedger invalidStartPlans"
  by (simp add: emptyLedger_def ledger_def invalidStartPlans_def emptySemester_def)

lemma emptyLedger_resetPlan: "emptyLedger (semesterPlans (resetPlan st))"
proof (cases "userInfo st")
  case None
  then show ?thesis
    by (simp add: resetPlan_def emptyLedger_defaultPlans)
next
  case (Some info)
  show ?thesis
  proof (cases "indexOf semesterOrder (startSemester info) = - 1")
    case True
    with Some show ?thesis
      by (simp add: resetPlan_def emptyLedger_invalidStartPlans)
  next
    case False
    then have "startSemester info \<in> set semesterOrder"
      using indexOf_absent [of semesterOrder "startSemester info"] by blast
    from emptyLedger_generateSemesters [OF this] Some False show ?thesis
      by (simp add: resetPlan_def)
  qed
qed

text \<open>
  The years of the loop of \<open>resetPlan\<close> lie between the start year and the end year.
  With years that are safe integers, every year that the loop increments, compares or
  writes into a name is at most \<open>2^53\<close> in magnitude, where the doubles of the program
  are the integers of the model.
\<close>

lemma generateSemesters_upper:
  assumes "s \<in> set semesterOrder" and "p \<in> set (generateSemesters y s ey es)"
  shows "\<exists>y' s'. s' \<in> set semesterOrder \<and> y' \<le> ey \<and> p = semesterNamed y' s'"
  using assms
proof (induction "nat (3 * (ey - y) + 3 - indexOf semesterOrder s)" arbitrary: y s
        rule: less_induct)
  case less
  have valid: "''Fall'' \<in> set semesterOrder" "''Spring'' \<in> set semesterOrder"
    "''Summer'' \<in> set semesterOrder"
    by (simp_all add: term_cases)
  from less.prems(1) consider "s = ''Fall''" | "s = ''Spring''" | "s = ''Summer''"
    unfolding term_cases by blast
  then show ?case
  proof cases
    case 1
    with less.prems(2) have run: "y \<le> ey"
      and mem: "p = semesterNamed y ''Fall'' \<or> p \<in> set (generateSemesters y ''Spring'' ey es)"
      by (auto simp: generateSemesters_Fall split: if_splits)
    from mem show ?thesis
    proof
      assume "p = semesterNamed y ''Fall''"
      with run valid(1) show ?thesis by blast
    next
      assume rest: "p \<in> set (generateSemesters y ''Spring'' ey es)"
      have "nat (3 * (ey - y) + 3 - indexOf semesterOrder ''Spring'')
            < nat (3 * (ey - y) + 3 - indexOf semesterOrder s)"
        using run 1 by (simp add: indexOf_semesterOrder_cases)
      from less.hyps [OF this valid(2) rest] show ?thesis .
    qed
  next
    case 2
    with less.prems(2) have run: "y \<le> ey"
      and mem: "p = semesterNamed y ''Spring'' \<or> p \<in> set (generateSemesters y ''Summer'' ey es)"
      by (auto simp: generateSemesters_Spring split: if_splits)
    from mem show ?thesis
    proof
      assume "p = semesterNamed y ''Spring''"
      with run valid(2) show ?thesis by blast
    next
      assume rest: "p \<in> set (generateSemesters y ''Summer'' ey es)"
      have "nat (3 * (ey - y) + 3 - indexOf semesterOrder ''Summer'')
            < nat (3 * (ey - y) + 3 - indexOf semesterOrder s)"
        using run 2 by (simp add: indexOf_semesterOrder_cases)
      from less.hyps [OF this valid(3) rest] show ?thesis .
    qed
  next
    case 3
    with less.prems(2) have run: "y \<le> ey"
      and mem: "p = semesterNamed y ''Summer'' \<or>
                p \<in> set (generateSemesters (y + 1) ''Fall'' ey es)"
      by (auto simp: generateSemesters_Summer split: if_splits)
    from mem show ?thesis
    proof
      assume "p = semesterNamed y ''Summer''"
      with run valid(3) show ?thesis by blast
    next
      assume rest: "p \<in> set (generateSemesters (y + 1) ''Fall'' ey es)"
      have "nat (3 * (ey - (y + 1)) + 3 - indexOf semesterOrder ''Fall'')
            < nat (3 * (ey - y) + 3 - indexOf semesterOrder s)"
        using run 3 by (simp add: indexOf_semesterOrder_cases)
      from less.hyps [OF this valid(1) rest] show ?thesis .
    qed
  qed
qed

lemma generateSemesters_safe_years:
  assumes "safeYears info" and "startSemester info \<in> set semesterOrder"
    and "p \<in> set (generateSemesters (startYear info) (startSemester info)
                    (endYear info) (endSemester info))"
  shows "\<exists>y s. s \<in> set semesterOrder \<and> \<bar>y\<bar> < 9007199254740992 \<and> p = semesterNamed y s"
proof -
  from generateSemesters_keys [OF assms(2,3)]
  obtain y s where s: "s \<in> set semesterOrder"
    and key: "termKey (startYear info) (startSemester info) \<le> termKey y s"
    and p: "p = semesterNamed y s"
    by blast
  from generateSemesters_upper [OF assms(2,3)]
  obtain y' s' where s': "s' \<in> set semesterOrder" and up: "y' \<le> endYear info"
    and p': "p = semesterNamed y' s'"
    by blast
  from semesterNamed_inject [OF s s'] p p' have same: "termKey y s = termKey y' s'"
    by simp
  have range: "\<And>t. t \<in> set semesterOrder \<Longrightarrow>
                 0 \<le> indexOf semesterOrder t \<and> indexOf semesterOrder t \<le> 2"
    by (auto simp: term_cases indexOf_semesterOrder_cases)
  from key same range [OF assms(2)] range [OF s'] have low: "startYear info \<le> y'"
    unfolding termKey_def by linarith
  from low up assms(1) have "\<bar>y'\<bar> < 9007199254740992"
    unfolding safeYears_def by linarith
  with s' p' show ?thesis
    by blast
qed

section \<open>The actions keep the invariants\<close>

lemma allCodes_append: "allCodes (xs @ ys) = allCodes xs @ allCodes ys"
  by (simp add: allCodes_def)

lemma allCodes_split:
  assumes "i < length plans"
  shows "allCodes plans
         = allCodes (take i plans) @ map course_code (courses (plans ! i))
           @ allCodes (drop (Suc i) plans)"
proof -
  from assms have "plans = take i plans @ [plans ! i] @ drop (Suc i) plans"
    by (simp add: id_take_nth_drop)
  then have "allCodes plans = allCodes (take i plans @ [plans ! i] @ drop (Suc i) plans)"
    by simp
  then show ?thesis
    by (simp add: allCodes_append) (simp add: allCodes_def)
qed

lemma allCodes_update:
  assumes "i < length plans"
  shows "allCodes (plans[i := q])
         = allCodes (take i plans) @ map course_code (courses q)
           @ allCodes (drop (Suc i) plans)"
proof -
  from assms have "plans[i := q] = take i plans @ [q] @ drop (Suc i) plans"
    by (simp add: upd_conv_take_nth_drop)
  then show ?thesis
    by (simp add: allCodes_append) (simp add: allCodes_def)
qed

lemma codes_in_allCodes:
  assumes "p \<in> set plans"
  shows "course_code ` set (courses p) \<subseteq> set (allCodes plans)"
  using assms by (auto simp: allCodes_def)

lemma emptyLedger_invariant:
  assumes "emptyLedger plans"
  shows "planInvariant plans"
proof -
  from assms have e: "\<And>p. p \<in> set plans \<Longrightarrow> courses p = [] \<and> total p = Num 0"
    and l: "ledger plans"
    by (simp_all add: emptyLedger_def)
  from e have "allCodes plans = []"
    by (simp add: allCodes_def)
  with e l show ?thesis
    by (simp add: planInvariant_def)
qed

lemma invariant_unique:
  assumes "planInvariant plans"
  shows "uniqueCourses plans"
proof -
  from assms have d: "distinct (allCodes plans)"
    by (simp add: planInvariant_def)
  have apart: "\<And>i j. i < j \<Longrightarrow> j < length plans \<Longrightarrow>
        course_code ` set (courses (plans ! i)) \<inter> course_code ` set (courses (plans ! j)) = {}"
  proof -
    fix i j
    assume ij: "i < j" and j: "j < length plans"
    then have i: "i < length plans" by simp
    from ij j have "drop (Suc i) plans ! (j - Suc i) = plans ! j"
      and "j - Suc i < length (drop (Suc i) plans)"
      by simp_all
    then have "plans ! j \<in> set (drop (Suc i) plans)"
      by (metis nth_mem)
    then have sub: "course_code ` set (courses (plans ! j))
                    \<subseteq> set (allCodes (drop (Suc i) plans))"
      by (rule codes_in_allCodes)
    from d have "set (map course_code (courses (plans ! i)))
                 \<inter> set (allCodes (drop (Suc i) plans)) = {}"
      unfolding allCodes_split [OF i] by auto
    with sub show "course_code ` set (courses (plans ! i))
                   \<inter> course_code ` set (courses (plans ! j)) = {}"
      by auto
  qed
  show ?thesis
    unfolding uniqueCourses_def
  proof (intro allI impI)
    fix i j
    assume "i < length plans" "j < length plans" "i \<noteq> j"
    then consider "i < j" | "j < i" by linarith
    then show "course_code ` set (courses (plans ! i))
               \<inter> course_code ` set (courses (plans ! j)) = {}"
    proof cases
      case 1
      from apart [OF 1 \<open>j < length plans\<close>] show ?thesis .
    next
      case 2
      from apart [OF 2 \<open>i < length plans\<close>] show ?thesis by blast
    qed
  qed
qed

lemma bitLength_positive: "0 < m \<Longrightarrow> 0 < bitLength m"
  by (subst bitLength.simps) simp

lemma bitLength_lower: "0 < m \<Longrightarrow> 2 ^ (bitLength m - 1) \<le> m"
proof (induction m rule: bitLength.induct)
  case (1 n)
  from "1.prems" have step: "bitLength n = Suc (bitLength (n div 2))"
    by (subst bitLength.simps) simp
  show ?case
  proof (cases "n div 2 \<le> 0")
    case True
    then have "bitLength (n div 2) = 0"
      by (subst bitLength.simps) simp
    with step "1.prems" show ?thesis
      by simp
  next
    case False
    then have pos: "0 < n div 2"
      by simp
    from "1.prems" have "\<not> n \<le> 0"
      by simp
    from "1.IH" [OF this pos] have half: "2 ^ (bitLength (n div 2) - 1) \<le> n div 2" .
    from bitLength_positive [OF pos] obtain k where k: "bitLength (n div 2) = Suc k"
      by (cases "bitLength (n div 2)") simp_all
    from half k have "2 * 2 ^ k \<le> 2 * (n div 2)"
      by simp
    also have "\<dots> \<le> n"
      by simp
    finally show ?thesis
      by (simp add: step k)
  qed
qed

lemma roundToEven_lower: "0 < ulp \<Longrightarrow> (m div ulp) * ulp \<le> roundToEven m ulp"
  by (simp add: roundToEven_def Let_def)

lemma roundMagnitude_large:
  assumes "9007199254740992 \<le> m"
  shows "4503599627370496 \<le> roundMagnitude m"
proof (cases "bitLength m \<le> 53")
  case True
  with assms show ?thesis
    by (simp add: roundMagnitude_def)
next
  case False
  define e where "e = bitLength m - 53"
  define u :: int where "u = 2 ^ e"
  have u: "0 < u" "1 \<le> u"
    by (simp_all add: u_def)
  from False have b: "bitLength m - 1 = 52 + e"
    unfolding e_def by simp
  from assms have "0 < m"
    by simp
  from bitLength_lower [OF this] have "(2 :: int) ^ (52 + e) \<le> m"
    by (simp only: b)
  then have "4503599627370496 * u \<le> m"
    by (simp add: power_add u_def)
  from zdiv_mono1 [OF this u(1)] u(1) have q: "4503599627370496 \<le> m div u"
    by simp
  from u(2) have "(4503599627370496 :: int) \<le> 4503599627370496 * u"
    by simp
  also from q u(1) have "\<dots> \<le> (m div u) * u"
    by (simp add: mult_right_mono)
  also from u(1) have "\<dots> \<le> roundToEven m u"
    by (rule roundToEven_lower)
  finally show ?thesis
    using False by (simp add: roundMagnitude_def e_def u_def)
qed

lemma toNumber_exact: "\<bar>i\<bar> \<le> 9007199254740992 \<Longrightarrow> toNumber i = Num i"
  by (simp add: toNumber_def)

lemma toNumber_large:
  assumes "9007199254740992 < i"
  shows "toNumber i = Infinity \<or> (\<exists>m. toNumber i = Num m \<and> 4503599627370496 \<le> m)"
proof -
  from assms have "9007199254740992 \<le> \<bar>i\<bar>"
    by simp
  from roundMagnitude_large [OF this] assms show ?thesis
    by (simp add: toNumber_def)
qed

lemma sum_exceeds_cap:
  assumes "0 \<le> t" and "0 \<le> v" and "cap \<le> 22"
  shows "js_gt (toNumber (t + v)) (Num cap) = (cap < t + v)"
proof (cases "t + v \<le> 9007199254740992")
  case True
  with assms have "toNumber (t + v) = Num (t + v)"
    by (intro toNumber_exact) simp
  then show ?thesis
    by simp
next
  case False
  then have big: "9007199254740992 < t + v"
    by simp
  from toNumber_large [OF big] show ?thesis
  proof
    assume "toNumber (t + v) = Infinity"
    with big assms(3) show ?thesis
      by simp
  next
    assume "\<exists>m. toNumber (t + v) = Num m \<and> 4503599627370496 \<le> m"
    then obtain m where "toNumber (t + v) = Num m" and "4503599627370496 \<le> m"
      by blast
    with big assms(3) show ?thesis
      by simp
  qed
qed

lemma placedCredits_value:
  assumes "placedCredits c"
  shows "parseInt (credits c) = Num (creditValue c) \<and> 0 \<le> creditValue c"
  using assms unfolding placedCredits_def creditValue_def
  by (cases "parseInt (credits c)") simp_all

lemma nonNegativeCredits_cases:
  assumes "nonNegativeCredits c"
  shows "parseInt (credits c) = Infinity \<or> placedCredits c"
  using assms unfolding nonNegativeCredits_def placedCredits_def
  by (cases "parseInt (credits c)") simp_all

lemma creditValue_sum_nonneg:
  "\<forall>c \<in> set cs. placedCredits c \<Longrightarrow> 0 \<le> sum_list (map creditValue cs)"
  by (induction cs) (simp_all add: placedCredits_value)

lemma creditValue_member_le:
  assumes "\<forall>c \<in> set cs. placedCredits c" and "x \<in> set cs"
  shows "creditValue x \<le> sum_list (map creditValue cs)"
  using assms
proof (induction cs)
  case Nil
  then show ?case by simp
next
  case (Cons c cs)
  from Cons.prems(1) have rest: "0 \<le> sum_list (map creditValue cs)"
    by (simp add: creditValue_sum_nonneg)
  from Cons.prems(1) have first: "0 \<le> creditValue c"
    by (simp add: placedCredits_value)
  show ?case
  proof (cases "x = c")
    case True
    with rest show ?thesis by simp
  next
    case False
    with Cons have "creditValue x \<le> sum_list (map creditValue cs)"
      by simp
    with first show ?thesis by simp
  qed
qed

lemma creditSum_exact_from:
  assumes "\<forall>c \<in> set cs. placedCredits c" and "0 \<le> a"
    and "a + sum_list (map creditValue cs) \<le> 9007199254740992"
  shows "foldl (\<lambda>acc c. js_add acc (parseInt (credits c))) (Num a) cs
         = Num (a + sum_list (map creditValue cs))"
  using assms
proof (induction cs arbitrary: a)
  case Nil
  show ?case by simp
next
  case (Cons c cs)
  from Cons.prems(1) have c: "parseInt (credits c) = Num (creditValue c)" "0 \<le> creditValue c"
    by (simp_all add: placedCredits_value)
  from Cons.prems(1) have rest: "0 \<le> sum_list (map creditValue cs)"
    by (simp add: creditValue_sum_nonneg)
  from Cons.prems(2,3) c(2) rest have "\<bar>a + creditValue c\<bar> \<le> 9007199254740992"
    by simp
  then have step: "js_add (Num a) (parseInt (credits c)) = Num (a + creditValue c)"
    by (simp add: c(1) toNumber_exact)
  have "foldl (\<lambda>acc c. js_add acc (parseInt (credits c))) (Num (a + creditValue c)) cs
        = Num (a + creditValue c + sum_list (map creditValue cs))"
    using Cons.prems c(2) by (intro Cons.IH) simp_all
  with step show ?case
    by (simp add: add.assoc)
qed

lemma creditSum_exact:
  assumes "\<forall>c \<in> set cs. placedCredits c" and "sum_list (map creditValue cs) \<le> 22"
  shows "creditSum cs = Num (sum_list (map creditValue cs))"
  using creditSum_exact_from [of cs 0] assms by (simp add: creditSum_def)

lemma invariant_consistent:
  assumes "planInvariant plans"
  shows "creditsConsistent plans"
  using assms unfolding planInvariant_def creditsConsistent_def
  by (simp add: creditSum_exact)

lemma sum_without:
  assumes "distinct (map course_code cs)" and "x \<in> set cs"
  shows "sum_list (map creditValue (filter (\<lambda>c. course_code c \<noteq> course_code x) cs))
         = sum_list (map creditValue cs) - creditValue x"
  using assms
proof (induction cs)
  case Nil
  then show ?case by simp
next
  case (Cons c cs)
  show ?case
  proof (cases "c = x")
    case True
    with Cons.prems(1) have "course_code x \<notin> course_code ` set cs"
      by simp
    then have "\<And>y. y \<in> set cs \<Longrightarrow> course_code y \<noteq> course_code x"
      by (metis image_eqI)
    then have "filter (\<lambda>c. course_code c \<noteq> course_code x) cs = cs"
      by (simp add: filter_id_conv)
    with True show ?thesis by simp
  next
    case False
    with Cons.prems have x: "x \<in> set cs" and d: "distinct (map course_code cs)"
      and "course_code c \<noteq> course_code x"
      by auto
    with Cons.IH show ?thesis by simp
  qed
qed

lemma ledger_update:
  assumes "ledger plans" and "semester q = semester (plans ! i)"
  shows "ledger (plans[i := q])"
proof -
  have "map semester (plans[i := q]) = (map semester plans)[i := semester q]"
    by (rule map_update)
  also have "\<dots> = map semester plans"
  proof (cases "i < length plans")
    case True
    with assms(2) have "semester q = map semester plans ! i" by simp
    then show ?thesis by (metis list_update_id)
  next
    case False
    then have "length (map semester plans) \<le> i" by simp
    then show ?thesis by (rule list_update_beyond)
  qed
  finally show ?thesis
    using assms(1) by (simp add: ledger_def)
qed

lemma invariant_update:
  assumes inv: "planInvariant plans" and i: "i < length plans"
    and name: "semester q = semester (plans ! i)"
    and codes: "distinct (allCodes (take i plans) @ map course_code (courses q)
                  @ allCodes (drop (Suc i) plans))"
    and placed: "\<forall>c \<in> set (courses q). placedCredits c"
    and sum: "total q = Num (sum_list (map creditValue (courses q)))"
    and bound: "sum_list (map creditValue (courses q)) \<le> 22"
  shows "planInvariant (plans[i := q])"
proof -
  from inv have l: "ledger plans"
    and s: "\<forall>p \<in> set plans.
              (\<forall>c \<in> set (courses p). placedCredits c) \<and>
              total p = Num (sum_list (map creditValue (courses p))) \<and>
              sum_list (map creditValue (courses p)) \<le> 22"
    by (simp_all add: planInvariant_def)
  have members: "set (plans[i := q]) \<subseteq> insert q (set plans)"
    by (rule set_update_subset_insert)
  have "ledger (plans[i := q])"
    by (rule ledger_update [OF l name])
  moreover have "distinct (allCodes (plans[i := q]))"
    using codes by (simp only: allCodes_update [OF i])
  moreover have "\<forall>p \<in> set (plans[i := q]).
              (\<forall>c \<in> set (courses p). placedCredits c) \<and>
              total p = Num (sum_list (map creditValue (courses p))) \<and>
              sum_list (map creditValue (courses p)) \<le> 22"
    using members s placed sum bound by blast
  ultimately show ?thesis
    by (simp add: planInvariant_def)
qed

lemma find_index_of:
  assumes "find P xs = Some x"
  shows "\<exists>i. findIndex P xs = Some i \<and> x = xs ! i"
  using assms by (auto simp: find_findIndex split: option.splits)

lemma fresh_code:
  assumes l: "ledger plans" and t: "target \<in> set plans"
    and a: "\<not> duplicateInSemester course target"
    and b: "\<not> duplicateElsewhere course target plans"
  shows "course_code course \<notin> set (allCodes plans)"
proof
  assume "course_code course \<in> set (allCodes plans)"
  then obtain p where p: "p \<in> set plans"
    and c: "course_code course \<in> course_code ` set (courses p)"
    by (auto simp: allCodes_def)
  show False
  proof (cases "semester p = semester target")
    case True
    with l p t have "p = target"
      unfolding ledger_def by (metis distinct_map inj_onD)
    with c a show False
      by (simp add: duplicateInSemester_def)
  next
    case False
    with p c b show False
      unfolding duplicateElsewhere_def by blast
  qed
qed

lemma creditCap_bound: "creditCap t \<le> 22"
  by (cases t)
     (simp_all add: creditCap_def REGULAR_SEMESTER_CREDIT_LIMIT_def
        SUMMER_SEMESTER_CREDIT_LIMIT_def)

lemma addCourse_invariant:
  assumes inv: "planInvariant (semesterPlans st)" and nn: "nonNegativeCredits course"
  shows "planInvariant (semesterPlans (addCourse sem course st))"
proof (cases "find (\<lambda>p. semester p = sem) (semesterPlans st)")
  case None
  with inv show ?thesis
    by (simp add: addCourse_missing)
next
  case (Some target)
  let ?plans = "semesterPlans st"
  let ?S = "sum_list (map creditValue (courses target))"
  from find_index_of [OF Some] obtain i
    where i: "findIndex (\<lambda>p. semester p = sem) ?plans = Some i" and t: "target = ?plans ! i"
    by blast
  from findIndex_Some [OF i] have len: "i < length ?plans"
    by simp
  from len t have mem: "target \<in> set ?plans"
    by simp
  from inv have l: "ledger ?plans" and d: "distinct (allCodes ?plans)"
    by (simp_all add: planInvariant_def)
  from inv mem have n: "\<forall>c \<in> set (courses target). placedCredits c"
    and s: "total target = Num ?S" and le: "?S \<le> 22"
    unfolding planInvariant_def by blast+
  from n have ge: "0 \<le> ?S"
    by (rule creditValue_sum_nonneg)
  show ?thesis
  proof (cases "canPlace course target ?plans")
    case (Some r)
    with inv show ?thesis
      by (simp add: addCourse_ledger [OF l i] t)
  next
    case None
    then have a: "\<not> duplicateInSemester course target"
      and b: "\<not> duplicateElsewhere course target ?plans"
      and c: "\<not> creditLimitExceeded course target"
      by (auto simp: canPlace_def split: if_splits)
    from fresh_code [OF l mem a b] have fresh: "course_code course \<notin> set (allCodes ?plans)" .
    from nonNegativeCredits_cases [OF nn] c s have pc: "placedCredits course"
      by (auto simp: creditLimitExceeded_def)
    from placedCredits_value [OF pc]
    have v: "parseInt (credits course) = Num (creditValue course)" "0 \<le> creditValue course"
      by simp_all
    from c s v(1) have "\<not> js_gt (toNumber (?S + creditValue course))
                           (Num (creditCap (stype target)))"
      by (simp add: creditLimitExceeded_def)
    with sum_exceeds_cap [OF ge v(2) creditCap_bound]
    have "?S + creditValue course \<le> creditCap (stype target)"
      by simp
    with creditCap_bound [of "stype target"] have fits: "?S + creditValue course \<le> 22"
      by simp
    with ge v(2) have "toNumber (?S + creditValue course) = Num (?S + creditValue course)"
      by (intro toNumber_exact) simp
    with s v(1) have tot: "total (place course target)
               = Num (sum_list (map creditValue (courses (place course target))))"
      by (simp add: place_def)
    have "distinct (allCodes (take i ?plans) @ map course_code (courses (place course target))
            @ allCodes (drop (Suc i) ?plans))"
      using d fresh unfolding allCodes_split [OF len] t
      by (auto simp: place_def)
    moreover have "\<forall>c \<in> set (courses (place course target)). placedCredits c"
      using n pc by (simp add: place_def)
    moreover have "sum_list (map creditValue (courses (place course target))) \<le> 22"
      using fits by (simp add: place_def)
    moreover have "semester (place course target) = semester (?plans ! i)"
      by (simp add: place_def t)
    ultimately have "planInvariant (?plans[i := place course target])"
      using invariant_update [OF inv len] tot by blast
    with None show ?thesis
      by (simp add: addCourse_ledger [OF l i] t)
  qed
qed

lemma removeCourse_invariant:
  assumes inv: "planInvariant (semesterPlans st)"
  shows "planInvariant (semesterPlans (removeCourse sem courseCode st))"
proof (cases "findIndex (\<lambda>p. semester p = sem) (semesterPlans st)")
  case None
  with inv show ?thesis
    by (simp add: removeCourse_missing_semester)
next
  case (Some i)
  let ?plans = "semesterPlans st"
  let ?cs = "courses (?plans ! i)"
  let ?S = "sum_list (map creditValue ?cs)"
  note i = Some
  from findIndex_Some [OF i] have len: "i < length ?plans"
    by simp
  then have mem: "?plans ! i \<in> set ?plans"
    by simp
  show ?thesis
  proof (cases "findIndex (\<lambda>c. course_code c = courseCode) ?cs")
    case None
    with inv i show ?thesis
      by (simp add: removeCourse_missing_course)
  next
    case (Some k)
    from findIndex_Some [OF Some] have k: "k < length ?cs" "course_code (?cs ! k) = courseCode"
      by simp_all
    then have x: "?cs ! k \<in> set ?cs"
      by simp
    let ?rest = "filter (\<lambda>c. course_code c \<noteq> courseCode) ?cs"
    let ?q = "(?plans ! i)\<lparr>courses := ?rest,
                total := js_sub (total (?plans ! i)) (parseInt (credits (?cs ! k)))\<rparr>"
    from inv have d: "distinct (allCodes ?plans)"
      by (simp add: planInvariant_def)
    from inv mem have n: "\<forall>c \<in> set ?cs. placedCredits c"
      and s: "total (?plans ! i) = Num ?S" and le: "?S \<le> 22"
      unfolding planInvariant_def by blast+
    from d have parts: "distinct (allCodes (take i ?plans))" "distinct (map course_code ?cs)"
      "distinct (allCodes (drop (Suc i) ?plans))"
      "set (allCodes (take i ?plans)) \<inter> set (map course_code ?cs) = {}"
      "set (allCodes (take i ?plans)) \<inter> set (allCodes (drop (Suc i) ?plans)) = {}"
      "set (map course_code ?cs) \<inter> set (allCodes (drop (Suc i) ?plans)) = {}"
      unfolding allCodes_split [OF len] by auto
    have sub: "set (map course_code ?rest) \<subseteq> set (map course_code ?cs)"
      by auto
    have "distinct (map course_code ?rest)"
      using parts(2) by (rule distinct_map_filter)
    with parts sub
    have codes: "distinct (allCodes (take i ?plans) @ map course_code (courses ?q)
                   @ allCodes (drop (Suc i) ?plans))"
      by (simp add: disjoint_iff subset_iff) blast
    have placed: "\<forall>c \<in> set (courses ?q). placedCredits c"
      using n by simp
    from n x have v: "parseInt (credits (?cs ! k)) = Num (creditValue (?cs ! k))"
      and v0: "0 \<le> creditValue (?cs ! k)"
      by (simp_all add: placedCredits_value)
    from creditValue_member_le [OF n x] have vle: "creditValue (?cs ! k) \<le> ?S" .
    have without: "sum_list (map creditValue ?rest) = ?S - creditValue (?cs ! k)"
      using sum_without [OF parts(2) x] by (simp only: k(2))
    from vle v0 le have "\<bar>?S - creditValue (?cs ! k)\<bar> \<le> 9007199254740992"
      by simp
    then have "toNumber (?S - creditValue (?cs ! k)) = Num (?S - creditValue (?cs ! k))"
      by (rule toNumber_exact)
    with s v without have sum: "total ?q = Num (sum_list (map creditValue (courses ?q)))"
      by simp
    from without v0 le have bound: "sum_list (map creditValue (courses ?q)) \<le> 22"
      by simp
    have name: "semester ?q = semester (?plans ! i)"
      by simp
    have updated: "planInvariant (?plans[i := ?q])"
      by (rule invariant_update [OF inv len name codes placed sum bound])
    show ?thesis
    proof (cases "filter (\<lambda>d. listsPrerequisite d courseCode)
                    (concat (map courses (drop (Suc i) ?plans)))")
      case Nil
      with updated show ?thesis
        by (simp add: removeCourse_found [OF i Some])
    next
      case (Cons d ds)
      with inv show ?thesis
        by (simp add: removeCourse_found [OF i Some])
    qed
  qed
qed

lemma reachable_invariant:
  assumes "reachable st"
  shows "planInvariant (semesterPlans st)"
  using assms
proof (induction rule: reachable.induct)
  case initial
  show ?case
    by (simp add: initialState_def planInvariant_def ledger_def allCodes_def)
next
  case (reset st)
  show ?case
    by (rule emptyLedger_invariant [OF emptyLedger_resetPlan])
next
  case (user st info)
  then show ?case by (simp add: setUserInfo_def)
next
  case (catalog st data)
  then show ?case by (simp add: setCourseData_def)
next
  case (add st course sem)
  then show ?case by (simp add: addCourse_invariant)
next
  case (remove st sem courseCode)
  then show ?case by (simp add: removeCourse_invariant)
qed

text \<open>
  C4, as the claim states it, fails: the credits of SEM 4000 are the string TBA, which
  \<open>parseInt\<close> reads as \<open>NaN\<close>. The course passes the credit check, and after it is
  removed again Fall 2024 holds no course and a total that is \<open>NaN\<close>, not 0.
  Credits that are numbers fail as well when they are negative: with ADJ 9001 the total
  is \<open>-2^53\<close>, the sum with the credits of ADJ 9002 is rounded to \<open>-2^53\<close>
  again, and after ADJ 9001 is removed the total is 0 for a semester whose only course
  has \<open>-1\<close> credits.
\<close>

theorem credit_sum_counterexample:
  "parseInt (credits SEM4000) = NaN \<and>
   map course_code (courses (semesterPlans (addCourse ''Fall 2024'' SEM4000 emptyPlan) ! 0))
     = [''SEM 4000''] \<and>
   courses (semesterPlans placedAndRemoved ! 0) = [] \<and>
   total (semesterPlans placedAndRemoved ! 0) = NaN \<and>
   creditSum (courses (semesterPlans placedAndRemoved ! 0)) = Num 0 \<and>
   \<not> creditsConsistent (semesterPlans placedAndRemoved) \<and>
   map course_code (courses (semesterPlans roundedTotal ! 0)) = [''ADJ 9002''] \<and>
   total (semesterPlans roundedTotal ! 0) = Num 0 \<and>
   creditSum (courses (semesterPlans roundedTotal ! 0)) = Num (- 1) \<and>
   \<not> creditsConsistent (semesterPlans roundedTotal)"
  by code_simp

text \<open>
  C4 (amended): in every state that the actions of the store reach from the initial state,
  where \<open>setUserInfo\<close> is given years that are safe integers and \<open>addCourse\<close> is
  given courses whose credits \<open>parseInt\<close> reads as a number that is not negative,
  no course code is in two different semesters, and the stored total of every semester
  is the sum of the credits of the courses placed in it.
\<close>

theorem reachable_invariants:
  assumes "reachable st"
  shows "uniqueCourses (semesterPlans st) \<and> creditsConsistent (semesterPlans st)"
proof -
  from assms have inv: "planInvariant (semesterPlans st)"
    by (rule reachable_invariant)
  then have "uniqueCourses (semesterPlans st)"
    by (rule invariant_unique)
  moreover from inv have "creditsConsistent (semesterPlans st)"
    by (rule invariant_consistent)
  ultimately show ?thesis by simp
qed

text \<open>
  C4, at a concrete input.
  The plan of a student from Fall 2024 to Spring 2026 has five semesters. MTH 1303 and
  PHY 1401 are placed and PHY 1401 is removed again: Fall 2024 holds three credits and
  Spring 2025 none.
\<close>

theorem reachable_invariants_witness:
  "uniqueCourses (semesterPlans (removeCourse ''Spring 2025'' ''PHY 1401'' studentPlan)) \<and>
   creditsConsistent (semesterPlans (removeCourse ''Spring 2025'' ''PHY 1401'' studentPlan)) \<and>
   map semester (semesterPlans studentPlan)
     = [''Fall 2024'', ''Spring 2025'', ''Summer 2025'', ''Fall 2025'', ''Spring 2026''] \<and>
   map total (semesterPlans studentPlan) = [Num 3, Num 4, Num 0, Num 0, Num 0] \<and>
   map total (semesterPlans (removeCourse ''Spring 2025'' ''PHY 1401'' studentPlan))
     = [Num 3, Num 0, Num 0, Num 0, Num 0]"
proof -
  have y: "safeYears fallStart"
    by code_simp
  have n1: "nonNegativeCredits MTH1303"
    by code_simp
  have n2: "nonNegativeCredits PHY1401"
    by code_simp
  have start: "resetPlan (setUserInfo fallStart initialState)
     = \<lparr>courseData = None,
        semesterPlans =
          [emptySemester ''Fall 2024'' regular, emptySemester ''Spring 2025'' regular,
           emptySemester ''Summer 2025'' summer, emptySemester ''Fall 2025'' regular,
           emptySemester ''Spring 2026'' regular],
        error = None, userInfo = Some fallStart\<rparr>"
    by (simp add: resetPlan_def setUserInfo_def initialState_def fallStart_def
          indexOf_semesterOrder_cases generateSemesters_Fall generateSemesters_Spring
          generateSemesters_Summer semesterNamed_def numberToString_def digits.simps)
  have "reachable (removeCourse ''Spring 2025'' ''PHY 1401'' studentPlan)"
    unfolding studentPlan_def
    by (intro reachable.remove reachable.add reachable.reset reachable.user
          reachable.initial y n1 n2)
  from reachable_invariants [OF this]
  have "uniqueCourses (semesterPlans (removeCourse ''Spring 2025'' ''PHY 1401'' studentPlan)) \<and>
        creditsConsistent
          (semesterPlans (removeCourse ''Spring 2025'' ''PHY 1401'' studentPlan))" .
  moreover have "map semester (semesterPlans studentPlan)
     = [''Fall 2024'', ''Spring 2025'', ''Summer 2025'', ''Fall 2025'', ''Spring 2026'']"
    unfolding studentPlan_def start by code_simp
  moreover have "map total (semesterPlans studentPlan) = [Num 3, Num 4, Num 0, Num 0, Num 0]"
    unfolding studentPlan_def start by code_simp
  moreover have "map total (semesterPlans (removeCourse ''Spring 2025'' ''PHY 1401'' studentPlan))
     = [Num 3, Num 0, Num 0, Num 0, Num 0]"
    unfolding studentPlan_def start by code_simp
  ultimately show ?thesis by simp
qed

section \<open>The generator does not depend on the sort of the runtime\<close>

lemma foundationFirst_cases:
  "foundationFirst a b =
     (if isFoundation a \<and> \<not> isFoundation b then - 1
      else if isFoundation b \<and> \<not> isFoundation a then 1 else 0)"
  by (simp add: foundationFirst_def isFoundation_def)

lemma foundation_block:
  assumes "sorted_wrt (\<lambda>a b. foundationFirst a b \<le> 0) ys"
  shows "ys = filter isFoundation ys @ filter (\<lambda>c. \<not> isFoundation c) ys"
  using assms
proof (induction ys)
  case Nil
  show ?case by simp
next
  case (Cons y ys)
  then have rest: "ys = filter isFoundation ys @ filter (\<lambda>c. \<not> isFoundation c) ys"
    and later: "\<forall>b \<in> set ys. foundationFirst y b \<le> 0"
    by simp_all
  show ?case
  proof (cases "isFoundation y")
    case True
    with rest show ?thesis by simp
  next
    case False
    with later have "\<forall>b \<in> set ys. \<not> isFoundation b"
      by (auto simp: foundationFirst_cases split: if_splits)
    then have "filter isFoundation ys = []" "filter (\<lambda>c. \<not> isFoundation c) ys = ys"
      by (simp_all add: filter_empty_conv filter_id_conv)
    with False show ?thesis by simp
  qed
qed

lemma stable_sort_unique:
  assumes "sortsStably sortFn foundationFirst"
  shows "sortFn foundationFirst xs
         = filter isFoundation xs @ filter (\<lambda>c. \<not> isFoundation c) xs"
proof -
  let ?ys = "sortFn foundationFirst xs"
  obtain f :: GenCourse where f: "isFoundation f"
    by (metis GenCourse.select_convs(5) isFoundation_def)
  obtain n :: GenCourse where n: "\<not> isFoundation n"
    by (metis GenCourse.select_convs(5) isFoundation_def option.distinct(1))
  from assms have sorted: "sorted_wrt (\<lambda>a b. foundationFirst a b \<le> 0) ?ys"
    and stable: "\<And>a. filter (\<lambda>x. foundationFirst a x = 0) ?ys
                      = filter (\<lambda>x. foundationFirst a x = 0) xs"
    by (simp_all add: sortsStably_def)
  have "\<And>x. (foundationFirst f x = 0) = isFoundation x"
    using f by (simp add: foundationFirst_cases)
  with stable [of f] have fs: "filter isFoundation ?ys = filter isFoundation xs"
    by simp
  have "\<And>x. (foundationFirst n x = 0) = (\<not> isFoundation x)"
    using n by (simp add: foundationFirst_cases)
  with stable [of n]
  have ns: "filter (\<lambda>c. \<not> isFoundation c) ?ys = filter (\<lambda>c. \<not> isFoundation c) xs"
    by simp
  from foundation_block [OF sorted] show ?thesis
    unfolding fs ns .
qed

lemma getAvailableGenEdCourses_sort:
  assumes "sortsStably sort1 foundationFirst" and "sortsStably sort2 foundationFirst"
  shows "getAvailableGenEdCourses sort1 ctx st k = getAvailableGenEdCourses sort2 ctx st k"
  by (simp add: getAvailableGenEdCourses_def stable_sort_unique [OF assms(1)]
        stable_sort_unique [OF assms(2)])

lemma selectCourses_sort:
  assumes "sortsStably sort1 foundationFirst" and "sortsStably sort2 foundationFirst"
  shows "selectCourses sort1 ctx st = selectCourses sort2 ctx st"
  unfolding selectCourses_def getAvailableGenEdCourses_sort [OF assms]
  by (rule refl)

lemma generatorStep_sort:
  assumes "sortsStably sort1 foundationFirst" and "sortsStably sort2 foundationFirst"
  shows "generatorStep sort1 ctx st = generatorStep sort2 ctx st"
  unfolding generatorStep_def selectCourses_sort [OF assms]
  by (rule refl)

lemma generatorLoop_sort:
  assumes "sortsStably sort1 foundationFirst" and "sortsStably sort2 foundationFirst"
  shows "generatorLoop sort1 ctx st = generatorLoop sort2 ctx st"
  using assms
proof (induction sort1 ctx st rule: generatorLoop.induct)
  case (1 sortFn ctx st)
  note step = generatorStep_sort [OF "1.prems", of ctx st]
  have l: "generatorLoop sortFn ctx st =
     (if g_currentSemester st \<le> 12 \<and>
         js_lt (g_totalCredits st) (r_totalCredits (x_requirements ctx))
      then generatorLoop sortFn ctx (generatorStep sortFn ctx st) else st)"
    by (rule generatorLoop.simps)
  have r: "generatorLoop sort2 ctx st =
     (if g_currentSemester st \<le> 12 \<and>
         js_lt (g_totalCredits st) (r_totalCredits (x_requirements ctx))
      then generatorLoop sort2 ctx (generatorStep sort2 ctx st) else st)"
    by (rule generatorLoop.simps)
  show ?case
  proof (cases "g_currentSemester st \<le> 12 \<and>
                js_lt (g_totalCredits st) (r_totalCredits (x_requirements ctx))")
    case True
    from "1.IH" [OF True "1.prems"]
    have "generatorLoop sortFn ctx (generatorStep sortFn ctx st)
          = generatorLoop sort2 ctx (generatorStep sort2 ctx st)"
      by (simp only: step)
    moreover from True
    have "generatorLoop sortFn ctx st = generatorLoop sortFn ctx (generatorStep sortFn ctx st)"
      unfolding l by (rule if_P)
    moreover from True
    have "generatorLoop sort2 ctx st = generatorLoop sort2 ctx (generatorStep sort2 ctx st)"
      unfolding r by (rule if_P)
    ultimately show ?thesis
      by (simp only:)
  next
    case False
    then have "generatorLoop sortFn ctx st = st"
      unfolding l by (rule if_not_P)
    moreover from False have "generatorLoop sort2 ctx st = st"
      unfolding r by (rule if_not_P)
    ultimately show ?thesis
      by (simp only:)
  qed
qed

lemma generateDegreePlan_sort:
  assumes "sortsStably sort1 foundationFirst" and "sortsStably sort2 foundationFirst"
  shows "generateDegreePlan sort1 requirements options
         = generateDegreePlan sort2 requirements options"
  unfolding generateDegreePlan_def generatorLoop_sort [OF assms]
  by (rule refl)

lemma count_list_partition:
  "count_list (filter P xs @ filter (\<lambda>x. \<not> P x) xs) y = count_list xs y"
  by (induction xs) auto

lemma sorted_wrt_all:
  assumes "\<And>x y. x \<in> set zs \<Longrightarrow> y \<in> set zs \<Longrightarrow> P x y"
  shows "sorted_wrt P zs"
  using assms by (induction zs) auto

lemma foundation_partition_sorted:
  "sorted_wrt (\<lambda>a b. foundationFirst a b \<le> 0)
     (filter isFoundation xs @ filter (\<lambda>c. \<not> isFoundation c) xs)"
proof -
  have "sorted_wrt (\<lambda>a b. foundationFirst a b \<le> 0) (filter isFoundation xs)"
    by (rule sorted_wrt_all) (simp add: foundationFirst_cases)
  moreover have "sorted_wrt (\<lambda>a b. foundationFirst a b \<le> 0)
                   (filter (\<lambda>c. \<not> isFoundation c) xs)"
    by (rule sorted_wrt_all) (simp add: foundationFirst_cases)
  moreover have "\<forall>a \<in> set (filter isFoundation xs).
                   \<forall>b \<in> set (filter (\<lambda>c. \<not> isFoundation c) xs). foundationFirst a b \<le> 0"
    by (simp add: foundationFirst_cases)
  ultimately show ?thesis
    by (simp add: sorted_wrt_append)
qed

lemma foundation_partition_stable:
  "filter (\<lambda>x. foundationFirst a x = 0)
     (filter isFoundation xs @ filter (\<lambda>c. \<not> isFoundation c) xs)
   = filter (\<lambda>x. foundationFirst a x = 0) xs"
proof (cases "isFoundation a")
  case True
  then have "\<And>x. (foundationFirst a x = 0) = isFoundation x"
    by (simp add: foundationFirst_cases)
  then show ?thesis
    by (simp add: filter_empty_conv)
next
  case False
  then have "\<And>x. (foundationFirst a x = 0) = (\<not> isFoundation x)"
    by (simp add: foundationFirst_cases)
  then show ?thesis
    by (simp add: filter_empty_conv)
qed

lemma sortsStably_partition:
  assumes "\<And>xs. sortFn foundationFirst xs
                 = filter isFoundation xs @ filter (\<lambda>c. \<not> isFoundation c) xs"
  shows "sortsStably sortFn foundationFirst"
  unfolding sortsStably_def assms
  by (intro allI conjI count_list_partition foundation_partition_sorted
        foundation_partition_stable)

lemma insertBy_after_foundation:
  assumes "\<not> isFoundation x" and "\<forall>y \<in> set fs. isFoundation y"
    and "\<forall>y \<in> set ns. \<not> isFoundation y"
  shows "insertBy foundationFirst x (fs @ ns) = fs @ x # ns"
  using assms(2)
proof (induction fs)
  case Nil
  show ?case
  proof (cases ns)
    case Nil
    then show ?thesis by simp
  next
    case (Cons n ns')
    with assms(3) have "\<not> isFoundation n" by simp
    with assms(1) have "foundationFirst x n \<le> 0"
      by (simp add: foundationFirst_cases)
    with Cons show ?thesis by simp
  qed
next
  case (Cons f fs)
  then have "isFoundation f" by simp
  with assms(1) have "\<not> foundationFirst x f \<le> 0"
    by (simp add: foundationFirst_cases)
  with Cons show ?case by simp
qed

lemma insertBy_foundation:
  "insertBy foundationFirst x (filter isFoundation xs @ filter (\<lambda>c. \<not> isFoundation c) xs)
   = filter isFoundation (x # xs) @ filter (\<lambda>c. \<not> isFoundation c) (x # xs)"
proof (cases "isFoundation x")
  case True
  then have first: "\<And>y. foundationFirst x y \<le> 0"
    by (simp add: foundationFirst_cases)
  have "\<And>zs. insertBy foundationFirst x zs = x # zs"
  proof -
    fix zs
    show "insertBy foundationFirst x zs = x # zs"
      by (cases zs) (simp_all add: first)
  qed
  with True show ?thesis by simp
next
  case False
  have "insertBy foundationFirst x
          (filter isFoundation xs @ filter (\<lambda>c. \<not> isFoundation c) xs)
        = filter isFoundation xs @ x # filter (\<lambda>c. \<not> isFoundation c) xs"
    by (rule insertBy_after_foundation [OF False]) simp_all
  with False show ?thesis by simp
qed

lemma insertionSort_foundation:
  "insertionSort foundationFirst xs
   = filter isFoundation xs @ filter (\<lambda>c. \<not> isFoundation c) xs"
proof (induction xs)
  case Nil
  show ?case by (simp add: insertionSort_def)
next
  case (Cons x xs)
  have "insertionSort foundationFirst (x # xs)
        = insertBy foundationFirst x (insertionSort foundationFirst xs)"
    by (simp add: insertionSort_def)
  then show ?case
    by (simp only: Cons.IH insertBy_foundation)
qed

lemma partitionSort_foundation:
  "partitionSort foundationFirst xs
   = filter isFoundation xs @ filter (\<lambda>c. \<not> isFoundation c) xs"
proof (induction "length xs" arbitrary: xs rule: less_induct)
  case less
  show ?case
  proof (cases xs)
    case Nil
    then show ?thesis by simp
  next
    case (Cons p ps)
    show ?thesis
    proof (cases "isFoundation p")
      case True
      then have none: "\<And>x. \<not> foundationFirst x p < 0"
        by (simp add: foundationFirst_cases)
      have "length ps < length xs"
        using Cons by simp
      from less.hyps [OF this]
      have "partitionSort foundationFirst ps
            = filter isFoundation ps @ filter (\<lambda>c. \<not> isFoundation c) ps" .
      with True show ?thesis
        unfolding Cons by (simp add: none)
    next
      case False
      then have smaller: "\<And>x. (foundationFirst x p < 0) = isFoundation x"
        by (simp add: foundationFirst_cases)
      have shorter: "length (filter isFoundation ps) < length xs"
        "length (filter (\<lambda>c. \<not> isFoundation c) ps) < length xs"
        using Cons by (simp_all add: less_Suc_eq_le)
      have
        "partitionSort foundationFirst (filter isFoundation ps)
         = filter isFoundation (filter isFoundation ps)
           @ filter (\<lambda>c. \<not> isFoundation c) (filter isFoundation ps)"
        "partitionSort foundationFirst (filter (\<lambda>c. \<not> isFoundation c) ps)
         = filter isFoundation (filter (\<lambda>c. \<not> isFoundation c) ps)
           @ filter (\<lambda>c. \<not> isFoundation c) (filter (\<lambda>c. \<not> isFoundation c) ps)"
        by (rule less.hyps [OF shorter(1)], rule less.hyps [OF shorter(2)])
      then have
        L: "partitionSort foundationFirst (filter isFoundation ps) = filter isFoundation ps"
        and R: "partitionSort foundationFirst (filter (\<lambda>c. \<not> isFoundation c) ps)
                = filter (\<lambda>c. \<not> isFoundation c) ps"
        by (simp_all add: filter_empty_conv)
      from False show ?thesis
        unfolding Cons by (simp add: smaller L R)
    qed
  qed
qed

lemma sortsStably_insertionSort: "sortsStably insertionSort foundationFirst"
  by (rule sortsStably_partition) (rule insertionSort_foundation)

lemma sortsStably_partitionSort: "sortsStably partitionSort foundationFirst"
  by (rule sortsStably_partition) (rule partitionSort_foundation)

text \<open>
  C8: the generator is deterministic. Its only step that a runtime may carry out in its
  own way is the sort of the required general-education courses; for the same
  requirements and options, any two sorts that keep the promise of the language (a stable
  sort by the comparator) give the same sequence of semesters, with the same courses, credits
  and types.
\<close>

theorem generator_deterministic:
  assumes "sortsStably sort1 foundationFirst" and "sortsStably sort2 foundationFirst"
  shows "generateDegreePlan sort1 requirements options
         = generateDegreePlan sort2 requirements options"
  using assms by (rule generateDegreePlan_sort)

text \<open>
  C8, at a concrete input.
  The insertion sort and the partition sort are two such sorts, and they give one plan
  for the sample requirements: the fixed first semester, a regular semester and a summer.
\<close>

theorem generator_deterministic_witness:
  "sortsStably insertionSort foundationFirst \<and>
   sortsStably partitionSort foundationFirst \<and>
   generateDegreePlan insertionSort sampleRequirements sampleOptions
     = generateDegreePlan partitionSort sampleRequirements sampleOptions \<and>
   map (\<lambda>p. (p_semester p, map c_code (p_courses p), p_credits p, p_type p))
     (generateDegreePlan insertionSort sampleRequirements sampleOptions)
     = [(1, [''ARB 1241'', ''CSC 1401'', ''ENG 1301'', ''FAS 0210'', ''FYE 1101'', ''MTH 1303''],
         Num 15, regular),
        (2, [''MTH 1304'', ''PHY 1401'', ''CSC 2302'', ''FYE 1102'', ''FAS 1220'', ''ENG 2303''],
         Num 15, regular),
        (3, [''COM 1301'', ''FRN 3210''], Num 5, summer)]"
proof -
  have run: "map (\<lambda>p. (p_semester p, map c_code (p_courses p), p_credits p, p_type p))
     (generateDegreePlan insertionSort sampleRequirements sampleOptions)
     = [(1, [''ARB 1241'', ''CSC 1401'', ''ENG 1301'', ''FAS 0210'', ''FYE 1101'', ''MTH 1303''],
         Num 15, regular),
        (2, [''MTH 1304'', ''PHY 1401'', ''CSC 2302'', ''FYE 1102'', ''FAS 1220'', ''ENG 2303''],
         Num 15, regular),
        (3, [''COM 1301'', ''FRN 3210''], Num 5, summer)]"
    by code_simp
  from generator_deterministic [OF sortsStably_insertionSort sortsStably_partitionSort]
  have "generateDegreePlan insertionSort sampleRequirements sampleOptions
        = generateDegreePlan partitionSort sampleRequirements sampleOptions" .
  with run sortsStably_insertionSort sortsStably_partitionSort show ?thesis
    by (simp only: simp_thms)
qed

end
